(* ===== verification/Prelude.thy ===== *)
theory Prelude
  imports Main
begin

text \<open>
  Shared vocabulary of the memo-app development: the collections of rewrite rules the
  component theories register into, and the semantics of the JavaScript built-ins that
  \<^verbatim>\<open>src/src/index.ts\<close> calls (array reads that may be \<^verbatim>\<open>undefined\<close>,
  \<^verbatim>\<open>Array.prototype.findIndex\<close>, \<^verbatim>\<open>Number.prototype.toString\<close> on
  non-negative integers), with the generic lemmas about them.
\<close>

named_theorems handler_simps
  \<open>characteristic equations of the event handlers of index.ts\<close>
named_theorems view_simps
  \<open>equations of the DOM helpers, used when unfolding a handler\<close>

type_synonym timestamp = nat
  \<comment> \<open>\<^verbatim>\<open>Date.now()\<close>: milliseconds since the epoch, a non-negative integer\<close>

section \<open>Array reads\<close>

text \<open>
  \<^verbatim>\<open>xs[i]\<close> on a JavaScript array is \<^verbatim>\<open>undefined\<close> when \<open>i\<close> is negative or past
  the end; here it is \<open>None\<close>.
\<close>

definition js_get :: "'a list \<Rightarrow> int \<Rightarrow> 'a option" where
  "js_get xs i = (if 0 \<le> i \<and> i < int (length xs) then Some (xs ! nat i) else None)"

lemma js_get_Some_iff [simp]:
  "js_get xs i = Some x \<longleftrightarrow> 0 \<le> i \<and> i < int (length xs) \<and> xs ! nat i = x"
  by (auto simp: js_get_def)

lemma js_get_None_iff [simp]:
  "js_get xs i = None \<longleftrightarrow> i < 0 \<or> int (length xs) \<le> i"
  by (auto simp: js_get_def)

lemma js_get_neg [simp]: "i < 0 \<Longrightarrow> js_get xs i = None"
  by (simp add: js_get_def)

lemma js_get_nat [simp]: "js_get xs (int k) = (if k < length xs then Some (xs ! k) else None)"
  by (simp add: js_get_def)

section \<open>findIndex\<close>

text \<open>\<^verbatim>\<open>xs.findIndex(p)\<close>: the first index whose element satisfies \<open>p\<close>, else \<open>-1\<close>.\<close>

fun findIndex :: "('a \<Rightarrow> bool) \<Rightarrow> 'a list \<Rightarrow> int" where
  "findIndex p [] = -1"
| "findIndex p (x # xs) = (if p x then 0 else (let i = findIndex p xs in if i < 0 then -1 else i + 1))"

lemma findIndex_ge: "-1 \<le> findIndex p xs"
  by (induction xs) (auto simp: Let_def)

lemma findIndex_neg_iff: "findIndex p xs < 0 \<longleftrightarrow> (\<forall>x \<in> set xs. \<not> p x)"
  by (induction xs) (auto simp: Let_def)

lemma findIndex_lt_length: "findIndex p xs < int (length xs)"
  by (induction xs) (auto simp: Let_def)

lemma findIndex_found:
  "0 \<le> findIndex p xs \<Longrightarrow> p (xs ! nat (findIndex p xs))"
proof (induction xs)
  case Nil
  then show ?case by simp
next
  case (Cons x xs)
  then show ?case
    by (auto simp: Let_def nat_add_distrib split: if_splits)
qed

lemma findIndex_first:
  "0 \<le> findIndex p xs \<Longrightarrow> j < nat (findIndex p xs) \<Longrightarrow> \<not> p (xs ! j)"
proof (induction xs arbitrary: j)
  case Nil
  then show ?case by simp
next
  case (Cons x xs)
  then show ?case
    by (cases j) (auto simp: Let_def nat_add_distrib split: if_splits)
qed

lemma findIndex_nth_eq:
  "k < length xs \<Longrightarrow> p (xs ! k) \<Longrightarrow> (\<forall>j < k. \<not> p (xs ! j)) \<Longrightarrow> findIndex p xs = int k"
proof (induction xs arbitrary: k)
  case Nil
  then show ?case by simp
next
  case (Cons x xs)
  show ?case
  proof (cases k)
    case 0
    with Cons.prems show ?thesis by simp
  next
    case (Suc k')
    with Cons.prems have "findIndex p xs = int k'"
      by (intro Cons.IH) auto
    with Cons.prems Suc show ?thesis by (auto simp: Let_def)
  qed
qed

section \<open>Exceptions that keep the state\<close>

text \<open>
  An exception thrown inside a browser event handler ends the handler; the mutations the
  handler made before the throw stay. So an outcome is the state reached, marked
  \<open>Thrown\<close> when the handler stopped at an exception. \<open>then_do\<close> sequences two
  steps of a handler.
\<close>

datatype js_error = TypeError

datatype 's outcome = Done 's | Thrown js_error 's

fun then_do :: "'s outcome \<Rightarrow> ('s \<Rightarrow> 's outcome) \<Rightarrow> 's outcome" where
  "then_do (Done s) f = f s"
| "then_do (Thrown e s) f = Thrown e s"

fun final_state :: "'s outcome \<Rightarrow> 's" where
  "final_state (Done s) = s"
| "final_state (Thrown e s) = s"

lemma then_do_Done_iff [simp]:
  "then_do m f = Done s \<longleftrightarrow> (\<exists>s0. m = Done s0 \<and> f s0 = Done s)"
  by (cases m) auto

lemma then_do_assoc: "then_do (then_do m f) g = then_do m (\<lambda>s. then_do (f s) g)"
  by (cases m) auto

section \<open>Decimal rendering of non-negative integers\<close>

text \<open>
  \<^verbatim>\<open>n.toString()\<close> and template interpolation \<^verbatim>\<open>${n}\<close> of a non-negative
  integer: its decimal digits, most significant first, no leading zeros.
\<close>

definition digit_char :: "nat \<Rightarrow> char" where
  "digit_char d = ''0123456789'' ! d"

fun show_nat :: "nat \<Rightarrow> string" where
  "show_nat n = (if n < 10 then [digit_char n] else show_nat (n div 10) @ [digit_char (n mod 10)])"

declare show_nat.simps [simp del]

definition is_digit :: "char \<Rightarrow> bool" where
  "is_digit c \<longleftrightarrow> (48::nat) \<le> of_char c \<and> of_char c < (58::nat)"

definition digit_val :: "char \<Rightarrow> nat" where
  "digit_val c = of_char c - 48"

definition read_nat :: "string \<Rightarrow> nat" where
  "read_nat cs = foldl (\<lambda>acc c. 10 * acc + digit_val c) 0 cs"

lemma less_10_cases:
  "(d::nat) < 10 \<Longrightarrow> d \<in> {0, 1, 2, 3, 4, 5, 6, 7, 8, 9}"
  by auto

lemma digit_char_is_digit [simp]: "d < 10 \<Longrightarrow> is_digit (digit_char d)"
  by (drule less_10_cases) (auto simp: digit_char_def is_digit_def)

lemma digit_val_digit_char [simp]: "d < 10 \<Longrightarrow> digit_val (digit_char d) = d"
  by (drule less_10_cases) (auto simp: digit_char_def digit_val_def)

lemma read_nat_snoc [simp]: "read_nat (cs @ [c]) = 10 * read_nat cs + digit_val c"
  by (simp add: read_nat_def)

lemma show_nat_digits: "\<forall>c \<in> set (show_nat n). is_digit c"
  by (induction n rule: show_nat.induct) (subst show_nat.simps, auto)

lemma show_nat_ne [simp]: "show_nat n \<noteq> []"
  by (subst show_nat.simps) simp

lemma read_show_nat [simp]: "read_nat (show_nat n) = n"
proof (induction n rule: show_nat.induct)
  case (1 n)
  show ?case
  proof (cases "n < 10")
    case True
    then show ?thesis by (subst show_nat.simps) (simp add: read_nat_def)
  next
    case False
    with "1.IH" show ?thesis by (subst show_nat.simps) simp
  qed
qed

lemma length_show_nat: "10 ^ k \<le> n \<Longrightarrow> n < 10 ^ Suc k \<Longrightarrow> length (show_nat n) = Suc k"
proof (induction k arbitrary: n)
  case 0
  then show ?case by (subst show_nat.simps) simp
next
  case (Suc k)
  have "(10::nat) \<le> 10 ^ Suc k"
    using one_le_power [of "10::nat" k] by simp
  with Suc.prems(1) have big: "\<not> n < 10" by linarith
  have "10 ^ k \<le> n div 10"
    using Suc.prems(1) div_le_mono [of "10 ^ Suc k" n 10] by simp
  moreover have "n div 10 < 10 ^ Suc k"
    using Suc.prems(2) by (intro less_mult_imp_div_less) (simp add: mult.commute)
  ultimately have "length (show_nat (n div 10)) = Suc k" by (rule Suc.IH)
  with big show ?case by (subst show_nat.simps) simp
qed

lemma show_nat_inj: "show_nat m = show_nat n \<longleftrightarrow> m = n"
  by (metis read_show_nat)

end
