(* ===== verification/Memo.thy ===== *)
theory Memo
  imports Prelude
begin

text \<open>
  The memo entity (\<^verbatim>\<open>Memo\<close> of \<^verbatim>\<open>./types\<close>, whose fields are the ones
  \<^verbatim>\<open>newMemo\<close> of \<^verbatim>\<open>src/src/index.ts\<close> writes) and the constructor
  \<^verbatim>\<open>newMemo\<close>, which reads the clock and the length of the global memo list.
  The field \<open>id\<close> is \<open>memo_id\<close> here, since \<open>id\<close> is the identity function of HOL.
\<close>

record memo =
  memo_id :: string
  title :: string
  body :: string
  createdAt :: timestamp
  updateAt :: timestamp

text \<open>
  \<^verbatim>\<open>newMemo()\<close>: the id is the decimal timestamp followed by the decimal length of
  the memo list, the title \<^verbatim>\<open>new memo {length + 1}\<close>. The global \<^verbatim>\<open>memos\<close>
  and \<^verbatim>\<open>Date.now()\<close> are parameters.
\<close>

definition newMemo :: "timestamp \<Rightarrow> memo list \<Rightarrow> memo" where
  "newMemo timestamp memos =
     \<lparr>memo_id = show_nat timestamp @ show_nat (length memos),
      title = ''new memo '' @ show_nat (length memos + 1),
      body = [],
      createdAt = timestamp,
      updateAt = timestamp\<rparr>"

text \<open>The ids of a memo list, in order.\<close>

abbreviation ids :: "memo list \<Rightarrow> string list" where
  "ids ms \<equiv> map memo_id ms"

lemma newMemo_fields [simp]:
  "title (newMemo t ms) = ''new memo '' @ show_nat (length ms + 1)"
  "body (newMemo t ms) = []"
  "createdAt (newMemo t ms) = t"
  "updateAt (newMemo t ms) = t"
  "memo_id (newMemo t ms) = show_nat t @ show_nat (length ms)"
  by (simp_all add: newMemo_def)

text \<open>
  Reading the id back: when two timestamps have the same number of digits (true of every
  \<^verbatim>\<open>Date.now()\<close> between 2001 and 2286), the concatenation determines both the
  timestamp and the list length.
\<close>

lemma show_nat_append_inj:
  assumes "length (show_nat a) = length (show_nat c)"
    and "show_nat a @ show_nat b = show_nat c @ show_nat d"
  shows "a = c \<and> b = d"
proof -
  from assms(2) have "show_nat a = show_nat c \<and> show_nat b = show_nat d"
    by (rule append_eq_append_conv [THEN iffD1, OF disjI1, OF assms(1)])
  then show ?thesis by (simp add: show_nat_inj)
qed

lemma newMemo_id_inj:
  assumes "length (show_nat t) = length (show_nat t')"
  shows "memo_id (newMemo t ms) = memo_id (newMemo t' ms') \<longleftrightarrow> t = t' \<and> length ms = length ms'"
proof
  assume "memo_id (newMemo t ms) = memo_id (newMemo t' ms')"
  then have "show_nat t @ show_nat (length ms) = show_nat t' @ show_nat (length ms')"
    by simp
  with assms show "t = t' \<and> length ms = length ms'"
    by (rule show_nat_append_inj)
next
  assume "t = t' \<and> length ms = length ms'"
  then show "memo_id (newMemo t ms) = memo_id (newMemo t' ms')"
    by simp
qed

end
