(* ===== verification/View.thy ===== *)
theory View
  imports Memo
begin

text \<open>
  The part of the page \<^verbatim>\<open>src/src/index.ts\<close> reads and writes (lines 9-18), and
  its DOM helpers (lines 79-161). The page is a record of exactly the element properties
  the code touches: the children of \<^verbatim>\<open>#list\<close> (text, \<^verbatim>\<open>data-id\<close>, class
  \<^verbatim>\<open>active\<close>), the values and \<^verbatim>\<open>disabled\<close>/\<^verbatim>\<open>hidden\<close> attributes of the
  title and body fields, the preview, the \<^verbatim>\<open>hidden\<close> attributes of the save and edit
  buttons, the download link and the alerts shown. The preview holds the markdown source
  whose rendering was requested: \<^verbatim>\<open>marked\<close> is an external library, its failures
  are caught and logged, and its output is not modelled.
\<close>

record list_item =
  item_text :: string
  data_id :: string
  active :: bool

datatype notice = CannotDeleteLast
  \<comment> \<open>the \<^verbatim>\<open>alert\<close> of \<^verbatim>\<open>clickDeleteMemo\<close>: no further memo can be deleted\<close>

record view =
  list_items :: "list_item list"
  title_value :: string
  body_value :: string
  title_disabled :: bool
  body_disabled :: bool
  body_hidden :: bool
  preview_hidden :: bool
  preview_src :: "string option"
  save_hidden :: bool
  edit_hidden :: bool
  download :: "(string \<times> string) option"
  alerts :: "notice list"

datatype button = SaveButton | EditButton

section \<open>DOM helpers\<close>

text \<open>\<^verbatim>\<open>newMemoElement(memo)\<close>: a \<^verbatim>\<open>div\<close> with the title and the id, not active.\<close>

definition newMemoElement :: "memo \<Rightarrow> list_item" where
  "newMemoElement m = \<lparr>item_text = title m, data_id = memo_id m, active = False\<rparr>"

text \<open>\<^verbatim>\<open>clearMemoElements\<close> empties the list; \<^verbatim>\<open>showMemoElements\<close> clears it and appends one element per memo.\<close>

definition clearMemoElements :: "view \<Rightarrow> view" where
  "clearMemoElements v = v\<lparr>list_items := []\<rparr>"

definition showMemoElements :: "memo list \<Rightarrow> view \<Rightarrow> view" where
  "showMemoElements memos v =
     (let v' = clearMemoElements v in v'\<lparr>list_items := list_items v' @ map newMemoElement memos\<rparr>)"

text \<open>
  \<^verbatim>\<open>setActiveStyle(index, isActive)\<close>: the selector
  \<^verbatim>\<open>#list > div:nth-child(index)\<close> is 1-based; when no child has that position,
  \<^verbatim>\<open>querySelector\<close> returns \<^verbatim>\<open>null\<close> and reading its \<^verbatim>\<open>classList\<close> throws.
\<close>

definition setActiveStyle :: "int \<Rightarrow> bool \<Rightarrow> view \<Rightarrow> view outcome" where
  "setActiveStyle index isActive v =
     (if 1 \<le> index \<and> index \<le> int (length (list_items v))
      then (let k = nat (index - 1) in
            Done (v\<lparr>list_items := (list_items v)[k := (list_items v ! k)\<lparr>active := isActive\<rparr>]\<rparr>))
      else Thrown TypeError v)"

text \<open>
  \<^verbatim>\<open>setMemoElement()\<close>: reads \<^verbatim>\<open>memos[memoIndex]\<close>; on \<^verbatim>\<open>undefined\<close> the
  read of \<^verbatim>\<open>memo.title\<close> throws. Otherwise the fields get the title and the body
  and the preview is asked to render the body.
\<close>

definition setMemoElement :: "memo list \<Rightarrow> int \<Rightarrow> view \<Rightarrow> view outcome" where
  "setMemoElement memos memoIndex v =
     (case js_get memos memoIndex of
        None \<Rightarrow> Thrown TypeError v
      | Some m \<Rightarrow> Done (v\<lparr>title_value := title m, body_value := body m, preview_src := Some (body m)\<rparr>))"

text \<open>
  \<^verbatim>\<open>setHiddenButton(button, isHidden)\<close>: despite the parameter's name, \<open>True\<close>
  removes the \<^verbatim>\<open>hidden\<close> attribute (shows the button) and \<open>False\<close> sets it.
\<close>

definition setHiddenButton :: "button \<Rightarrow> bool \<Rightarrow> view \<Rightarrow> view" where
  "setHiddenButton b isHidden v =
     (case b of
        SaveButton \<Rightarrow> v\<lparr>save_hidden := \<not> isHidden\<rparr>
      | EditButton \<Rightarrow> v\<lparr>edit_hidden := \<not> isHidden\<rparr>)"

text \<open>\<^verbatim>\<open>setEditMode(editMode)\<close>: edit mode enables both fields and shows the textarea instead of the preview.\<close>

definition setEditMode :: "bool \<Rightarrow> view \<Rightarrow> view" where
  "setEditMode editMode v =
     (if editMode
      then v\<lparr>title_disabled := False, body_disabled := False, body_hidden := False, preview_hidden := True\<rparr>
      else v\<lparr>title_disabled := True, body_disabled := True, body_hidden := True, preview_hidden := False\<rparr>)"

section \<open>The rendered list\<close>

text \<open>The list as the code leaves it: one element per memo, only the one at \<open>i\<close> active.\<close>

definition items_of :: "memo list \<Rightarrow> nat \<Rightarrow> list_item list" where
  "items_of memos i = (map newMemoElement memos)[i := (newMemoElement (memos ! i))\<lparr>active := True\<rparr>]"

lemma showMemoElements_items [simp, view_simps]:
  "list_items (showMemoElements memos v) = map newMemoElement memos"
  by (simp add: showMemoElements_def clearMemoElements_def)

lemma showMemoElements_other [simp, view_simps]:
  "title_value (showMemoElements memos v) = title_value v"
  "body_value (showMemoElements memos v) = body_value v"
  "save_hidden (showMemoElements memos v) = save_hidden v"
  "edit_hidden (showMemoElements memos v) = edit_hidden v"
  "title_disabled (showMemoElements memos v) = title_disabled v"
  "body_disabled (showMemoElements memos v) = body_disabled v"
  "body_hidden (showMemoElements memos v) = body_hidden v"
  "preview_hidden (showMemoElements memos v) = preview_hidden v"
  "preview_src (showMemoElements memos v) = preview_src v"
  "alerts (showMemoElements memos v) = alerts v"
  by (simp_all add: showMemoElements_def clearMemoElements_def)

lemma setActiveStyle_Done_iff:
  "setActiveStyle index b v = Done v' \<longleftrightarrow>
     1 \<le> index \<and> index \<le> int (length (list_items v)) \<and>
     v' = v\<lparr>list_items := (list_items v)[nat (index - 1) := (list_items v ! nat (index - 1))\<lparr>active := b\<rparr>]\<rparr>"
  by (auto simp: setActiveStyle_def Let_def)

lemma setActiveStyle_after_show [view_simps]:
  "i < length memos \<Longrightarrow>
   setActiveStyle (int i + 1) True (showMemoElements memos v) =
     Done ((showMemoElements memos v)\<lparr>list_items := items_of memos i\<rparr>)"
  by (simp add: setActiveStyle_def items_of_def)

lemma setMemoElement_Done [view_simps]:
  "i < length memos \<Longrightarrow>
   setMemoElement memos (int i) v =
     Done (v\<lparr>title_value := title (memos ! i), body_value := body (memos ! i), preview_src := Some (body (memos ! i))\<rparr>)"
  by (simp add: setMemoElement_def)

lemma setMemoElement_Thrown:
  assumes "memoIndex < 0 \<or> int (length memos) \<le> memoIndex"
  shows "setMemoElement memos memoIndex v = Thrown TypeError v"
proof -
  from assms have "js_get memos memoIndex = None" by simp
  then show ?thesis by (simp add: setMemoElement_def del: js_get_None_iff)
qed

lemma items_of_active:
  "i < length memos \<Longrightarrow> j < length memos \<Longrightarrow> active (items_of memos i ! j) \<longleftrightarrow> j = i"
  by (simp add: items_of_def newMemoElement_def nth_list_update)

lemma items_of_ids: "map data_id (items_of memos i) = ids memos"
proof (cases "i < length memos")
  case True
  then have "(ids memos)[i := memo_id (memos ! i)] = ids memos"
    by (metis list_update_id nth_map)
  then show ?thesis by (simp add: items_of_def newMemoElement_def map_update comp_def)
qed (simp add: items_of_def newMemoElement_def comp_def list_update_beyond)

end
