(* ===== verification/Json.thy ===== *)
theory Json
  imports Prelude
begin

text \<open>
  The JSON layer under the storage adapter: \<^verbatim>\<open>JSON.stringify\<close> as a printer
  and \<^verbatim>\<open>JSON.parse\<close> as a parser. \<^verbatim>\<open>storage.ts\<close> is not part of the
  sources, so this theory follows the spec (section 4.1 and 6: the persisted value is a
  JSON array of memo objects) and the ECMAScript definitions of the two functions, on the
  fragment the memo list uses: \<open>null\<close>, booleans, integers, strings, arrays and
  objects. A JavaScript string is a \<open>char list\<close> here, one \<open>char\<close> per code unit below
  256. The parser reads fractions and exponents as malformed input, and \<^verbatim>\<open>\u\<close>
  escapes of code units above 255 likewise.

  The parser is a family of mutually recursive functions with a fuel argument, since
  its recursion is on the remainder that a nested call returns. Theorems below show
  that \<open>2 * length s + 2\<close> units of fuel decide every input (more fuel never changes
  the result), so the fuel bound of \<open>json_parse\<close> is the unbounded parser.
\<close>

datatype json =
    JNull
  | JBool bool
  | JNum int
  | JStr string
  | JArr "json list"
  | JObj "(string \<times> json) list"

section \<open>Printing: JSON.stringify\<close>

abbreviation quote_c :: char where "quote_c \<equiv> CHR 0x22"
abbreviation bslash_c :: char where "bslash_c \<equiv> CHR 0x5C"

definition hex_char :: "nat \<Rightarrow> char" where
  "hex_char d = ''0123456789abcdef'' ! d"

text \<open>
  \<^verbatim>\<open>QuoteJSONString\<close>: quote and backslash are escaped, the five control characters
  with a short escape get it, the other control characters become \<^verbatim>\<open>\u00XX\<close> in
  lower-case hexadecimal, everything else is copied.
\<close>

definition esc_char :: "char \<Rightarrow> string" where
  "esc_char c =
     (if c = quote_c then [bslash_c, quote_c]
      else if c = bslash_c then [bslash_c, bslash_c]
      else if c = CHR 0x08 then [bslash_c, CHR ''b'']
      else if c = CHR 0x0C then [bslash_c, CHR ''f'']
      else if c = CHR 0x0A then [bslash_c, CHR ''n'']
      else if c = CHR 0x0D then [bslash_c, CHR ''r'']
      else if c = CHR 0x09 then [bslash_c, CHR ''t'']
      else if of_char c < (32::nat)
        then [bslash_c, CHR ''u'', CHR ''0'', CHR ''0'', hex_char (of_char c div 16), hex_char (of_char c mod 16)]
      else [c])"

definition print_str :: "string \<Rightarrow> string" where
  "print_str s = quote_c # concat (map esc_char s) @ [quote_c]"

definition print_int :: "int \<Rightarrow> string" where
  "print_int i = (if i < 0 then CHR ''-'' # show_nat (nat (- i)) else show_nat (nat i))"

text \<open>\<^verbatim>\<open>Array.prototype.join(",")\<close> over the printed elements.\<close>

fun join_comma :: "string list \<Rightarrow> string" where
  "join_comma [] = []"
| "join_comma [x] = x"
| "join_comma (x # xs) = x @ CHR '','' # join_comma xs"

fun print_json :: "json \<Rightarrow> string" where
  "print_json JNull = ''null''"
| "print_json (JBool b) = (if b then ''true'' else ''false'')"
| "print_json (JNum i) = print_int i"
| "print_json (JStr s) = print_str s"
| "print_json (JArr js) = CHR ''['' # join_comma (map print_json js) @ '']''"
| "print_json (JObj kvs) =
     CHR ''{'' # join_comma (map (\<lambda>(k, v). print_str k @ CHR '':'' # print_json v) kvs) @ ''}''"

section \<open>Parsing: JSON.parse\<close>

definition is_ws :: "char \<Rightarrow> bool" where
  "is_ws c \<longleftrightarrow> c = CHR '' '' \<or> c = CHR 0x09 \<or> c = CHR 0x0A \<or> c = CHR 0x0D"

abbreviation skip_ws :: "string \<Rightarrow> string" where
  "skip_ws s \<equiv> dropWhile is_ws s"

definition hex_val :: "char \<Rightarrow> nat option" where
  "hex_val c =
     (let n = of_char c :: nat in
      if 48 \<le> n \<and> n < 58 then Some (n - 48)
      else if 97 \<le> n \<and> n < 103 then Some (n - 87)
      else if 65 \<le> n \<and> n < 71 then Some (n - 55)
      else None)"

definition hex4 :: "char \<Rightarrow> char \<Rightarrow> char \<Rightarrow> char \<Rightarrow> nat option" where
  "hex4 a b c d =
     (case (hex_val a, hex_val b, hex_val c, hex_val d) of
        (Some w, Some x, Some y, Some z) \<Rightarrow> Some (((w * 16 + x) * 16 + y) * 16 + z)
      | _ \<Rightarrow> None)"

text \<open>The single-character escapes of JSON, the character each stands for.\<close>

definition short_esc :: "char \<Rightarrow> char option" where
  "short_esc e =
     (if e = quote_c \<or> e = bslash_c \<or> e = CHR ''/'' then Some e
      else if e = CHR ''b'' then Some (CHR 0x08)
      else if e = CHR ''f'' then Some (CHR 0x0C)
      else if e = CHR ''n'' then Some (CHR 0x0A)
      else if e = CHR ''r'' then Some (CHR 0x0D)
      else if e = CHR ''t'' then Some (CHR 0x09)
      else None)"

text \<open>
  The body of a string literal after its opening quote: the characters read so far are
  kept reversed in \<open>acc\<close>; the result is the string and what follows the closing quote.
  A raw control character, an unknown escape or a missing closing quote is an error.
\<close>

fun parse_str_body :: "string \<Rightarrow> string \<Rightarrow> (string \<times> string) option" where
  "parse_str_body acc [] = None"
| "parse_str_body acc (c # cs) =
     (if c = quote_c then Some (rev acc, cs)
      else if c = bslash_c then
        (case cs of
           [] \<Rightarrow> None
         | e # cs' \<Rightarrow>
             (case short_esc e of
                Some x \<Rightarrow> parse_str_body (x # acc) cs'
              | None \<Rightarrow>
                  (if e = CHR ''u'' then
                     (case cs' of
                        h1 # h2 # h3 # h4 # rest \<Rightarrow>
                          (case hex4 h1 h2 h3 h4 of
                             Some v \<Rightarrow> if v < 256 then parse_str_body (char_of v # acc) rest else None
                           | None \<Rightarrow> None)
                      | _ \<Rightarrow> None)
                   else None)))
      else if of_char c < (32::nat) then None
      else parse_str_body (c # acc) cs)"

text \<open>
  An integer: an optional minus sign, then \<open>0\<close> or digits without a leading zero.
  A fraction or an exponent after it is rejected (outside the modelled fragment).
\<close>

definition parse_num :: "string \<Rightarrow> (json \<times> string) option" where
  "parse_num s =
     (let neg = (s \<noteq> [] \<and> hd s = CHR ''-'');
          s1 = (if neg then tl s else s);
          ds = takeWhile is_digit s1;
          r = dropWhile is_digit s1
      in if ds = [] \<or> (hd ds = CHR ''0'' \<and> tl ds \<noteq> [])
           \<or> (r \<noteq> [] \<and> hd r \<in> {CHR ''.'', CHR ''e'', CHR ''E''})
         then None
         else Some (JNum (if neg then - int (read_nat ds) else int (read_nat ds)), r))"

text \<open>
  Values, array elements (after the opening bracket of a non-empty array) and object
  members (after the opening brace of a non-empty object). Each call spends one unit of
  fuel.
\<close>

fun parse_value :: "nat \<Rightarrow> string \<Rightarrow> (json \<times> string) option"
and parse_elems :: "nat \<Rightarrow> string \<Rightarrow> (json list \<times> string) option"
and parse_members :: "nat \<Rightarrow> string \<Rightarrow> ((string \<times> json) list \<times> string) option" where
  "parse_value 0 s = None"
| "parse_value (Suc n) s =
     (case skip_ws s of
        [] \<Rightarrow> None
      | c # cs \<Rightarrow>
          if c = CHR ''['' then
            (case skip_ws cs of
               d # r \<Rightarrow> if d = CHR '']'' then Some (JArr [], r)
                        else map_option (\<lambda>(xs, r). (JArr xs, r)) (parse_elems n cs)
             | [] \<Rightarrow> None)
          else if c = CHR ''{'' then
            (case skip_ws cs of
               d # r \<Rightarrow> if d = CHR ''}'' then Some (JObj [], r)
                        else map_option (\<lambda>(kvs, r). (JObj kvs, r)) (parse_members n cs)
             | [] \<Rightarrow> None)
          else if c = quote_c then map_option (\<lambda>(str, r). (JStr str, r)) (parse_str_body [] cs)
          else if take 4 (c # cs) = ''null'' then Some (JNull, drop 4 (c # cs))
          else if take 4 (c # cs) = ''true'' then Some (JBool True, drop 4 (c # cs))
          else if take 5 (c # cs) = ''false'' then Some (JBool False, drop 5 (c # cs))
          else parse_num (c # cs))"
| "parse_elems 0 s = None"
| "parse_elems (Suc n) s =
     (case parse_value n s of
        None \<Rightarrow> None
      | Some (v, r) \<Rightarrow>
          (case skip_ws r of
             d # r' \<Rightarrow>
               if d = CHR '','' then
                 (case parse_elems n r' of None \<Rightarrow> None | Some (vs, r'') \<Rightarrow> Some (v # vs, r''))
               else if d = CHR '']'' then Some ([v], r')
               else None
           | [] \<Rightarrow> None))"
| "parse_members 0 s = None"
| "parse_members (Suc n) s =
     (case skip_ws s of
        c # cs \<Rightarrow>
          if c \<noteq> quote_c then None else
          (case parse_str_body [] cs of
             None \<Rightarrow> None
           | Some (k, r) \<Rightarrow>
               (case skip_ws r of
                  d # r' \<Rightarrow>
                    if d \<noteq> CHR '':'' then None else
                    (case parse_value n r' of
                       None \<Rightarrow> None
                     | Some (v, r'') \<Rightarrow>
                         (case skip_ws r'' of
                            e # r3 \<Rightarrow>
                              if e = CHR '','' then
                                (case parse_members n r3 of
                                   None \<Rightarrow> None
                                 | Some (kvs, r4) \<Rightarrow> Some ((k, v) # kvs, r4))
                              else if e = CHR ''}'' then Some ([(k, v)], r3)
                              else None
                          | [] \<Rightarrow> None))
                | [] \<Rightarrow> None))
      | [] \<Rightarrow> None)"

text \<open>\<^verbatim>\<open>JSON.parse(s)\<close>: one value, surrounded by white space only.\<close>

definition json_parse :: "string \<Rightarrow> json option" where
  "json_parse s =
     (case parse_value (2 * length s + 2) s of
        Some (v, r) \<Rightarrow> if skip_ws r = [] then Some v else None
      | None \<Rightarrow> None)"

section \<open>The round trip\<close>

text \<open>
  Vocabulary of the round-trip proof: the fuel a printed value needs, and the characters
  that may follow a value (a delimiter of the enclosing array or object, or the end).
\<close>

definition num_delim :: "string \<Rightarrow> bool" where
  "num_delim r \<longleftrightarrow> r = [] \<or> (\<not> is_digit (hd r) \<and> hd r \<notin> {CHR ''.'', CHR ''e'', CHR ''E''})"

fun jfuel :: "json \<Rightarrow> nat" where
  "jfuel (JArr js) = Suc (sum_list (map (\<lambda>v. Suc (jfuel v)) js))"
| "jfuel (JObj kvs) = Suc (sum_list (map (\<lambda>kv. Suc (jfuel (snd kv))) kvs))"
| "jfuel _ = 1"

definition delim :: "string \<Rightarrow> bool" where
  "delim r \<longleftrightarrow> r = [] \<or> hd r \<in> {CHR '','', CHR '']'', CHR ''}''}"

abbreviation print_member :: "string \<times> json \<Rightarrow> string" where
  "print_member kv \<equiv> print_str (fst kv) @ CHR '':'' # print_json (snd kv)"

text \<open>
  Escaping and reading back a string, printing and reading back an integer, then values,
  array elements and object members by induction on the value. \<open>jfuel\<close> never
  exceeds the printed length, so the fuel of \<open>json_parse\<close> suffices.
\<close>

lemma less_16_cases:
  "(d::nat) < 16 \<Longrightarrow> d \<in> {0, 1, 2, 3, 4, 5, 6, 7, 8, 9, 10, 11, 12, 13, 14, 15}"
  by (simp add: less_Suc_eq numeral_eq_Suc)

lemma hex_val_hex_char [simp]: "d < 16 \<Longrightarrow> hex_val (hex_char d) = Some d"
  by (drule less_16_cases) (auto simp: hex_char_def hex_val_def)

lemma hex_val_zero [simp]: "hex_val (CHR ''0'') = Some 0"
  by (simp add: hex_val_def)

lemma hex4_esc: "n < 32 \<Longrightarrow> hex4 (CHR ''0'') (CHR ''0'') (hex_char (n div 16)) (hex_char (n mod 16)) = Some n"
proof -
  assume "n < 32"
  then have "n div 16 < 16" "n mod 16 < 16" by simp_all
  then show ?thesis by (simp add: hex4_def)
qed

lemma parse_str_body_esc_char:
  "parse_str_body acc (esc_char c @ rest) = parse_str_body (c # acc) rest"
proof -
  consider "c = quote_c" | "c = bslash_c" | "c = CHR 0x08" | "c = CHR 0x0C" | "c = CHR 0x0A"
    | "c = CHR 0x0D" | "c = CHR 0x09"
    | "c \<notin> {quote_c, bslash_c, CHR 0x08, CHR 0x0C, CHR 0x0A, CHR 0x0D, CHR 0x09}" "of_char c < (32::nat)"
    | "c \<notin> {quote_c, bslash_c}" "\<not> of_char c < (32::nat)"
    by fastforce
  then show ?thesis
  proof cases
    case 8
    then have "short_esc (CHR ''u'') = None" "of_char c div 16 < (16::nat)" "of_char c mod 16 < (16::nat)"
      by (auto simp: short_esc_def)
    with 8 show ?thesis
      by (simp add: esc_char_def hex4_esc)
  next
    case 9
    then have "c \<noteq> CHR 0x08 \<and> c \<noteq> CHR 0x0C \<and> c \<noteq> CHR 0x0A \<and> c \<noteq> CHR 0x0D \<and> c \<noteq> CHR 0x09"
      by auto
    with 9 show ?thesis by (simp add: esc_char_def)
  qed (simp_all add: esc_char_def short_esc_def)
qed

lemma parse_str_body_print:
  "parse_str_body acc (concat (map esc_char s) @ quote_c # r) = Some (rev acc @ s, r)"
  by (induction s arbitrary: acc) (simp_all add: parse_str_body_esc_char)

lemma show_nat_lead_zero: "show_nat n = c # cs \<Longrightarrow> c = CHR ''0'' \<Longrightarrow> cs = []"
proof (induction n arbitrary: c cs rule: show_nat.induct)
  case (1 n)
  show ?case
  proof (cases "n < 10")
    case True
    with "1.prems" show ?thesis by (subst (asm) show_nat.simps) simp
  next
    case False
    obtain c' cs' where sn: "show_nat (n div 10) = c' # cs'"
      by (cases "show_nat (n div 10)") simp_all
    with False "1.prems" have "c' = CHR ''0''"
      by (subst (asm) show_nat.simps) simp
    with False sn "1.IH" have "show_nat (n div 10) = ''0''" by simp
    then have "read_nat (show_nat (n div 10)) = 0"
      by (simp add: read_nat_def digit_val_def)
    with False show ?thesis by simp
  qed
qed

lemma digits_split:
  assumes "\<forall>c \<in> set ds. is_digit c" and "r = [] \<or> \<not> is_digit (hd r)"
  shows "takeWhile is_digit (ds @ r) = ds" "dropWhile is_digit (ds @ r) = r"
  using assms by (cases r, simp_all add: takeWhile_append2 dropWhile_append2)+

lemma is_digit_not [simp]:
  "is_digit c \<Longrightarrow> c \<noteq> CHR ''-'' \<and> c \<noteq> CHR ''['' \<and> c \<noteq> CHR ''{'' \<and> c \<noteq> quote_c \<and>
     c \<noteq> CHR ''n'' \<and> c \<noteq> CHR ''t'' \<and> c \<noteq> CHR ''f'' \<and> c \<noteq> CHR '']'' \<and> c \<noteq> CHR ''}'' \<and>
     c \<noteq> CHR '','' \<and> \<not> is_ws c"
  by (auto simp: is_digit_def is_ws_def)

lemma show_nat_Cons: "\<exists>c cs. show_nat n = c # cs \<and> is_digit c"
  using show_nat_digits [of n] by (cases "show_nat n") auto

lemma parse_num_print_nat:
  assumes "num_delim r"
  shows "parse_num (show_nat k @ r) = Some (JNum (int k), r)"
proof -
  obtain c cs where sn: "show_nat k = c # cs" "is_digit c"
    using show_nat_Cons by blast
  from assms have r: "r = [] \<or> \<not> is_digit (hd r)" by (auto simp: num_delim_def)
  note sp = digits_split [OF show_nat_digits r]
  from sn show_nat_lead_zero [of k c cs]
  have lead: "hd (show_nat k) = CHR ''0'' \<longrightarrow> tl (show_nat k) = []" by simp
  from sn have neg: "hd (show_nat k @ r) \<noteq> CHR ''-''" by simp
  from assms have "\<not> (r \<noteq> [] \<and> hd r \<in> {CHR ''.'', CHR ''e'', CHR ''E''})"
    by (auto simp: num_delim_def)
  with lead neg sp show ?thesis
    by (simp add: parse_num_def Let_def del: dropWhile_eq_Nil_conv)
qed

lemma parse_num_print_int:
  assumes "num_delim r"
  shows "parse_num (print_int i @ r) = Some (JNum i, r)"
proof (cases "i < 0")
  case True
  obtain c cs where sn: "show_nat (nat (- i)) = c # cs" "is_digit c"
    using show_nat_Cons by blast
  from assms have r: "r = [] \<or> \<not> is_digit (hd r)" by (auto simp: num_delim_def)
  note sp = digits_split [OF show_nat_digits r]
  from sn show_nat_lead_zero [of "nat (- i)" c cs]
  have lead: "hd (show_nat (nat (- i))) = CHR ''0'' \<longrightarrow> tl (show_nat (nat (- i))) = []" by simp
  from assms have "\<not> (r \<noteq> [] \<and> hd r \<in> {CHR ''.'', CHR ''e'', CHR ''E''})"
    by (auto simp: num_delim_def)
  with True lead sp show ?thesis
    by (simp add: parse_num_def print_int_def Let_def del: dropWhile_eq_Nil_conv)
next
  case False
  then have "print_int i = show_nat (nat i)" by (simp add: print_int_def)
  with False parse_num_print_nat [OF assms, of "nat i"] show ?thesis by simp
qed

lemma is_ws_iff [simp]: "is_ws c \<longleftrightarrow> c = CHR '' '' \<or> c = CHR 0x09 \<or> c = CHR 0x0A \<or> c = CHR 0x0D"
  by (simp add: is_ws_def)

lemma delim_num_delim: "delim r \<Longrightarrow> num_delim r"
  by (auto simp: delim_def num_delim_def is_digit_def)

lemma delim_Cons [simp]: "delim (CHR '','' # r)" "delim (CHR '']'' # r)" "delim (CHR ''}'' # r)"
  by (simp_all add: delim_def)

lemma join_comma_Cons: "xs \<noteq> [] \<Longrightarrow> join_comma (x # xs) = x @ CHR '','' # join_comma xs"
  by (cases xs) simp_all

lemma print_str_Cons: "print_str s @ r = quote_c # concat (map esc_char s) @ quote_c # r"
  by (simp add: print_str_def)

lemma print_int_Cons:
  "\<exists>c cs. print_int i = c # cs \<and> (c = CHR ''-'' \<or> is_digit c)"
proof (cases "i < 0")
  case False
  with show_nat_Cons [of "nat i"] show ?thesis by (auto simp: print_int_def)
qed (simp add: print_int_def)

lemma parse_value_num:
  "parse_value (Suc n) (print_int i @ r) = parse_num (print_int i @ r)"
proof -
  obtain c cs where p: "print_int i = c # cs" "c = CHR ''-'' \<or> is_digit c"
    using print_int_Cons by blast
  then have "\<not> is_ws c \<and> c \<noteq> CHR ''['' \<and> c \<noteq> CHR ''{'' \<and> c \<noteq> quote_c \<and>
      c \<noteq> CHR ''n'' \<and> c \<noteq> CHR ''t'' \<and> c \<noteq> CHR ''f''"
    using p(2) by (auto simp: is_digit_def)
  then show ?thesis by (simp add: p(1) del: is_ws_iff)
qed

lemma print_json_Cons:
  "\<exists>c cs. print_json j = c # cs \<and> \<not> is_ws c \<and> c \<noteq> CHR '']'' \<and> c \<noteq> CHR ''}''"
proof (cases j)
  case (JNum i)
  obtain c cs where p: "print_int i = c # cs" "c = CHR ''-'' \<or> is_digit c"
    using print_int_Cons by blast
  with JNum show ?thesis by (auto simp: is_ws_def is_digit_def)
qed (auto simp: is_ws_def print_str_def)

lemma skip_ws_print [simp]: "skip_ws (print_json j @ r) = print_json j @ r"
  using print_json_Cons [of j] by auto

lemma parse_elems_print:
  assumes IH: "\<forall>v \<in> set js. \<forall>n r. jfuel v \<le> n \<longrightarrow> delim r \<longrightarrow> parse_value n (print_json v @ r) = Some (v, r)"
    and "js \<noteq> []" and "sum_list (map (\<lambda>v. Suc (jfuel v)) js) \<le> n"
  shows "parse_elems n (join_comma (map print_json js) @ CHR '']'' # r) = Some (js, r)"
  using assms
proof (induction js arbitrary: n)
  case Nil
  then show ?case by simp
next
  case (Cons v vs)
  then obtain n' where n: "n = Suc n'" "jfuel v \<le> n'" "sum_list (map (\<lambda>v. Suc (jfuel v)) vs) \<le> n'"
    by (cases n) auto
  show ?case
  proof (cases "vs = []")
    case True
    have "parse_value n' (print_json v @ CHR '']'' # r) = Some (v, CHR '']'' # r)"
      using Cons.prems(1) n by simp
    with True n show ?thesis by simp
  next
    case False
    have "parse_value n' (print_json v @ CHR '','' # join_comma (map print_json vs) @ CHR '']'' # r)
        = Some (v, CHR '','' # join_comma (map print_json vs) @ CHR '']'' # r)"
      using Cons.prems(1) n by simp
    moreover have "parse_elems n' (join_comma (map print_json vs) @ CHR '']'' # r) = Some (vs, r)"
      using Cons.IH Cons.prems(1) False n by simp
    ultimately show ?thesis
      using False n by (simp add: join_comma_Cons)
  qed
qed

lemma parse_members_print:
  assumes IH: "\<forall>kv \<in> set kvs. \<forall>n r. jfuel (snd kv) \<le> n \<longrightarrow> delim r \<longrightarrow>
                 parse_value n (print_json (snd kv) @ r) = Some (snd kv, r)"
    and "kvs \<noteq> []" and "sum_list (map (\<lambda>kv. Suc (jfuel (snd kv))) kvs) \<le> n"
  shows "parse_members n (join_comma (map print_member kvs) @ CHR ''}'' # r) = Some (kvs, r)"
  using assms
proof (induction kvs arbitrary: n)
  case Nil
  then show ?case by simp
next
  case (Cons kv kvs)
  obtain k v where kv: "kv = (k, v)" by (cases kv)
  from Cons.prems kv obtain n' where n: "n = Suc n'" "jfuel v \<le> n'"
      "sum_list (map (\<lambda>kv. Suc (jfuel (snd kv))) kvs) \<le> n'"
    by (cases n) auto
  from Cons.prems(1) kv n have pv: "\<And>r. delim r \<Longrightarrow> parse_value n' (print_json v @ r) = Some (v, r)"
    by simp
  show ?case
  proof (cases "kvs = []")
    case True
    with pv [of "CHR ''}'' # r"] kv n show ?thesis
      by (simp add: print_str_def parse_str_body_print)
  next
    case False
    have "parse_members n' (join_comma (map print_member kvs) @ CHR ''}'' # r) = Some (kvs, r)"
      using Cons.IH Cons.prems(1) False n by simp
    with pv [of "CHR '','' # join_comma (map print_member kvs) @ CHR ''}'' # r"] False kv n
    show ?thesis
      by (simp add: join_comma_Cons print_str_def parse_str_body_print)
  qed
qed

lemma parse_value_print:
  "jfuel j \<le> n \<Longrightarrow> delim r \<Longrightarrow> parse_value n (print_json j @ r) = Some (j, r)"
proof (induction j arbitrary: n r)
  case JNull
  then show ?case by (cases n) (auto simp: is_ws_def)
next
  case (JBool b)
  then show ?case by (cases n) (auto simp: is_ws_def)
next
  case (JNum i)
  then obtain n' where "n = Suc n'" by (cases n) auto
  with JNum show ?case
    by (simp only: print_json.simps parse_value_num) (simp add: parse_num_print_int delim_num_delim)
next
  case (JStr s)
  then obtain n' where "n = Suc n'" by (cases n) auto
  then show ?case by (simp add: print_str_def parse_str_body_print)
next
  case (JArr js)
  then obtain n' where n: "n = Suc n'" "sum_list (map (\<lambda>v. Suc (jfuel v)) js) \<le> n'"
    by (cases n) auto
  show ?case
  proof (cases "js = []")
    case True
    with n show ?thesis by simp
  next
    case False
    then obtain v vs where "js = v # vs" by (cases js) auto
    then have hd: "skip_ws (join_comma (map print_json js) @ CHR '']'' # r) =
        join_comma (map print_json js) @ CHR '']'' # r"
      "hd (join_comma (map print_json js) @ CHR '']'' # r) \<noteq> CHR '']''"
      using print_json_Cons [of v] by (cases vs, auto)+
    have "parse_elems n' (join_comma (map print_json js) @ CHR '']'' # r) = Some (js, r)"
      using JArr.IH False n by (intro parse_elems_print) auto
    with hd n False show ?thesis
      by (cases "join_comma (map print_json js) @ CHR '']'' # r") auto
  qed
next
  case (JObj kvs)
  then obtain n' where n: "n = Suc n'" "sum_list (map (\<lambda>kv. Suc (jfuel (snd kv))) kvs) \<le> n'"
    by (cases n) auto
  show ?case
  proof (cases "kvs = []")
    case True
    with n show ?thesis by simp
  next
    case False
    have pm: "parse_members n' (join_comma (map print_member kvs) @ CHR ''}'' # r) = Some (kvs, r)"
      using JObj.IH False n by (intro parse_members_print) (auto simp: snds.simps)
    have split: "(\<lambda>(k, v). print_str k @ CHR '':'' # print_json v) = print_member"
      by auto
    from False obtain kv kvs' where "kvs = kv # kvs'" by (cases kvs) auto
    then have "\<exists>t. join_comma (map print_member kvs) @ CHR ''}'' # r = quote_c # t"
      by (cases kvs') (simp_all add: print_str_def)
    then have hd: "skip_ws (join_comma (map print_member kvs) @ CHR ''}'' # r) =
        join_comma (map print_member kvs) @ CHR ''}'' # r"
      "hd (join_comma (map print_member kvs) @ CHR ''}'' # r) \<noteq> CHR ''}''"
      by auto
    with pm n show ?thesis
      by (cases "join_comma (map print_member kvs) @ CHR ''}'' # r") (auto simp: split)
  qed
qed

lemma length_join_comma:
  "xs \<noteq> [] \<Longrightarrow> length (join_comma xs) + 1 = sum_list (map length xs) + length xs"
  by (induction xs rule: join_comma.induct) auto

lemma print_json_ne: "1 \<le> length (print_json j)"
  using print_json_Cons [of j] by auto

lemma jfuel_le_length: "jfuel j \<le> length (print_json j)"
proof (induction j)
  case (JArr js)
  show ?case
  proof (cases "js = []")
    case False
    have "sum_list (map (\<lambda>v. Suc (jfuel v)) js) \<le> sum_list (map (\<lambda>v. Suc (length (print_json v))) js)"
      using JArr.IH by (intro sum_list_mono) auto
    also have "\<dots> = length (join_comma (map print_json js)) + 1"
      using False length_join_comma [of "map print_json js"] by (simp add: sum_list_Suc comp_def)
    finally show ?thesis by simp
  qed simp
next
  case (JObj kvs)
  show ?case
  proof (cases "kvs = []")
    case False
    have "sum_list (map (\<lambda>kv. Suc (jfuel (snd kv))) kvs) \<le> sum_list (map (\<lambda>kv. Suc (length (print_member kv))) kvs)"
      using JObj.IH by (intro sum_list_mono) (fastforce simp: snds.simps)
    also have "\<dots> = length (join_comma (map print_member kvs)) + 1"
      using False length_join_comma [of "map print_member kvs"] by (simp add: sum_list_Suc comp_def)
    finally have "sum_list (map (\<lambda>kv. Suc (jfuel (snd kv))) kvs) \<le> length (join_comma (map print_member kvs)) + 1" .
    moreover have "(\<lambda>(k, v). print_str k @ CHR '':'' # print_json v) = print_member"
      by auto
    ultimately show ?thesis by simp
  qed simp
qed (auto simp: print_str_def print_int_def Suc_le_eq)

lemma json_parse_print: "json_parse (print_json j) = Some j"
proof -
  have "jfuel j \<le> 2 * length (print_json j) + 2"
    using jfuel_le_length [of j] by simp
  then have "parse_value (2 * length (print_json j) + 2) (print_json j @ []) = Some (j, [])"
    by (rule parse_value_print) (simp add: delim_def)
  then show ?thesis by (simp add: json_parse_def)
qed

end
