(* ===== verification/Storage.thy ===== *)
theory Storage
  imports Memo Json
begin

text \<open>
  The storage adapter \<^verbatim>\<open>./storage\<close> that \<^verbatim>\<open>src/src/index.ts\<close> imports
  (\<^verbatim>\<open>readLacalStorage\<close>, \<^verbatim>\<open>saveLocalStorage\<close>, \<^verbatim>\<open>STORAGE_KEY\<close>). Its
  source is not part of the repository, so it is modelled from the spec (sections 4.1, 6
  and 7): local storage is a map from keys to strings; saving stores
  \<^verbatim>\<open>JSON.stringify(memos)\<close> under the key; loading parses the stored string and
  returns the memos, or the empty list when the key is absent, the text is not JSON or
  the value is not an array of memo objects. A memo object is read through its five
  fields; other fields, and the number fields with a fraction or a sign, are outside the
  model (the second read as malformed).
\<close>

type_synonym local_storage = "string \<rightharpoonup> string"

definition STORAGE_KEY :: string where
  "STORAGE_KEY = ''memos''"

text \<open>The object literal \<^verbatim>\<open>newMemo\<close> builds, in its field order, as JSON.\<close>

definition memo_to_json :: "memo \<Rightarrow> json" where
  "memo_to_json m =
     JObj [(''id'', JStr (memo_id m)), (''title'', JStr (title m)), (''body'', JStr (body m)),
           (''createdAt'', JNum (int (createdAt m))), (''updateAt'', JNum (int (updateAt m)))]"

text \<open>A property of a parsed object: with repeated keys, \<^verbatim>\<open>JSON.parse\<close> keeps the last.\<close>

definition obj_get :: "(string \<times> json) list \<Rightarrow> string \<Rightarrow> json option" where
  "obj_get kvs k = map_of (rev kvs) k"

fun json_str :: "json option \<Rightarrow> string option" where
  "json_str (Some (JStr s)) = Some s"
| "json_str _ = None"

fun json_nat :: "json option \<Rightarrow> nat option" where
  "json_nat (Some (JNum i)) = (if 0 \<le> i then Some (nat i) else None)"
| "json_nat _ = None"

fun memo_of_json :: "json \<Rightarrow> memo option" where
  "memo_of_json (JObj kvs) =
     (case (json_str (obj_get kvs ''id''), json_str (obj_get kvs ''title''), json_str (obj_get kvs ''body''),
            json_nat (obj_get kvs ''createdAt''), json_nat (obj_get kvs ''updateAt'')) of
        (Some i, Some t, Some b, Some c, Some u) \<Rightarrow>
          Some \<lparr>memo_id = i, title = t, body = b, createdAt = c, updateAt = u\<rparr>
      | _ \<Rightarrow> None)"
| "memo_of_json _ = None"

definition saveLocalStorage :: "string \<Rightarrow> memo list \<Rightarrow> local_storage \<Rightarrow> local_storage" where
  "saveLocalStorage key memos st = st(key \<mapsto> print_json (JArr (map memo_to_json memos)))"

definition readLacalStorage :: "local_storage \<Rightarrow> string \<Rightarrow> memo list" where
  "readLacalStorage st key =
     (case st key of
        None \<Rightarrow> []
      | Some s \<Rightarrow>
          (case json_parse s of
             Some (JArr js) \<Rightarrow> (case those (map memo_of_json js) of Some ms \<Rightarrow> ms | None \<Rightarrow> [])
           | _ \<Rightarrow> []))"

lemma memo_of_json_to_json [simp]: "memo_of_json (memo_to_json m) = Some m"
  by (simp add: memo_to_json_def obj_get_def)

lemma those_map_memo_of_json: "those (map (memo_of_json \<circ> memo_to_json) ms) = Some ms"
  by (induction ms) simp_all

lemma read_save_same [simp]: "readLacalStorage (saveLocalStorage key ms st) key = ms"
proof -
  have "json_parse (print_json (JArr (map memo_to_json ms))) = Some (JArr (map memo_to_json ms))"
    by (rule json_parse_print)
  then show ?thesis
    by (simp add: readLacalStorage_def saveLocalStorage_def those_map_memo_of_json del: print_json.simps)
qed

lemma read_save_other: "k \<noteq> key \<Longrightarrow> readLacalStorage (saveLocalStorage key ms st) k = readLacalStorage st k"
  by (simp add: readLacalStorage_def saveLocalStorage_def)

lemma save_save [simp]: "saveLocalStorage key ms (saveLocalStorage key ms' st) = saveLocalStorage key ms st"
  by (simp add: saveLocalStorage_def)

lemma readLacalStorage_failure:
  assumes "st key = None \<or> (\<exists>str. st key = Some str \<and>
             (\<forall>js. json_parse str = Some (JArr js) \<longrightarrow> those (map memo_of_json js) = None))"
  shows "readLacalStorage st key = []"
  using assms by (auto simp: readLacalStorage_def split: option.splits json.splits)

end
