(* ===== verification/Session.thy ===== *)
theory Session
  imports View Storage
begin

text \<open>
  The program state of \<^verbatim>\<open>src/src/index.ts\<close> and its event handlers. The module's
  globals \<^verbatim>\<open>memos\<close> and \<^verbatim>\<open>memoIndex\<close> (lines 27-28), local storage and the
  page form one record; each handler is a function from the state before the event to
  its outcome, written statement by statement in the order of the source. A statement
  that reads \<^verbatim>\<open>memos[memoIndex]\<close> or a list element that is not there throws, and
  the handler stops there with the mutations made so far (\<open>Thrown\<close>).
  \<^verbatim>\<open>Date.now()\<close> is a parameter of the handlers that call it.
\<close>

record session =
  memos :: "memo list"
  memoIndex :: int
  storage :: local_storage
  page :: view

section \<open>Statements on the session\<close>

definition on_view :: "(view \<Rightarrow> view) \<Rightarrow> session \<Rightarrow> session" where
  "on_view f s = s\<lparr>page := f (page s)\<rparr>"

definition on_view_outcome :: "(view \<Rightarrow> view outcome) \<Rightarrow> session \<Rightarrow> session outcome" where
  "on_view_outcome f s =
     (case f (page s) of
        Done v \<Rightarrow> Done (s\<lparr>page := v\<rparr>)
      | Thrown e v \<Rightarrow> Thrown e (s\<lparr>page := v\<rparr>))"

text \<open>\<^verbatim>\<open>saveLocalStorage(STORAGE_KEY, memos)\<close> on the current global list.\<close>

definition save_memos :: "session \<Rightarrow> session" where
  "save_memos s = s\<lparr>storage := saveLocalStorage STORAGE_KEY (memos s) (storage s)\<rparr>"

definition active_style :: "int \<Rightarrow> bool \<Rightarrow> session \<Rightarrow> session outcome" where
  "active_style index b = on_view_outcome (setActiveStyle index b)"

definition show_memo :: "session \<Rightarrow> session outcome" where
  "show_memo s = on_view_outcome (setMemoElement (memos s) (memoIndex s)) s"

text \<open>The two button states the handlers switch between, with \<^verbatim>\<open>setEditMode\<close> where the handler calls it.\<close>

definition edit_buttons :: "view \<Rightarrow> view" where
  "edit_buttons = setHiddenButton EditButton False \<circ> setHiddenButton SaveButton True"

definition view_buttons :: "view \<Rightarrow> view" where
  "view_buttons = setHiddenButton EditButton True \<circ> setHiddenButton SaveButton False"

section \<open>Handlers\<close>

text \<open>\<^verbatim>\<open>init()\<close> (lines 56-77), run once on the initial globals of lines 27-28.\<close>

definition initial_session :: "local_storage \<Rightarrow> view \<Rightarrow> session" where
  "initial_session st v = \<lparr>memos = [], memoIndex = 0, storage = st, page = v\<rparr>"

definition init :: "timestamp \<Rightarrow> timestamp \<Rightarrow> local_storage \<Rightarrow> view \<Rightarrow> session outcome" where
  "init t1 t2 st v =
     (let s0 = initial_session st v;
          s1 = s0\<lparr>memos := readLacalStorage (storage s0) STORAGE_KEY\<rparr>;
          s2 = (if length (memos s1) = 0 then
                  (let s1a = s1\<lparr>memos := memos s1 @ [newMemo t1 (memos s1)]\<rparr>;
                       s1b = s1a\<lparr>memos := memos s1a @ [newMemo t2 (memos s1a)]\<rparr>
                   in save_memos s1b)
                else s1);
          s3 = on_view (showMemoElements (memos s2)) s2
      in then_do (then_do (active_style (memoIndex s3 + 1) True s3) show_memo)
           (\<lambda>s4. Done (on_view view_buttons s4)))"

text \<open>\<^verbatim>\<open>clickAddMemo\<close> (lines 169-188).\<close>

definition clickAddMemo :: "timestamp \<Rightarrow> session \<Rightarrow> session outcome" where
  "clickAddMemo now s =
     (let s1 = on_view (edit_buttons \<circ> setEditMode True) s;
          s2 = s1\<lparr>memos := memos s1 @ [newMemo now (memos s1)]\<rparr>;
          s3 = save_memos s2;
          s4 = s3\<lparr>memoIndex := int (length (memos s3)) - 1\<rparr>;
          s5 = on_view (showMemoElements (memos s4)) s4
      in then_do (active_style (memoIndex s5 + 1) True s5) show_memo)"

text \<open>\<^verbatim>\<open>selectedMemo\<close> (lines 191-208), given the \<^verbatim>\<open>data-id\<close> of the clicked element.\<close>

definition selectedMemo :: "string \<Rightarrow> session \<Rightarrow> session outcome" where
  "selectedMemo target_id s =
     then_do (active_style (memoIndex s + 1) False s)
       (\<lambda>s1. let s2 = s1\<lparr>memoIndex := findIndex (\<lambda>m. memo_id m = target_id) (memos s1)\<rparr>
             in then_do (then_do (show_memo s2) (\<lambda>s3. active_style (memoIndex s3 + 1) True s3))
                  (\<lambda>s4. Done (on_view (view_buttons \<circ> setEditMode False) s4)))"

text \<open>\<^verbatim>\<open>clickEditMemo\<close> (lines 211-217).\<close>

definition clickEditMemo :: "session \<Rightarrow> session" where
  "clickEditMemo s = on_view (edit_buttons \<circ> setEditMode True) s"

text \<open>
  \<^verbatim>\<open>clickSaveMemo\<close> (lines 220-241). The memo object in the array is mutated in
  place: an update of the list at \<^verbatim>\<open>memoIndex\<close>.
\<close>

definition clickSaveMemo :: "timestamp \<Rightarrow> session \<Rightarrow> session outcome" where
  "clickSaveMemo now s =
     (case js_get (memos s) (memoIndex s) of
        None \<Rightarrow> Thrown TypeError s
      | Some m \<Rightarrow>
          (let m' = m\<lparr>title := title_value (page s), body := body_value (page s), updateAt := now\<rparr>;
               s1 = s\<lparr>memos := (memos s)[nat (memoIndex s) := m']\<rparr>;
               s2 = save_memos s1;
               s3 = on_view (view_buttons \<circ> setEditMode False) s2;
               s4 = on_view (showMemoElements (memos s3)) s3
           in then_do (then_do (active_style (memoIndex s4 + 1) True s4)
                         (\<lambda>s5. active_style (memoIndex s5 + 1) True s5))
                show_memo))"

text \<open>\<^verbatim>\<open>clickDeleteMemo\<close> (lines 244-270).\<close>

definition notify :: "notice \<Rightarrow> view \<Rightarrow> view" where
  "notify n v = v\<lparr>alerts := alerts v @ [n]\<rparr>"

definition clickDeleteMemo :: "session \<Rightarrow> session outcome" where
  "clickDeleteMemo s =
     (if length (memos s) = 1 then Done (on_view (notify CannotDeleteLast) s)
      else
        (case js_get (memos s) (memoIndex s) of
           None \<Rightarrow> Thrown TypeError s
         | Some m \<Rightarrow>
             (let memoId = memo_id m;
                  s1 = s\<lparr>memos := filter (\<lambda>x. memo_id x \<noteq> memoId) (memos s)\<rparr>;
                  s2 = save_memos s1;
                  s3 = (if 1 \<le> memoIndex s2 then s2\<lparr>memoIndex := memoIndex s2 - 1\<rparr> else s2)
              in then_do (show_memo s3)
                   (\<lambda>s4. let s5 = on_view (view_buttons \<circ> setEditMode False) s4;
                             s6 = on_view (showMemoElements (memos s5)) s5
                         in active_style (memoIndex s6 + 1) True s6))))"

text \<open>\<^verbatim>\<open>clickDownloadMemo\<close> (lines 273-286): the link gets the file name and the body as its blob.\<close>

definition clickDownloadMemo :: "session \<Rightarrow> session outcome" where
  "clickDownloadMemo s =
     (case js_get (memos s) (memoIndex s) of
        None \<Rightarrow> Thrown TypeError s
      | Some m \<Rightarrow> Done (on_view (\<lambda>v. v\<lparr>download := Some (title m @ ''.md'', body m)\<rparr>) s))"

section \<open>Events\<close>

text \<open>
  The events the page delivers: the listeners of lines 29-33 and 89, and the user typing
  into the two fields (which the browser allows only while they are enabled).
\<close>

datatype event =
    AddClick timestamp
  | SelectItem nat
  | EditClick
  | SaveClick timestamp
  | DeleteClick
  | DownloadClick
  | TypeTitle string
  | TypeBody string

fun handle :: "event \<Rightarrow> session \<Rightarrow> session outcome" where
  "handle (AddClick t) s = clickAddMemo t s"
| "handle (SelectItem k) s =
     (if k < length (list_items (page s)) then selectedMemo (data_id (list_items (page s) ! k)) s
      else Done s)"
| "handle EditClick s = Done (clickEditMemo s)"
| "handle (SaveClick t) s = clickSaveMemo t s"
| "handle DeleteClick s = clickDeleteMemo s"
| "handle DownloadClick s = clickDownloadMemo s"
| "handle (TypeTitle x) s = Done (on_view (\<lambda>v. v\<lparr>title_value := x\<rparr>) s)"
| "handle (TypeBody x) s = Done (on_view (\<lambda>v. v\<lparr>body_value := x\<rparr>) s)"

text \<open>Which events the page can deliver: a hidden button or a disabled field takes no input.\<close>

fun enabled :: "event \<Rightarrow> session \<Rightarrow> bool" where
  "enabled (SelectItem k) s = (k < length (list_items (page s)))"
| "enabled EditClick s = (\<not> edit_hidden (page s))"
| "enabled (SaveClick t) s = (\<not> save_hidden (page s))"
| "enabled (TypeTitle x) s = (\<not> title_disabled (page s))"
| "enabled (TypeBody x) s = (\<not> body_disabled (page s) \<and> \<not> body_hidden (page s))"
| "enabled _ s = True"

end
