(* ===== verification/Handlers.thy ===== *)
theory Handlers
  imports Session
begin

text \<open>
  What each handler of \<^verbatim>\<open>src/src/index.ts\<close> computes, as closed equations for its
  outcome: under which conditions it completes (\<open>Done\<close>) and with which memos, index,
  storage and page. The conditions are those the code itself needs: a valid
  \<^verbatim>\<open>memoIndex\<close> and a list of elements in step with the memos
  (\<open>synced\<close>), and, for deletion, ids that are pairwise distinct.
\<close>

definition synced :: "session \<Rightarrow> bool" where
  "synced s \<longleftrightarrow> 0 \<le> memoIndex s \<and> memoIndex s < int (length (memos s)) \<and>
     list_items (page s) = items_of (memos s) (nat (memoIndex s))"

text \<open>The index \<^verbatim>\<open>clickDeleteMemo\<close> moves to (lines 256-258), and the memos \<^verbatim>\<open>init\<close> starts from (lines 58-66).\<close>

definition prev_index :: "nat \<Rightarrow> nat" where
  "prev_index i = (if 1 \<le> i then i - 1 else i)"

definition boot_memos :: "timestamp \<Rightarrow> timestamp \<Rightarrow> memo list \<Rightarrow> memo list" where
  "boot_memos t1 t2 ms0 = (if ms0 = [] then [newMemo t1 [], newMemo t2 [newMemo t1 []]] else ms0)"

section \<open>Rewriting the statements\<close>

lemma on_view_outcome_Done [simp]:
  "f (page s) = Done v \<Longrightarrow> on_view_outcome f s = Done (s\<lparr>page := v\<rparr>)"
  by (simp add: on_view_outcome_def)

lemma on_view_simps [simp]:
  "memos (on_view f s) = memos s" "memoIndex (on_view f s) = memoIndex s"
  "storage (on_view f s) = storage s" "page (on_view f s) = f (page s)"
  by (simp_all add: on_view_def)

lemma save_memos_simps [simp]:
  "memos (save_memos s) = memos s" "memoIndex (save_memos s) = memoIndex s"
  "page (save_memos s) = page s"
  "storage (save_memos s) = saveLocalStorage STORAGE_KEY (memos s) (storage s)"
  by (simp_all add: save_memos_def)

lemma active_style_on_list [handler_simps]:
  assumes "list_items (page s) = map newMemoElement ms" and "i < length ms"
  shows "active_style (int i + 1) True s = Done (s\<lparr>page := (page s)\<lparr>list_items := items_of ms i\<rparr>\<rparr>)"
  using assms by (simp add: active_style_def setActiveStyle_def items_of_def)

lemma length_items_of [simp]: "length (items_of ms i) = length ms"
  by (simp add: items_of_def)

lemma items_of_deactivate:
  "i < length ms \<Longrightarrow> (items_of ms i)[i := (items_of ms i ! i)\<lparr>active := False\<rparr>] = map newMemoElement ms"
  by (simp add: items_of_def newMemoElement_def list_update_same_conv)

lemma items_of_reactivate:
  "i < length ms \<Longrightarrow> (items_of ms i)[i := (items_of ms i ! i)\<lparr>active := True\<rparr>] = items_of ms i"
  by (simp add: items_of_def)

lemma active_style_off [handler_simps]:
  assumes "list_items (page s) = items_of ms i" and "i < length ms"
  shows "active_style (int i + 1) False s = Done (s\<lparr>page := (page s)\<lparr>list_items := map newMemoElement ms\<rparr>\<rparr>)"
proof -
  have "setActiveStyle (int i + 1) False (page s) = Done ((page s)\<lparr>list_items := map newMemoElement ms\<rparr>)"
    using assms by (simp add: setActiveStyle_def items_of_deactivate del: list_update_same_conv)
  then show ?thesis by (simp add: active_style_def)
qed

lemma active_style_again [handler_simps]:
  assumes "list_items (page s) = items_of ms i" and "i < length ms"
  shows "active_style (int i + 1) True s = Done s"
proof -
  have "setActiveStyle (int i + 1) True (page s) = Done (page s)"
    using assms by (simp add: setActiveStyle_def items_of_reactivate del: list_update_same_conv)
  then show ?thesis by (simp add: active_style_def)
qed

lemma show_memo_Done [handler_simps]:
  "memoIndex s = int i \<Longrightarrow> i < length (memos s) \<Longrightarrow>
   show_memo s = Done (s\<lparr>page := (page s)\<lparr>title_value := title (memos s ! i),
      body_value := body (memos s ! i), preview_src := Some (body (memos s ! i))\<rparr>\<rparr>)"
  by (simp add: show_memo_def setMemoElement_Done)

section \<open>The handlers\<close>

lemma clickAddMemo_Done:
  "clickAddMemo now s = Done (s\<lparr>memos := memos s @ [newMemo now (memos s)],
     memoIndex := int (length (memos s)),
     storage := saveLocalStorage STORAGE_KEY (memos s @ [newMemo now (memos s)]) (storage s),
     page := (edit_buttons (setEditMode True (page s)))\<lparr>
        list_items := items_of (memos s @ [newMemo now (memos s)]) (length (memos s)),
        title_value := title (newMemo now (memos s)), body_value := [], preview_src := Some []\<rparr>\<rparr>)"
proof -
  let ?ms = "memos s @ [newMemo now (memos s)]"
  let ?n = "length (memos s)"
  let ?s5 = "on_view (showMemoElements ?ms) ((save_memos ((on_view (edit_buttons \<circ> setEditMode True) s)\<lparr>memos := ?ms\<rparr>))\<lparr>memoIndex := int ?n\<rparr>)"
  have idx: "int (length ?ms) - 1 = int ?n" by simp
  have "clickAddMemo now s = then_do (active_style (int ?n + 1) True ?s5) show_memo"
    by (simp only: clickAddMemo_def Let_def idx) simp
  also have "active_style (int ?n + 1) True ?s5 = Done (?s5\<lparr>page := (page ?s5)\<lparr>list_items := items_of ?ms ?n\<rparr>\<rparr>)"
    by (rule active_style_on_list) simp_all
  finally show ?thesis
    by (simp add: show_memo_Done showMemoElements_def clearMemoElements_def)
qed

lemma findIndex_distinct_ids:
  "distinct (ids ms) \<Longrightarrow> k < length ms \<Longrightarrow> findIndex (\<lambda>m. memo_id m = memo_id (ms ! k)) ms = int k"
proof (rule findIndex_nth_eq)
  assume d: "distinct (ids ms)" and k: "k < length ms"
  show "\<forall>j < k. \<not> memo_id (ms ! j) = memo_id (ms ! k)"
  proof (intro allI impI notI)
    fix j assume "j < k" and "memo_id (ms ! j) = memo_id (ms ! k)"
    with k have eq: "ids ms ! j = ids ms ! k" "j < length (ids ms)" "k < length (ids ms)" by simp_all
    from nth_eq_iff_index_eq [OF d eq(2,3)] eq(1) have "j = k" by blast
    with \<open>j < k\<close> show False by simp
  qed
qed simp_all

lemma selectedMemo_Done:
  assumes "synced s" and "distinct (ids (memos s))" and "k < length (memos s)"
  shows "selectedMemo (memo_id (memos s ! k)) s =
    Done (s\<lparr>memoIndex := int k,
      page := (view_buttons (setEditMode False (page s)))\<lparr>list_items := items_of (memos s) k,
        title_value := title (memos s ! k), body_value := body (memos s ! k),
        preview_src := Some (body (memos s ! k))\<rparr>\<rparr>)"
proof -
  let ?ms = "memos s"
  let ?i = "nat (memoIndex s)"
  from assms(1) have i: "memoIndex s = int ?i" "?i < length ?ms" "list_items (page s) = items_of ?ms ?i"
    by (auto simp: synced_def)
  let ?s1 = "s\<lparr>page := (page s)\<lparr>list_items := map newMemoElement ?ms\<rparr>\<rparr>"
  have "active_style (memoIndex s + 1) False s = Done ?s1"
    using i active_style_off [of s ?ms ?i] by simp
  moreover have "findIndex (\<lambda>m. memo_id m = memo_id (?ms ! k)) ?ms = int k"
    using assms(2,3) by (rule findIndex_distinct_ids)
  moreover have "active_style (int k + 1) True (s\<lparr>memoIndex := int k, page := (page ?s1)\<lparr>title_value := title (?ms ! k),
        body_value := body (?ms ! k), preview_src := Some (body (?ms ! k))\<rparr>\<rparr>) =
      Done (s\<lparr>memoIndex := int k, page := (page ?s1)\<lparr>title_value := title (?ms ! k),
        body_value := body (?ms ! k), preview_src := Some (body (?ms ! k)), list_items := items_of ?ms k\<rparr>\<rparr>)"
    using assms(3) by (subst active_style_on_list) simp_all
  ultimately show ?thesis
    using assms(3) by (simp add: selectedMemo_def show_memo_Done view_buttons_def setHiddenButton_def setEditMode_def)
qed

lemma synced_index:
  assumes "synced s"
  obtains i where "memoIndex s = int i" "i < length (memos s)" "list_items (page s) = items_of (memos s) i"
  using assms by (auto simp: synced_def intro!: that [of "nat (memoIndex s)"])

lemma clickSaveMemo_Done:
  assumes "synced s" and "memoIndex s = int i"
  shows "clickSaveMemo now s =
    Done (let m' = (memos s ! i)\<lparr>title := title_value (page s), body := body_value (page s), updateAt := now\<rparr>;
              ms' = (memos s)[i := m']
          in s\<lparr>memos := ms', storage := saveLocalStorage STORAGE_KEY ms' (storage s),
               page := (view_buttons (setEditMode False (page s)))\<lparr>list_items := items_of ms' i,
                 title_value := title m', body_value := body m', preview_src := Some (body m')\<rparr>\<rparr>)"
proof -
  from assms have i: "i < length (memos s)" by (auto simp: synced_def)
  let ?m' = "(memos s ! i)\<lparr>title := title_value (page s), body := body_value (page s), updateAt := now\<rparr>"
  let ?ms' = "(memos s)[i := ?m']"
  let ?s4 = "on_view (showMemoElements ?ms') (on_view (view_buttons \<circ> setEditMode False)
               (save_memos (s\<lparr>memos := ?ms'\<rparr>)))"
  let ?s5 = "?s4\<lparr>page := (page ?s4)\<lparr>list_items := items_of ?ms' i\<rparr>\<rparr>"
  let ?s6 = "?s5\<lparr>page := (page ?s5)\<lparr>title_value := title (?ms' ! i),
        body_value := body (?ms' ! i), preview_src := Some (body (?ms' ! i))\<rparr>\<rparr>"
  have eq: "clickSaveMemo now s = then_do (then_do (active_style (int i + 1) True ?s4)
                         (\<lambda>s5. active_style (memoIndex s5 + 1) True s5)) show_memo"
    using i assms(2) by (simp add: clickSaveMemo_def Let_def)
  have A: "active_style (int i + 1) True ?s4 = Done ?s5"
    using i by (intro active_style_on_list) simp_all
  have B: "active_style (memoIndex ?s5 + 1) True ?s5 = Done ?s5"
    using i assms(2) active_style_again [where ms = ?ms' and i = i and s = ?s5] by simp
  have C: "show_memo ?s5 = Done ?s6"
    using i assms(2) by (subst show_memo_Done [where i = i]) simp_all
  have "clickSaveMemo now s = Done ?s6"
    by (simp only: eq A B C then_do.simps)
  then show ?thesis
    using i by (simp add: Let_def showMemoElements_def clearMemoElements_def on_view_def
        view_buttons_def setHiddenButton_def setEditMode_def)
qed

lemma session_memoIndex_same: "memoIndex s = k \<Longrightarrow> s\<lparr>memoIndex := k\<rparr> = s"
  by simp

lemma session_memoIndex_commute:
  "s\<lparr>memos := a, storage := b, memoIndex := c\<rparr> = s\<lparr>memoIndex := c, memos := a, storage := b\<rparr>"
  by simp

lemma filter_distinct_nth:
  "distinct (map f xs) \<Longrightarrow> i < length xs \<Longrightarrow> filter (\<lambda>x. f x \<noteq> f (xs ! i)) xs = take i xs @ drop (Suc i) xs"
proof (induction xs arbitrary: i)
  case Nil
  then show ?case by simp
next
  case (Cons x xs)
  show ?case
  proof (cases i)
    case 0
    with Cons.prems have "\<forall>y \<in> set xs. f y \<noteq> f x" by (auto simp: rev_image_eqI)
    with 0 show ?thesis by (simp add: filter_id_conv)
  next
    case (Suc j)
    from Cons.prems have "f x \<notin> f ` set xs" "xs ! j \<in> set xs" by (simp_all add: Suc)
    then have "f x \<noteq> f (xs ! j)" by (metis imageI)
    with Suc Cons show ?thesis by simp
  qed
qed

lemma clickDeleteMemo_last:
  "length (memos s) = 1 \<Longrightarrow> clickDeleteMemo s = Done (on_view (notify CannotDeleteLast) s)"
  by (simp add: clickDeleteMemo_def)

lemma clickDeleteMemo_Done:
  assumes "synced s" and "memoIndex s = int i" and "distinct (ids (memos s))" and "2 \<le> length (memos s)"
  shows "clickDeleteMemo s =
    Done (let ms' = take i (memos s) @ drop (Suc i) (memos s); j = prev_index i
          in s\<lparr>memos := ms', memoIndex := int j, storage := saveLocalStorage STORAGE_KEY ms' (storage s),
               page := (view_buttons (setEditMode False (page s)))\<lparr>list_items := items_of ms' j,
                 title_value := title (ms' ! j), body_value := body (ms' ! j), preview_src := Some (body (ms' ! j))\<rparr>\<rparr>)"
proof -
  from assms have i: "i < length (memos s)" by (auto simp: synced_def)
  let ?ms' = "take i (memos s) @ drop (Suc i) (memos s)"
  let ?j = "prev_index i"
  have f: "filter (\<lambda>x. memo_id x \<noteq> memo_id (memos s ! i)) (memos s) = ?ms'"
    using assms(3) i by (rule filter_distinct_nth)
  have len: "length ?ms' = length (memos s) - 1" using i by simp
  have j: "?j < length ?ms'" "int ?j = (if 1 \<le> int i then int i - 1 else int i)"
    using i assms(4) len by (auto simp: prev_index_def)
  let ?s3 = "s\<lparr>memoIndex := int ?j, memos := ?ms', storage := saveLocalStorage STORAGE_KEY ?ms' (storage s)\<rparr>"
  let ?s4 = "?s3\<lparr>page := (page ?s3)\<lparr>title_value := title (?ms' ! ?j), body_value := body (?ms' ! ?j),
               preview_src := Some (body (?ms' ! ?j))\<rparr>\<rparr>"
  let ?s6 = "on_view (showMemoElements ?ms') (on_view (view_buttons \<circ> setEditMode False) ?s4)"
  have "clickDeleteMemo s = then_do (show_memo ?s3) (\<lambda>s4. let s5 = on_view (view_buttons \<circ> setEditMode False) s4;
                             s6 = on_view (showMemoElements (memos s5)) s5
                         in active_style (memoIndex s6 + 1) True s6)"
    using assms(2,4) i f by (cases "i = 0") (simp_all add: clickDeleteMemo_def Let_def prev_index_def of_nat_diff js_get_def save_memos_def session_memoIndex_same session_memoIndex_commute)
  also have "show_memo ?s3 = Done ?s4"
    using j(1) by (simp add: show_memo_Done)
  also have "then_do (Done ?s4) (\<lambda>s4. let s5 = on_view (view_buttons \<circ> setEditMode False) s4;
                             s6 = on_view (showMemoElements (memos s5)) s5
                         in active_style (memoIndex s6 + 1) True s6) = active_style (int ?j + 1) True ?s6"
    by (simp add: Let_def)
  also have "\<dots> = Done (?s6\<lparr>page := (page ?s6)\<lparr>list_items := items_of ?ms' ?j\<rparr>\<rparr>)"
    using j(1) by (intro active_style_on_list) simp_all
  finally show ?thesis
    by (simp add: Let_def showMemoElements_def clearMemoElements_def on_view_def
        view_buttons_def setHiddenButton_def setEditMode_def)
qed

lemma clickDownloadMemo_Done:
  assumes "synced s" and "memoIndex s = int i"
  shows "clickDownloadMemo s = Done (on_view (\<lambda>v. v\<lparr>download := Some (title (memos s ! i) @ ''.md'', body (memos s ! i))\<rparr>) s)"
proof -
  from assms have "js_get (memos s) (memoIndex s) = Some (memos s ! i)"
    by (simp add: synced_def)
  then show ?thesis by (simp add: clickDownloadMemo_def del: js_get_Some_iff)
qed

lemma boot_memos_ne: "boot_memos t1 t2 ms0 \<noteq> []"
  by (simp add: boot_memos_def)

lemma init_Done:
  "init t1 t2 st v =
    Done (let ms0 = readLacalStorage st STORAGE_KEY; ms = boot_memos t1 t2 ms0
          in \<lparr>memos = ms, memoIndex = 0,
              storage = (if ms0 = [] then saveLocalStorage STORAGE_KEY ms st else st),
              page = (view_buttons v)\<lparr>list_items := items_of ms 0, title_value := title (ms ! 0),
                 body_value := body (ms ! 0), preview_src := Some (body (ms ! 0))\<rparr>\<rparr>)"
proof -
  let ?stored = "readLacalStorage st STORAGE_KEY"
  let ?ms = "boot_memos t1 t2 ?stored"
  let ?st = "if ?stored = [] then saveLocalStorage STORAGE_KEY ?ms st else st"
  let ?s3 = "\<lparr>memos = ?ms, memoIndex = 0, storage = ?st, page = showMemoElements ?ms v\<rparr>"
  let ?s4 = "?s3\<lparr>page := (page ?s3)\<lparr>list_items := items_of ?ms 0\<rparr>\<rparr>"
  have ne: "0 < length ?ms" using boot_memos_ne by blast
  have eq: "init t1 t2 st v = then_do (then_do (active_style (int 0 + 1) True ?s3) show_memo)
           (\<lambda>s4. Done (on_view view_buttons s4))"
    by (cases "?stored = []") (simp_all add: init_def Let_def initial_session_def boot_memos_def save_memos_def on_view_def)
  have A: "active_style (int 0 + 1) True ?s3 = Done ?s4"
    using ne by (intro active_style_on_list) simp_all
  have B: "show_memo ?s4 = Done (?s4\<lparr>page := (page ?s4)\<lparr>title_value := title (?ms ! 0),
        body_value := body (?ms ! 0), preview_src := Some (body (?ms ! 0))\<rparr>\<rparr>)"
    using ne by (subst show_memo_Done [where i = 0]) simp_all
  show ?thesis
    by (simp only: eq A B then_do.simps)
       (simp add: Let_def showMemoElements_def clearMemoElements_def on_view_def
        view_buttons_def setHiddenButton_def)
qed

lemma selectedMemo_unknown:
  assumes "synced s" and "target_id \<notin> set (ids (memos s))"
  shows "selectedMemo target_id s =
    Thrown TypeError (s\<lparr>memoIndex := -1, page := (page s)\<lparr>list_items := map newMemoElement (memos s)\<rparr>\<rparr>)"
proof -
  obtain i where i: "memoIndex s = int i" "i < length (memos s)" "list_items (page s) = items_of (memos s) i"
    using assms(1) by (rule synced_index)
  have "active_style (memoIndex s + 1) False s = Done (s\<lparr>page := (page s)\<lparr>list_items := map newMemoElement (memos s)\<rparr>\<rparr>)"
    using i active_style_off [of s "memos s" i] by simp
  moreover have "findIndex (\<lambda>m. memo_id m = target_id) (memos s) = -1"
    using assms(2) findIndex_neg_iff [of "\<lambda>m. memo_id m = target_id" "memos s"] findIndex_ge [of "\<lambda>m. memo_id m = target_id" "memos s"]
    by auto
  ultimately show ?thesis
    by (simp add: selectedMemo_def show_memo_def setMemoElement_Thrown on_view_outcome_def)
qed

text \<open>\<^verbatim>\<open>setActiveStyle\<close> with the same arguments a second time changes nothing.\<close>

lemma setActiveStyle_twice:
  "setActiveStyle k b v = Done v' \<Longrightarrow> setActiveStyle k b v' = Done v'"
  by (auto simp: setActiveStyle_def Let_def split: if_splits)

lemma active_style_twice:
  "then_do (active_style (memoIndex s + 1) b s) (\<lambda>s'. active_style (memoIndex s' + 1) b s') =
   active_style (memoIndex s + 1) b s"
proof (cases "setActiveStyle (memoIndex s + 1) b (page s)")
  case (Done v)
  then have "setActiveStyle (memoIndex s + 1) b v = Done v" by (rule setActiveStyle_twice)
  with Done show ?thesis by (simp add: active_style_def on_view_outcome_def)
next
  case (Thrown e v)
  then show ?thesis by (simp add: active_style_def on_view_outcome_def)
qed

end
