(* ===== verification/Machine.thy ===== *)
theory Machine
  imports Handlers
begin

text \<open>
  The program of \<^verbatim>\<open>src/src/index.ts\<close> as a state machine: it starts with
  \<^verbatim>\<open>init\<close> and then runs one handler per event the page delivers. The reachable
  states are an inductive set; the well-formedness invariant \<open>session_inv\<close> (a valid
  index, a list of elements in step with the memos, storage equal to the memos, distinct
  ids, well-formed memos, consistent buttons and fields) holds in all of them, and no
  handler throws in them.

  Two assumptions describe the environment. The clock: \<^verbatim>\<open>Date.now()\<close> values are
  13-digit numbers (every date from 2001 to 2286) and a memo created or saved later gets a
  larger timestamp than every memo already present. The stored list, when there is one,
  has distinct ids of the shape \<^verbatim>\<open>newMemo\<close> gives. Without the first, ids collide
  and deletion removes several memos (see the theory \<open>Spec2Isabelle\<close>).
\<close>

definition ts13 :: "timestamp \<Rightarrow> bool" where
  "ts13 t \<longleftrightarrow> 10 ^ 12 \<le> t \<and> t < 10 ^ 13"

text \<open>A memo as \<^verbatim>\<open>newMemo\<close> makes it and \<^verbatim>\<open>clickSaveMemo\<close> keeps it.\<close>

definition memo_ok :: "memo \<Rightarrow> bool" where
  "memo_ok m \<longleftrightarrow> ts13 (createdAt m) \<and> take 13 (memo_id m) = show_nat (createdAt m) \<and> createdAt m \<le> updateAt m"

definition stored_ok :: "memo list \<Rightarrow> bool" where
  "stored_ok ms \<longleftrightarrow> distinct (ids ms) \<and> list_all memo_ok ms"

definition mode_ok :: "view \<Rightarrow> bool" where
  "mode_ok v \<longleftrightarrow> (save_hidden v \<longleftrightarrow> \<not> edit_hidden v) \<and>
     (\<not> save_hidden v \<longrightarrow> \<not> title_disabled v \<and> \<not> body_disabled v \<and> \<not> body_hidden v \<and> preview_hidden v)"

definition session_inv :: "session \<Rightarrow> bool" where
  "session_inv s \<longleftrightarrow> synced s \<and> readLacalStorage (storage s) STORAGE_KEY = memos s \<and>
     stored_ok (memos s) \<and> mode_ok (page s)"

text \<open>The clock at an event that reads it.\<close>

fun clock_ok :: "event \<Rightarrow> session \<Rightarrow> bool" where
  "clock_ok (AddClick t) s = (ts13 t \<and> list_all (\<lambda>m. createdAt m < t) (memos s))"
| "clock_ok (SaveClick t) s = list_all (\<lambda>m. createdAt m < t) (memos s)"
| "clock_ok _ s = True"

inductive reachable :: "session \<Rightarrow> bool" where
  boot: "stored_ok (readLacalStorage st STORAGE_KEY) \<Longrightarrow> ts13 t1 \<Longrightarrow> ts13 t2 \<Longrightarrow>
         reachable (final_state (init t1 t2 st v))"
| step: "reachable s \<Longrightarrow> enabled ev s \<Longrightarrow> clock_ok ev s \<Longrightarrow>
         reachable (final_state (handle ev s))"

inductive_cases reachable_stepE: "reachable s"

section \<open>Ids\<close>

lemma ts13_length [simp]: "ts13 t \<Longrightarrow> length (show_nat t) = 13"
  using length_show_nat [of 12 t] by (simp add: ts13_def)

lemma newMemo_stamp [simp]: "ts13 t \<Longrightarrow> take 13 (memo_id (newMemo t ms)) = show_nat t"
  by simp

lemma newMemo_ok [simp]: "ts13 t \<Longrightarrow> memo_ok (newMemo t ms)"
  by (simp add: memo_ok_def)

text \<open>Equal ids mean equal creation times: the first 13 characters are the timestamp.\<close>

lemma newMemo_same_id_stamp:
  assumes "memo_ok m" and "ts13 t" and "memo_id (newMemo t ms) = memo_id m"
  shows "createdAt m = t"
proof -
  from assms(3) have "take 13 (memo_id (newMemo t ms)) = take 13 (memo_id m)" by simp
  with assms(1,2) have "show_nat t = show_nat (createdAt m)" by (simp add: memo_ok_def)
  then show ?thesis by (simp add: show_nat_inj)
qed

lemma newMemo_fresh:
  assumes "memo_ok m" and "ts13 t" and "createdAt m < t"
  shows "memo_id (newMemo t ms) \<noteq> memo_id m"
  using newMemo_same_id_stamp [OF assms(1,2)] assms(3) by auto

lemma newMemo_not_in_ids:
  "list_all memo_ok ms \<Longrightarrow> ts13 t \<Longrightarrow> list_all (\<lambda>m. createdAt m < t) ms \<Longrightarrow>
   memo_id (newMemo t ms') \<notin> set (ids ms)"
  using newMemo_fresh by (fastforce simp: list_all_iff)

lemma boot_memos_ok:
  assumes "stored_ok ms0" and "ts13 t1" and "ts13 t2"
  shows "stored_ok (boot_memos t1 t2 ms0)"
proof (cases "ms0 = []")
  case True
  have "memo_id (newMemo t1 []) \<noteq> memo_id (newMemo t2 [newMemo t1 []])"
    using assms(2,3) newMemo_id_inj [of t1 t2 "[]" "[newMemo t1 []]"] by simp
  with True assms show ?thesis by (simp add: boot_memos_def stored_ok_def)
qed (use assms in \<open>simp add: boot_memos_def\<close>)

section \<open>Each handler keeps the invariant\<close>

lemma init_inv:
  assumes "stored_ok (readLacalStorage st STORAGE_KEY)" and "ts13 t1" and "ts13 t2"
  shows "\<exists>s. init t1 t2 st v = Done s \<and> session_inv s"
proof -
  let ?ms = "boot_memos t1 t2 (readLacalStorage st STORAGE_KEY)"
  have "0 < length ?ms" using boot_memos_ne by blast
  moreover have "stored_ok ?ms" using assms by (rule boot_memos_ok)
  moreover have "readLacalStorage (if readLacalStorage st STORAGE_KEY = [] then saveLocalStorage STORAGE_KEY ?ms st else st) STORAGE_KEY = ?ms"
    by (simp add: boot_memos_def)
  ultimately show ?thesis
    by (simp add: init_Done Let_def session_inv_def synced_def mode_ok_def view_buttons_def setHiddenButton_def)
qed

text \<open>\<^verbatim>\<open>clickAddMemo\<close> rebuilds the index, the list, the buttons and storage from the memos alone.\<close>

lemma add_restores_inv:
  assumes "stored_ok (memos s)" and "clock_ok (AddClick t) s"
  shows "session_inv (final_state (clickAddMemo t s))"
proof -
  from assms have "memo_id (newMemo t (memos s)) \<notin> set (ids (memos s))"
    by (intro newMemo_not_in_ids) (simp_all add: stored_ok_def)
  moreover from assms have "memo_ok (newMemo t (memos s))" by simp
  ultimately show ?thesis using assms(1)
    by (simp add: clickAddMemo_Done session_inv_def synced_def stored_ok_def mode_ok_def
        edit_buttons_def setHiddenButton_def setEditMode_def)
qed

lemma add_inv:
  assumes "session_inv s" and "clock_ok (AddClick t) s"
  shows "session_inv (final_state (clickAddMemo t s))"
  using assms by (intro add_restores_inv) (simp_all add: session_inv_def)

lemma session_inv_index:
  assumes "session_inv s"
  obtains i where "memoIndex s = int i" "i < length (memos s)"
    "list_items (page s) = items_of (memos s) i" "distinct (ids (memos s))"
  using assms synced_index [of s] by (auto simp: session_inv_def stored_ok_def)

text \<open>The element clicked in the list carries the id of the memo at the same position.\<close>

lemma session_inv_item:
  assumes "session_inv s" and "k < length (list_items (page s))"
  shows "k < length (memos s) \<and> data_id (list_items (page s) ! k) = memo_id (memos s ! k)"
proof -
  obtain i where i: "memoIndex s = int i" "i < length (memos s)"
      "list_items (page s) = items_of (memos s) i" "distinct (ids (memos s))"
    using assms(1) by (rule session_inv_index)
  from assms(2) i(3) have k: "k < length (memos s)" by simp
  moreover have "data_id (list_items (page s) ! k) = memo_id (memos s ! k)"
    using i(3) k items_of_ids [of "memos s" i] by (metis length_map nth_map)
  ultimately show ?thesis by simp
qed

lemma select_inv:
  assumes "session_inv s" and "k < length (list_items (page s))"
  shows "\<exists>s'. handle (SelectItem k) s = Done s' \<and> session_inv s'"
proof -
  obtain i where i: "memoIndex s = int i" "i < length (memos s)"
      "list_items (page s) = items_of (memos s) i" "distinct (ids (memos s))"
    using assms(1) by (rule session_inv_index)
  from session_inv_item [OF assms] have k: "k < length (memos s)"
      and "data_id (list_items (page s) ! k) = memo_id (memos s ! k)" by simp_all
  with assms k i show ?thesis
    by (simp add: selectedMemo_Done session_inv_def synced_def mode_ok_def
        view_buttons_def setHiddenButton_def setEditMode_def)
qed

lemma save_inv:
  assumes "session_inv s" and "clock_ok (SaveClick t) s"
  shows "\<exists>s'. clickSaveMemo t s = Done s' \<and> session_inv s'"
proof -
  obtain i where i: "memoIndex s = int i" "i < length (memos s)"
      "list_items (page s) = items_of (memos s) i" "distinct (ids (memos s))"
    using assms(1) by (rule session_inv_index)
  let ?m' = "(memos s ! i)\<lparr>title := title_value (page s), body := body_value (page s), updateAt := t\<rparr>"
  have ids: "ids ((memos s)[i := ?m']) = ids (memos s)"
    by (metis list_update_id map_update memo.select_convs(1) memo.surjective memo.update_convs(2,3,5))
  have "memos s ! i \<in> set (memos s)" using i(2) by (rule nth_mem)
  with assms have "memo_ok ?m'"
    by (fastforce simp: session_inv_def stored_ok_def memo_ok_def list_all_iff)
  then have "list_all memo_ok ((memos s)[i := ?m'])"
    using assms(1) i(2) by (auto simp: session_inv_def stored_ok_def list_all_iff dest!: set_update_subset_insert [THEN subsetD])
  with assms(1) i ids show ?thesis
    by (simp add: clickSaveMemo_Done [OF _ i(1)] Let_def session_inv_def synced_def stored_ok_def mode_ok_def
        view_buttons_def setHiddenButton_def setEditMode_def)
qed

lemma distinct_take_drop_Suc:
  "distinct xs \<Longrightarrow> distinct (take i xs @ drop (Suc i) xs)"
  by (metis distinct_append distinct_take distinct_drop set_take_disj_set_drop_if_distinct
      le_add2 add.commute plus_1_eq_Suc)

lemma delete_inv:
  assumes "session_inv s"
  shows "\<exists>s'. clickDeleteMemo s = Done s' \<and> session_inv s'"
proof (cases "length (memos s) = 1")
  case True
  with assms show ?thesis
    by (simp add: clickDeleteMemo_last session_inv_def synced_def mode_ok_def notify_def)
next
  case False
  obtain i where i: "memoIndex s = int i" "i < length (memos s)"
      "list_items (page s) = items_of (memos s) i" "distinct (ids (memos s))"
    using assms by (rule session_inv_index)
  with False have two: "2 \<le> length (memos s)" by linarith
  let ?ms' = "take i (memos s) @ drop (Suc i) (memos s)"
  have "distinct (ids ?ms')"
    using distinct_take_drop_Suc [OF i(4), of i] by (simp add: take_map drop_map)
  moreover have "list_all memo_ok ?ms'"
    using assms by (auto simp: session_inv_def stored_ok_def list_all_iff dest: in_set_takeD in_set_dropD)
  moreover have "prev_index i < length ?ms'"
    using i(2) two by (auto simp: prev_index_def)
  ultimately show ?thesis
    using assms i two
    by (simp add: clickDeleteMemo_Done [OF _ i(1) i(4) two] Let_def session_inv_def synced_def stored_ok_def
        mode_ok_def view_buttons_def setHiddenButton_def setEditMode_def)
qed

lemma download_inv:
  assumes "session_inv s"
  shows "\<exists>s'. clickDownloadMemo s = Done s' \<and> session_inv s'"
proof -
  obtain i where i: "memoIndex s = int i" "i < length (memos s)"
      "list_items (page s) = items_of (memos s) i" "distinct (ids (memos s))"
    using assms by (rule session_inv_index)
  with assms show ?thesis
    by (simp add: clickDownloadMemo_Done [OF _ i(1)] session_inv_def synced_def mode_ok_def)
qed

lemma handle_inv:
  assumes "session_inv s" and "enabled ev s" and "clock_ok ev s"
  shows "\<exists>s'. handle ev s = Done s' \<and> session_inv s'"
proof (cases ev)
  case (AddClick t)
  with assms add_inv [of s t] show ?thesis
    by (simp add: clickAddMemo_Done)
next
  case (SelectItem k)
  with assms select_inv show ?thesis by simp
next
  case EditClick
  with assms show ?thesis
    by (simp add: clickEditMemo_def session_inv_def synced_def mode_ok_def edit_buttons_def
        setHiddenButton_def setEditMode_def)
next
  case (SaveClick t)
  with assms save_inv show ?thesis by simp
next
  case DeleteClick
  with assms delete_inv show ?thesis by simp
next
  case DownloadClick
  with assms download_inv show ?thesis by simp
next
  case (TypeTitle x)
  with assms show ?thesis by (simp add: session_inv_def synced_def mode_ok_def)
next
  case (TypeBody x)
  with assms show ?thesis by (simp add: session_inv_def synced_def mode_ok_def)
qed

lemma reachable_session_inv: "reachable s \<Longrightarrow> session_inv s"
proof (induction rule: reachable.induct)
  case (boot st t1 t2 v)
  then obtain s where "init t1 t2 st v = Done s" "session_inv s"
    using init_inv by blast
  then show ?case by simp
next
  case (step s ev)
  then obtain s' where "handle ev s = Done s'" "session_inv s'"
    using handle_inv by blast
  then show ?case by simp
qed

end
