(* ===== verification/Runs.thy ===== *)
theory Runs
  imports Machine
begin

text \<open>
  Runs of the page: the browser delivers events one at a time and each handler runs to
  completion before the next (spec section 5), so a run is the fold of \<open>handle\<close>
  over a list of events. A run is valid when every event is one the page can deliver
  (\<open>enabled\<close>) and the clock behaves (\<open>clock_ok\<close>). This theory counts
  what a run does to the size of the memo list (spec section 8, first property).
\<close>

fun run :: "event list \<Rightarrow> session \<Rightarrow> session" where
  "run [] s = s"
| "run (e # es) s = run es (final_state (handle e s))"

fun valid_run :: "event list \<Rightarrow> session \<Rightarrow> bool" where
  "valid_run [] s = True"
| "valid_run (e # es) s = (enabled e s \<and> clock_ok e s \<and> valid_run es (final_state (handle e s)))"

fun is_add :: "event \<Rightarrow> bool" where
  "is_add (AddClick t) = True"
| "is_add _ = False"

text \<open>A delete that removes a memo: a click on delete while at least two memos exist.\<close>

definition removes :: "event \<Rightarrow> session \<Rightarrow> bool" where
  "removes e s \<longleftrightarrow> e = DeleteClick \<and> 2 \<le> length (memos s)"

fun deletes_done :: "event list \<Rightarrow> session \<Rightarrow> nat" where
  "deletes_done [] s = 0"
| "deletes_done (e # es) s = (if removes e s then 1 else 0) + deletes_done es (final_state (handle e s))"

section \<open>One step\<close>

lemma handle_length:
  assumes "session_inv s" and "enabled e s"
  shows "length (memos (final_state (handle e s))) + (if removes e s then 1 else 0)
         = length (memos s) + (if is_add e then 1 else 0)"
proof -
  obtain i where i: "memoIndex s = int i" "i < length (memos s)"
      "list_items (page s) = items_of (memos s) i" "distinct (ids (memos s))"
    using assms(1) by (rule session_inv_index)
  have sy: "synced s" using assms(1) by (simp add: session_inv_def)
  show ?thesis
  proof (cases e)
    case (SelectItem k)
    with session_inv_item [OF assms(1)] assms(2) have k: "k < length (memos s)"
        and "data_id (list_items (page s) ! k) = memo_id (memos s ! k)" by simp_all
    with SelectItem sy i(4) show ?thesis by (simp add: selectedMemo_Done removes_def)
  next
    case (SaveClick t)
    with sy i show ?thesis by (simp add: clickSaveMemo_Done [OF sy i(1)] Let_def removes_def)
  next
    case DeleteClick
    show ?thesis
    proof (cases "length (memos s) = 1")
      case True
      with DeleteClick show ?thesis by (simp add: clickDeleteMemo_last removes_def)
    next
      case False
      with i have "2 \<le> length (memos s)" by linarith
      with DeleteClick sy i show ?thesis
        by (simp add: clickDeleteMemo_Done [OF sy i(1) i(4)] Let_def removes_def)
    qed
  next
    case DownloadClick
    with sy i show ?thesis by (simp add: clickDownloadMemo_Done [OF sy i(1)] removes_def)
  qed (simp_all add: clickAddMemo_Done clickEditMemo_def removes_def)
qed

section \<open>Runs\<close>

lemma valid_run_reachable:
  "reachable s \<Longrightarrow> valid_run es s \<Longrightarrow> reachable (run es s)"
  by (induction es arbitrary: s) (auto intro: reachable.step)

lemma run_length:
  assumes "reachable s" and "valid_run es s"
  shows "length (memos (run es s)) + deletes_done es s = length (memos s) + length (filter is_add es)"
  using assms
proof (induction es arbitrary: s)
  case Nil
  then show ?case by simp
next
  case (Cons e es)
  let ?s' = "final_state (handle e s)"
  from Cons.prems have "length (memos ?s') + (if removes e s then 1 else 0)
         = length (memos s) + (if is_add e then 1 else 0)"
    by (intro handle_length reachable_session_inv) auto
  moreover from Cons.prems have "length (memos (run es ?s')) + deletes_done es ?s' =
      length (memos ?s') + length (filter is_add es)"
    by (intro Cons.IH) (auto intro: reachable.step)
  ultimately show ?case by (cases "is_add e"; cases "removes e s") simp_all
qed

end
