(* ===== verification/Repository.thy ===== *)
theory Repository
  imports Runs
begin

text \<open>
  The abstract design of spec sections 4.2 and 4.3: a memo repository (an ordered
  sequence with create, find by id, update and delete, delete refusing to remove the last
  memo) driven by a selection/edit state machine with states
  \<open>(selectedIndex, mode)\<close>. The page of \<^verbatim>\<open>src/src/index.ts\<close> refines it:
  the abstraction \<open>abs_session\<close> keeps the memo list and the index and reads the mode
  off the save button (visible exactly in edit mode), and \<open>abs_event\<close> reads a click
  as the abstract event it stands for. Typing and downloading are stuttering steps.
\<close>

datatype mode = Viewing | Editing

record repo =
  rmemos :: "memo list"
  selectedIndex :: nat
  mode :: mode

datatype repo_error = LastMemoError

datatype aevent =
    Create timestamp
  | Select string
  | Edit
  | Save timestamp string string
  | Delete
  | Stutter

section \<open>Repository operations (spec 4.2)\<close>

definition repo_create :: "timestamp \<Rightarrow> memo list \<Rightarrow> memo list" where
  "repo_create now ms = ms @ [newMemo now ms]"

fun repo_findIndexById :: "string \<Rightarrow> memo list \<Rightarrow> nat option" where
  "repo_findIndexById x [] = None"
| "repo_findIndexById x (m # ms) = (if memo_id m = x then Some 0 else map_option Suc (repo_findIndexById x ms))"

definition repo_update :: "nat \<Rightarrow> string \<Rightarrow> string \<Rightarrow> timestamp \<Rightarrow> memo list \<Rightarrow> memo list" where
  "repo_update i t b now ms = ms[i := (ms ! i)\<lparr>title := t, body := b, updateAt := now\<rparr>]"

definition repo_delete :: "string \<Rightarrow> memo list \<Rightarrow> repo_error + memo list" where
  "repo_delete x ms = (if length ms = 1 then Inl LastMemoError else Inr (filter (\<lambda>m. memo_id m \<noteq> x) ms))"

section \<open>The selection/edit state machine (spec 4.3)\<close>

fun astep :: "aevent \<Rightarrow> repo \<Rightarrow> repo" where
  "astep (Create now) r = \<lparr>rmemos = repo_create now (rmemos r), selectedIndex = length (rmemos r), mode = Editing\<rparr>"
| "astep (Select x) r =
     (case repo_findIndexById x (rmemos r) of
        Some k \<Rightarrow> r\<lparr>selectedIndex := k, mode := Viewing\<rparr>
      | None \<Rightarrow> r)"
| "astep Edit r = r\<lparr>mode := Editing\<rparr>"
| "astep (Save now t b) r = r\<lparr>rmemos := repo_update (selectedIndex r) t b now (rmemos r), mode := Viewing\<rparr>"
| "astep Delete r =
     (case repo_delete (memo_id (rmemos r ! selectedIndex r)) (rmemos r) of
        Inl e \<Rightarrow> r
      | Inr ms \<Rightarrow> \<lparr>rmemos = ms, selectedIndex = selectedIndex r - 1, mode = Viewing\<rparr>)"
| "astep Stutter r = r"

section \<open>Abstraction of the page\<close>

definition abs_session :: "session \<Rightarrow> repo" where
  "abs_session s = \<lparr>rmemos = memos s, selectedIndex = nat (memoIndex s),
     mode = (if save_hidden (page s) then Viewing else Editing)\<rparr>"

fun abs_event :: "event \<Rightarrow> session \<Rightarrow> aevent" where
  "abs_event (AddClick t) s = Create t"
| "abs_event (SelectItem k) s = Select (data_id (list_items (page s) ! k))"
| "abs_event EditClick s = Edit"
| "abs_event (SaveClick t) s = Save t (title_value (page s)) (body_value (page s))"
| "abs_event DeleteClick s = Delete"
| "abs_event DownloadClick s = Stutter"
| "abs_event (TypeTitle x) s = Stutter"
| "abs_event (TypeBody x) s = Stutter"

fun abs_trace :: "event list \<Rightarrow> session \<Rightarrow> aevent list" where
  "abs_trace [] s = []"
| "abs_trace (e # es) s = abs_event e s # abs_trace es (final_state (handle e s))"

section \<open>Lemmas\<close>

lemma findIndex_repo_findIndexById:
  "findIndex (\<lambda>m. memo_id m = x) ms = (case repo_findIndexById x ms of None \<Rightarrow> -1 | Some k \<Rightarrow> int k)"
  by (induction ms) (auto simp: Let_def split: option.split)

lemma repo_findIndexById_nth:
  assumes "distinct (ids ms)" and "k < length ms"
  shows "repo_findIndexById (memo_id (ms ! k)) ms = Some k"
proof -
  have "findIndex (\<lambda>m. memo_id m = memo_id (ms ! k)) ms = int k"
    using assms by (rule findIndex_distinct_ids)
  then show ?thesis
    by (simp add: findIndex_repo_findIndexById split: option.splits)
qed

lemma repo_findIndexById_Some:
  "repo_findIndexById x ms = Some k \<Longrightarrow> k < length ms \<and> memo_id (ms ! k) = x"
  by (induction ms arbitrary: k) (auto split: if_splits)

lemma repo_findIndexById_None: "repo_findIndexById x ms = None \<longleftrightarrow> x \<notin> set (ids ms)"
  by (induction ms) auto

lemma mode_buttons [simp]:
  "save_hidden (view_buttons v)" "\<not> save_hidden (edit_buttons v)"
  "save_hidden (setEditMode b v) = save_hidden v" "save_hidden (notify n v) = save_hidden v"
  by (simp_all add: view_buttons_def edit_buttons_def setHiddenButton_def setEditMode_def notify_def)

lemma prev_index_nat [simp]: "prev_index i = i - 1"
  by (simp add: prev_index_def)

section \<open>Refinement\<close>

text \<open>Every step of the page from a well-formed state completes and is the abstract step of the event it stands for.\<close>

lemma handle_refines:
  assumes "session_inv s" and "enabled e s"
  shows "\<exists>s'. handle e s = Done s' \<and> abs_session s' = astep (abs_event e s) (abs_session s)"
proof -
  obtain i where i: "memoIndex s = int i" "i < length (memos s)"
      "list_items (page s) = items_of (memos s) i" "distinct (ids (memos s))"
    using assms(1) by (rule session_inv_index)
  have sy: "synced s" using assms(1) by (simp add: session_inv_def)
  show ?thesis
  proof (cases e)
    case (AddClick t)
    then show ?thesis by (simp add: clickAddMemo_Done abs_session_def repo_create_def)
  next
    case (SelectItem k)
    with session_inv_item [OF assms(1)] assms(2) have k: "k < length (memos s)"
        and "data_id (list_items (page s) ! k) = memo_id (memos s ! k)" by simp_all
    with SelectItem assms(2) sy i(4) show ?thesis
      by (simp add: selectedMemo_Done abs_session_def repo_findIndexById_nth)
  next
    case EditClick
    then show ?thesis by (simp add: clickEditMemo_def abs_session_def)
  next
    case (SaveClick t)
    with sy i show ?thesis
      by (simp add: clickSaveMemo_Done [OF sy i(1)] Let_def abs_session_def repo_update_def)
  next
    case DeleteClick
    show ?thesis
    proof (cases "length (memos s) = 1")
      case True
      with DeleteClick show ?thesis
        by (simp add: clickDeleteMemo_last abs_session_def repo_delete_def)
    next
      case False
      with i have two: "2 \<le> length (memos s)" by linarith
      have "filter (\<lambda>m. memo_id m \<noteq> memo_id (memos s ! i)) (memos s) = take i (memos s) @ drop (Suc i) (memos s)"
        using i(4) i(2) by (rule filter_distinct_nth)
      with DeleteClick sy i two show ?thesis
        by (simp add: clickDeleteMemo_Done [OF sy i(1) i(4) two] Let_def abs_session_def repo_delete_def)
    qed
  next
    case DownloadClick
    with sy i show ?thesis by (simp add: clickDownloadMemo_Done [OF sy i(1)] abs_session_def)
  qed (simp_all add: abs_session_def)
qed

lemma run_refines:
  assumes "reachable s" and "valid_run es s"
  shows "abs_session (run es s) = fold astep (abs_trace es s) (abs_session s)"
  using assms
proof (induction es arbitrary: s)
  case Nil
  then show ?case by simp
next
  case (Cons e es)
  let ?s' = "final_state (handle e s)"
  from Cons.prems have "abs_session ?s' = astep (abs_event e s) (abs_session s)"
    using handle_refines [of s e] reachable_session_inv by auto
  moreover from Cons.prems have "abs_session (run es ?s') = fold astep (abs_trace es ?s') (abs_session ?s')"
    by (intro Cons.IH) (auto intro: reachable.step)
  ultimately show ?case by simp
qed

lemma init_refines:
  "abs_session (final_state (init t1 t2 st v)) =
     \<lparr>rmemos = boot_memos t1 t2 (readLacalStorage st STORAGE_KEY), selectedIndex = 0, mode = Viewing\<rparr>"
  by (simp add: init_Done Let_def abs_session_def)

end
