(* ===== verification/Presentation.thy ===== *)
theory Presentation
  imports Repository
begin

text \<open>
  Presentation sync (spec section 4.4): what the page shows as a function of the abstract
  state. The list of labels and the active marker are in step with the memos by
  \<open>session_inv\<close>; this theory adds the preview region: whenever the page is in
  Viewing mode (save button hidden), the preview was last asked to render the body of the
  selected memo, and a field that is read-only shows the selected memo's title or body
  (a writable field may hold typed text: \<^verbatim>\<open>init\<close> leaves the fields as the HTML has
  them). Every handler that leaves Viewing mode on calls \<^verbatim>\<open>setMemoElement\<close>
  after changing the memos; the others do not touch the memos, the index or the preview.
\<close>

definition preview_synced :: "session \<Rightarrow> bool" where
  "preview_synced s \<longleftrightarrow>
     (save_hidden (page s) \<longrightarrow> preview_src (page s) = Some (body (memos s ! nat (memoIndex s))) \<and>
        (title_disabled (page s) \<longrightarrow> title_value (page s) = title (memos s ! nat (memoIndex s))) \<and>
        (body_disabled (page s) \<longrightarrow> body_value (page s) = body (memos s ! nat (memoIndex s))))"

lemma preview_synced_step:
  assumes "session_inv s" and "preview_synced s" and "enabled e s"
  shows "preview_synced (final_state (handle e s))"
proof -
  obtain i where i: "memoIndex s = int i" "i < length (memos s)"
      "list_items (page s) = items_of (memos s) i" "distinct (ids (memos s))"
    using assms(1) by (rule session_inv_index)
  have sy: "synced s" using assms(1) by (simp add: session_inv_def)
  show ?thesis
  proof (cases e)
    case (AddClick t)
    then show ?thesis by (simp add: clickAddMemo_Done preview_synced_def)
  next
    case (SelectItem k)
    with session_inv_item [OF assms(1)] assms(3) have k: "k < length (memos s)"
        and "data_id (list_items (page s) ! k) = memo_id (memos s ! k)" by simp_all
    with SelectItem assms(3) sy i(4) show ?thesis
      by (simp add: selectedMemo_Done preview_synced_def)
  next
    case EditClick
    then show ?thesis by (simp add: clickEditMemo_def preview_synced_def)
  next
    case (SaveClick t)
    with sy i show ?thesis
      by (simp add: clickSaveMemo_Done [OF sy i(1)] Let_def preview_synced_def)
  next
    case DeleteClick
    show ?thesis
    proof (cases "length (memos s) = 1")
      case True
      with DeleteClick assms(2) show ?thesis
        by (simp add: clickDeleteMemo_last preview_synced_def notify_def)
    next
      case False
      with i have two: "2 \<le> length (memos s)" by linarith
      with DeleteClick sy i show ?thesis
        by (simp add: clickDeleteMemo_Done [OF sy i(1) i(4) two] Let_def preview_synced_def)
    qed
  next
    case DownloadClick
    with sy i assms(2) show ?thesis
      by (simp add: clickDownloadMemo_Done [OF sy i(1)] preview_synced_def)
  qed (use assms(2,3) in \<open>simp_all add: preview_synced_def\<close>)
qed

lemma reachable_preview_synced: "reachable s \<Longrightarrow> preview_synced s"
proof (induction rule: reachable.induct)
  case (boot st t1 t2 v)
  then show ?case by (simp add: init_Done Let_def preview_synced_def)
next
  case (step s ev)
  then show ?case by (intro preview_synced_step reachable_session_inv)
qed

end
