(* ===== verification/Tabs.thy ===== *)
theory Tabs
  imports Presentation
begin

text \<open>
  Two tabs of the same origin. Each tab runs its own copy of \<^verbatim>\<open>src/src/index.ts\<close>
  (its own globals \<^verbatim>\<open>memos\<close>, \<^verbatim>\<open>memoIndex\<close> and its own page) while
  \<^verbatim>\<open>localStorage\<close> is one store shared by both. The browser runs one handler of
  one tab at a time to completion; a handler sees the shared store as it is when it runs.
  The spec (section 5) assumes a single actor; this theory shows what the code does when
  there are two.
\<close>

datatype tab = TabA | TabB

record browser =
  tabA :: session
  tabB :: session
  shared :: local_storage

fun other :: "tab \<Rightarrow> tab" where
  "other TabA = TabB"
| "other TabB = TabA"

fun tab_session :: "tab \<Rightarrow> browser \<Rightarrow> session" where
  "tab_session TabA b = tabA b"
| "tab_session TabB b = tabB b"

text \<open>The globals and page of a tab with the shared store in place of its own.\<close>

definition tab_state :: "tab \<Rightarrow> browser \<Rightarrow> session" where
  "tab_state x b = (tab_session x b)\<lparr>storage := shared b\<rparr>"

fun set_tab :: "tab \<Rightarrow> session \<Rightarrow> browser \<Rightarrow> browser" where
  "set_tab TabA s b = b\<lparr>tabA := s, shared := storage s\<rparr>"
| "set_tab TabB s b = b\<lparr>tabB := s, shared := storage s\<rparr>"

text \<open>An event handled in one tab, and a tab (re)loading the page, which runs \<^verbatim>\<open>init\<close>.\<close>

definition bstep :: "tab \<Rightarrow> event \<Rightarrow> browser \<Rightarrow> browser" where
  "bstep x e b = set_tab x (final_state (handle e (tab_state x b))) b"

definition bopen :: "tab \<Rightarrow> timestamp \<Rightarrow> timestamp \<Rightarrow> view \<Rightarrow> browser \<Rightarrow> browser" where
  "bopen x t1 t2 v b = set_tab x (final_state (init t1 t2 (shared b) v)) b"

text \<open>The events whose handler writes the memo list to storage.\<close>

fun writes :: "event \<Rightarrow> session \<Rightarrow> bool" where
  "writes (AddClick t) s = True"
| "writes (SaveClick t) s = True"
| "writes DeleteClick s = (2 \<le> length (memos s))"
| "writes _ s = False"

section \<open>Lemmas\<close>

lemma selectedMemo_keeps_data:
  assumes "synced s" and "distinct (ids (memos s))"
  shows "memos (final_state (selectedMemo x s)) = memos s \<and> storage (final_state (selectedMemo x s)) = storage s"
proof (cases "x \<in> set (ids (memos s))")
  case True
  then obtain k where k: "k < length (memos s)" "x = memo_id (memos s ! k)"
    by (auto simp: in_set_conv_nth)
  then show ?thesis using assms by (simp add: selectedMemo_Done)
next
  case False
  with assms(1) show ?thesis by (simp add: selectedMemo_unknown)
qed

text \<open>A handler either leaves storage alone or overwrites the list with its own memos.\<close>

lemma handle_storage:
  assumes "synced s" and "distinct (ids (memos s))"
  shows "storage (final_state (handle e s)) =
     (if writes e s then saveLocalStorage STORAGE_KEY (memos (final_state (handle e s))) (storage s) else storage s)"
proof -
  obtain i where i: "memoIndex s = int i" "i < length (memos s)" using assms(1) by (rule synced_index)
  show ?thesis
  proof (cases e)
    case (SaveClick t)
    with assms i show ?thesis by (simp add: clickSaveMemo_Done [OF assms(1) i(1)] Let_def)
  next
    case DeleteClick
    show ?thesis
    proof (cases "length (memos s) = 1")
      case True
      with DeleteClick show ?thesis by (simp add: clickDeleteMemo_last)
    next
      case False
      with i have two: "2 \<le> length (memos s)" by linarith
      with DeleteClick show ?thesis by (simp add: clickDeleteMemo_Done [OF assms(1) i(1) assms(2) two] Let_def)
    qed
  next
    case (SelectItem k)
    with selectedMemo_keeps_data [OF assms] show ?thesis by simp
  next
    case DownloadClick
    with assms show ?thesis by (simp add: clickDownloadMemo_Done [OF assms(1) i(1)])
  qed (simp_all add: clickAddMemo_Done clickEditMemo_def)
qed

lemma tab_state_set_tab [simp]:
  "tab_state x (set_tab x s b) = s" "tab_state (other x) (set_tab x s b) = (tab_state (other x) b)\<lparr>storage := storage s\<rparr>"
  by (cases x; simp add: tab_state_def)+

lemma tab_session_set_other [simp]: "tab_session (other x) (set_tab x s b) = tab_session (other x) b"
  by (cases x) simp_all

lemma storage_tab_state [simp]: "storage (tab_state x b) = shared b"
  by (simp add: tab_state_def)

lemma shared_set_tab [simp]: "shared (set_tab x s b) = storage s"
  by (cases x) simp_all

end
