(* ===== verification/Json_Fuel.thy ===== *)
theory Json_Fuel
  imports Json
begin

text \<open>
  The parser of \<open>Json\<close> is a fuel-bounded mutual recursion, each call spending one
  unit. This theory shows that the bound \<open>json_parse\<close> gives it is never what makes
  it fail: every call consumes input (the remainder it returns is shorter than its input),
  a value of a text of length \<open>l\<close> needs at most \<open>2 l + 1\<close> units, and any
  larger amount gives the same result. So \<open>json_parse\<close> is the terminating parser
  the fuel approximates, on every text, not only on printed ones.
\<close>

lemma skip_ws_Cons_shorter: "skip_ws s = c # cs \<Longrightarrow> length cs < length s"
  using length_dropWhile_le [of is_ws s] by simp

lemma parse_str_body_shorter:
  "parse_str_body acc s = Some (x, r) \<Longrightarrow> length r < length s"
proof (induction acc s rule: parse_str_body.induct)
  case (1 acc)
  then show ?case by simp
next
  case (2 acc c cs)
  show ?case
  proof (cases "c = quote_c")
    case True
    with "2.prems" show ?thesis by simp
  next
    case nq: False
    show ?thesis
    proof (cases "c = bslash_c")
      case bs: True
      obtain e cs' where cs: "cs = e # cs'"
        using "2.prems" nq bs by (cases cs) simp_all
      show ?thesis
      proof (cases "short_esc e")
        case (Some y)
        with "2.prems" nq bs cs have "parse_str_body (y # acc) cs' = Some (x, r)" by simp
        with "2.IH"(2) [OF nq bs cs Some] cs show ?thesis by simp
      next
        case None
        with "2.prems" nq bs cs have u: "e = CHR ''u''" by (simp split: if_split_asm)
        obtain h1 h2 h3 h4 rest where cs': "cs' = h1 # h2 # h3 # h4 # rest"
          using "2.prems" nq bs cs None u
          by (cases cs' rule: remdups_adj.cases; cases "tl (tl cs')"; cases "tl (tl (tl cs'))"; simp)
        obtain v where h: "hex4 h1 h2 h3 h4 = Some v" and v: "v < 256"
          and p: "parse_str_body (char_of v # acc) rest = Some (x, r)"
          using "2.prems" nq bs cs None u cs' by (simp split: option.split_asm if_split_asm)
        from "2.IH"(1) [OF nq bs cs None u cs' refl refl refl h v p] cs cs' show ?thesis by simp
      qed
    next
      case nb: False
      with "2.prems" nq have lt: "\<not> of_char c < (32::nat)" and p: "parse_str_body (c # acc) cs = Some (x, r)"
        by (simp_all split: if_split_asm)
      from "2.IH"(3) [OF nq nb lt p] show ?thesis by simp
    qed
  qed
qed

lemma parse_num_shorter:
  assumes "parse_num s = Some (v, r)"
  shows "length r < length s"
proof -
  define s1 where "s1 = (if s \<noteq> [] \<and> hd s = CHR ''-'' then tl s else s)"
  have l: "length s1 \<le> length s" by (simp add: s1_def)
  have "(if takeWhile is_digit s1 = [] \<or> (hd (takeWhile is_digit s1) = CHR ''0'' \<and> tl (takeWhile is_digit s1) \<noteq> [])
           \<or> (dropWhile is_digit s1 \<noteq> [] \<and> hd (dropWhile is_digit s1) \<in> {CHR ''.'', CHR ''e'', CHR ''E''})
         then None
         else Some (JNum (if s \<noteq> [] \<and> hd s = CHR ''-'' then - int (read_nat (takeWhile is_digit s1))
           else int (read_nat (takeWhile is_digit s1))), dropWhile is_digit s1)) = Some (v, r)"
    using assms unfolding parse_num_def Let_def s1_def [symmetric] .
  then have ne: "takeWhile is_digit s1 \<noteq> []" and r: "r = dropWhile is_digit s1"
    by (simp_all split: if_split_asm)
  have "length (takeWhile is_digit s1) + length (dropWhile is_digit s1) = length s1"
    by (metis length_append takeWhile_dropWhile_id)
  moreover from ne have "0 < length (takeWhile is_digit s1)" by simp
  ultimately show ?thesis using l unfolding r by linarith
qed

lemma parse_shorter:
  "(\<forall>s v r. parse_value n s = Some (v, r) \<longrightarrow> length r < length s) \<and>
   (\<forall>s vs r. parse_elems n s = Some (vs, r) \<longrightarrow> length r < length s) \<and>
   (\<forall>s kvs r. parse_members n s = Some (kvs, r) \<longrightarrow> length r < length s)"
proof (induction n)
  case 0
  then show ?case by simp
next
  case (Suc n)
  then have v: "\<And>s v r. parse_value n s = Some (v, r) \<Longrightarrow> length r < length s"
    and e: "\<And>s vs r. parse_elems n s = Some (vs, r) \<Longrightarrow> length r < length s"
    and m: "\<And>s kvs r. parse_members n s = Some (kvs, r) \<Longrightarrow> length r < length s" by blast+
  have "parse_value (Suc n) s = Some (x, r) \<Longrightarrow> length r < length s" for s x r
  proof -
    assume p: "parse_value (Suc n) s = Some (x, r)"
    then obtain c cs where sc: "skip_ws s = c # cs" by (cases "skip_ws s") simp_all
    then have l: "length cs < length s" by (rule skip_ws_Cons_shorter)
    have "length r < length (c # cs)"
    proof (cases "c = CHR ''[''")
      case True
      with p sc show ?thesis
        by (auto split: list.split_asm if_split_asm dest!: e skip_ws_Cons_shorter)
    next
      case nb: False
      show ?thesis
      proof (cases "c = CHR ''{''")
        case True
        with p sc show ?thesis
          by (auto split: list.split_asm if_split_asm dest!: m skip_ws_Cons_shorter)
      next
        case nc: False
        show ?thesis
        proof (cases "c = quote_c")
          case True
          with p sc show ?thesis by (auto dest!: parse_str_body_shorter)
        next
          case nq: False
          with nb nc p sc show ?thesis
            by (auto split: if_split_asm dest!: parse_num_shorter)
        qed
      qed
    qed
    with l show ?thesis by simp
  qed
  moreover have "parse_elems (Suc n) s = Some (vs, r) \<Longrightarrow> length r < length s" for s vs r
  proof -
    assume p: "parse_elems (Suc n) s = Some (vs, r)"
    then obtain x r1 where p1: "parse_value n s = Some (x, r1)" by (auto split: option.split_asm)
    with v have l1: "length r1 < length s" .
    from p p1 obtain d r' where sd: "skip_ws r1 = d # r'" by (cases "skip_ws r1") simp_all
    then have "length r' < length r1" by (rule skip_ws_Cons_shorter)
    with p p1 sd l1 show ?thesis
      by (auto split: if_split_asm option.split_asm dest!: e)
  qed
  moreover have "parse_members (Suc n) s = Some (kvs, r) \<Longrightarrow> length r < length s" for s kvs r
  proof -
    assume p: "parse_members (Suc n) s = Some (kvs, r)"
    then obtain cs where sc: "skip_ws s = quote_c # cs"
      by (cases "skip_ws s") (simp_all split: if_split_asm)
    with p obtain k r1 where p1: "parse_str_body [] cs = Some (k, r1)"
      by (auto split: option.split_asm)
    from p sc p1 obtain r2 where s2: "skip_ws r1 = CHR '':'' # r2"
      by (cases "skip_ws r1") (simp_all split: if_split_asm)
    from p sc p1 s2 obtain x r3 where p3: "parse_value n r2 = Some (x, r3)"
      by (auto split: option.split_asm)
    from p sc p1 s2 p3 obtain e' r4 where s4: "skip_ws r3 = e' # r4"
      by (cases "skip_ws r3") simp_all
    have "length r4 < length s"
      using skip_ws_Cons_shorter [OF sc] parse_str_body_shorter [OF p1] skip_ws_Cons_shorter [OF s2]
        v [OF p3] skip_ws_Cons_shorter [OF s4] by simp
    with p sc p1 s2 p3 s4 show ?thesis
      by (auto split: if_split_asm option.split_asm dest!: m)
  qed
  ultimately show ?case by blast
qed

lemma parse_fuel:
  "(\<forall>s m. 2 * length s + 1 \<le> n \<longrightarrow> n \<le> m \<longrightarrow> parse_value m s = parse_value n s) \<and>
   (\<forall>s m. 2 * length s + 2 \<le> n \<longrightarrow> n \<le> m \<longrightarrow> parse_elems m s = parse_elems n s) \<and>
   (\<forall>s m. 2 * length s + 2 \<le> n \<longrightarrow> n \<le> m \<longrightarrow> parse_members m s = parse_members n s)"
proof (induction n)
  case 0
  then show ?case by simp
next
  case (Suc n)
  then have v: "\<And>s m. 2 * length s + 1 \<le> n \<Longrightarrow> n \<le> m \<Longrightarrow> parse_value m s = parse_value n s"
    and e: "\<And>s m. 2 * length s + 2 \<le> n \<Longrightarrow> n \<le> m \<Longrightarrow> parse_elems m s = parse_elems n s"
    and m: "\<And>s m. 2 * length s + 2 \<le> n \<Longrightarrow> n \<le> m \<Longrightarrow> parse_members m s = parse_members n s"
    by blast+
  have sh: "\<And>s v r. parse_value n s = Some (v, r) \<Longrightarrow> length r < length s"
    using parse_shorter by blast
  have V: "parse_value (Suc m) s = parse_value (Suc n) s"
    if "2 * length s + 1 \<le> Suc n" "n \<le> m" for s m
  proof (cases "skip_ws s")
    case Nil
    then show ?thesis by (simp del: dropWhile_eq_Nil_conv is_ws_iff)
  next
    case (Cons c cs)
    then have "2 * length cs + 2 \<le> n" using skip_ws_Cons_shorter [OF Cons] that(1) by linarith
    then have E: "parse_elems m cs = parse_elems n cs" and M: "parse_members m cs = parse_members n cs"
      using e m that(2) by blast+
    show ?thesis unfolding parse_value.simps(2) Cons list.case E M ..
  qed
  have E: "parse_elems (Suc m) s = parse_elems (Suc n) s"
    if "2 * length s + 2 \<le> Suc n" "n \<le> m" for s m
  proof -
    have pv: "parse_value m s = parse_value n s" using that by (intro v) simp_all
    show ?thesis
    proof (cases "parse_value n s")
      case None
      with pv show ?thesis by simp
    next
      case (Some xr)
      obtain x r1 where xr: "xr = (x, r1)" by (cases xr)
      with Some have l1: "length r1 < length s" by (auto dest: sh)
      show ?thesis
      proof (cases "skip_ws r1")
        case Nil
        with pv Some xr show ?thesis by (simp del: dropWhile_eq_Nil_conv is_ws_iff)
      next
        case (Cons d r')
        with l1 have "2 * length r' + 2 \<le> n" using skip_ws_Cons_shorter [OF Cons] that(1) by linarith
        then have "parse_elems m r' = parse_elems n r'" using e that(2) by blast
        with pv Some xr Cons show ?thesis by simp
      qed
    qed
  qed
  have M: "parse_members (Suc m) s = parse_members (Suc n) s"
    if "2 * length s + 2 \<le> Suc n" "n \<le> m" for s m
  proof (cases "skip_ws s")
    case Nil
    then show ?thesis by (simp del: dropWhile_eq_Nil_conv is_ws_iff)
  next
    case (Cons c cs)
    show ?thesis
    proof (cases "c = quote_c \<and> parse_str_body [] cs \<noteq> None")
      case False
      with Cons show ?thesis by (cases "parse_str_body [] cs") auto
    next
      case True
      then obtain k r1 where q: "c = quote_c" and p1: "parse_str_body [] cs = Some (k, r1)" by auto
      show ?thesis
      proof (cases "skip_ws r1")
        case Nil
        with Cons q p1 show ?thesis by (simp del: dropWhile_eq_Nil_conv is_ws_iff)
      next
        case (Cons d r2)
        note s2 = this
        show ?thesis
        proof (cases "d = CHR '':''")
          case False
          with \<open>skip_ws s = c # cs\<close> q p1 s2 show ?thesis by simp
        next
          case True
          have l2: "length r2 + 3 \<le> length s"
            using skip_ws_Cons_shorter [OF \<open>skip_ws s = c # cs\<close>] parse_str_body_shorter [OF p1]
              skip_ws_Cons_shorter [OF s2] by simp
          then have pv: "parse_value m r2 = parse_value n r2" using that by (intro v) simp_all
          show ?thesis
          proof (cases "parse_value n r2")
            case None
            with \<open>skip_ws s = c # cs\<close> q p1 s2 True pv show ?thesis by simp
          next
            case (Some xr)
            obtain x r3 where xr: "xr = (x, r3)" by (cases xr)
            show ?thesis
            proof (cases "skip_ws r3")
              case Nil
              with \<open>skip_ws s = c # cs\<close> q p1 s2 True pv Some xr show ?thesis
                by (simp del: dropWhile_eq_Nil_conv is_ws_iff)
            next
              case (Cons e' r4)
              have "length r4 + 2 \<le> length r2"
                using sh [of r2 x r3] Some xr skip_ws_Cons_shorter [OF Cons] by simp
              with l2 have "parse_members m r4 = parse_members n r4" using that by (intro m) simp_all
              with \<open>skip_ws s = c # cs\<close> q p1 s2 True pv Some xr Cons show ?thesis by simp
            qed
          qed
        qed
      qed
    qed
  qed
  have sucD: "\<exists>m. m' = Suc m \<and> n \<le> m" if "Suc n \<le> m'" for m'
    using that by (cases m') simp_all
  show ?case
    by (intro conjI allI impI; elim sucD [THEN exE]; elim conjE; hypsubst; (rule V E M; assumption))
qed

text \<open>\<open>json_parse\<close> with any fuel past the bound.\<close>

lemma json_parse_fuel:
  assumes "2 * length s + 1 \<le> n"
  shows "json_parse s = (case parse_value n s of
                           Some (v, r) \<Rightarrow> if skip_ws r = [] then Some v else None
                         | None \<Rightarrow> None)"
proof -
  have v: "\<forall>s' m. 2 * length s' + 1 \<le> 2 * length s + 1 \<longrightarrow> 2 * length s + 1 \<le> m \<longrightarrow>
      parse_value m s' = parse_value (2 * length s + 1) s'"
    using parse_fuel [of "2 * length s + 1"] by (rule conjunct1)
  have "parse_value n s = parse_value (2 * length s + 1) s"
    using v assms by blast
  moreover have "parse_value (2 * length s + 2) s = parse_value (2 * length s + 1) s"
    by (rule v [rule_format]) simp_all
  ultimately show ?thesis by (simp add: json_parse_def)
qed

end
