(* ===== verification/Spec2Isabelle.thy ===== *)
theory Spec2Isabelle
  imports Tabs Json_Fuel
begin

text \<open>
  \<^bold>\<open>Verification of memo-app.\<close> The program (\<^verbatim>\<open>src/src/index.ts\<close>) is a
  single-page note-taking application. It keeps the memos in a global array
  \<^verbatim>\<open>memos\<close> and the selected position in \<^verbatim>\<open>memoIndex\<close>, persists the array as JSON
  in local storage through a storage adapter (\<^verbatim>\<open>./storage\<close>), and drives a page with a
  list of titles, title and body fields, a markdown preview, add/edit/save/delete buttons
  and a download link. Every user action is an event handler that mutates the globals,
  saves the array and re-renders.

  \<^bold>\<open>Theories.\<close>
  \<^item> \<open>Prelude\<close>: the JavaScript built-ins the code relies on: array reads that may be
    \<^verbatim>\<open>undefined\<close> (\<open>js_get\<close>), \<^verbatim>\<open>findIndex\<close>, decimal \<^verbatim>\<open>toString\<close>
    (\<open>show_nat\<close>, with \<open>read_nat\<close> and injectivity), and the outcome of a handler
    (\<open>Done\<close>, or \<open>Thrown\<close> with the state reached when an exception ended it).
  \<^item> \<open>Memo\<close>: the memo record (fields \<open>memo_id\<close>, \<open>title\<close>, \<open>body\<close>,
    \<open>createdAt\<close>, \<open>updateAt\<close>, as \<^verbatim>\<open>newMemo\<close> writes them) and \<open>newMemo\<close>
    (lines 44-53), whose id is timestamp and list length concatenated.
  \<^item> \<open>Json\<close> and \<open>Storage\<close>: the storage adapter, whose source is not in the
    repository, modelled from the spec: \<open>print_json\<close> is \<^verbatim>\<open>JSON.stringify\<close>,
    \<open>json_parse\<close> is \<^verbatim>\<open>JSON.parse\<close> (a fuel-bounded recursive-descent parser),
    \<open>saveLocalStorage\<close> stores the printed array under a key, \<open>readLacalStorage\<close>
    parses it back and falls back to the empty list. Proved there: parsing a printed value
    gives it back (\<open>json_parse_print\<close>), so loading after saving gives the saved list.
  \<^item> \<open>View\<close>: the page as a record of exactly the element properties the code touches
    (lines 9-18) and the DOM helpers \<^verbatim>\<open>newMemoElement\<close>, \<^verbatim>\<open>clearMemoElements\<close>,
    \<^verbatim>\<open>showMemoElements\<close>, \<^verbatim>\<open>setActiveStyle\<close>, \<^verbatim>\<open>setMemoElement\<close>,
    \<^verbatim>\<open>setHiddenButton\<close>, \<^verbatim>\<open>setEditMode\<close> (lines 79-161). A helper that
    dereferences a missing element or memo throws (\<open>Thrown TypeError\<close>).
  \<^item> \<open>Session\<close>: the state (memos, memoIndex, storage, page) and the handlers
    \<open>init\<close>, \<open>clickAddMemo\<close>, \<open>selectedMemo\<close>, \<open>clickEditMemo\<close>,
    \<open>clickSaveMemo\<close>, \<open>clickDeleteMemo\<close>, \<open>clickDownloadMemo\<close> (lines 56-77 and
    169-286), each the statements of the source in order; \<open>handle\<close> dispatches the
    events of the page and \<open>enabled\<close> says which ones the page can deliver (a hidden
    button or a disabled field takes no input).
  \<^item> \<open>Handlers\<close>: each handler's outcome in closed form (\<open>clickAddMemo_Done\<close>,
    \<open>selectedMemo_Done\<close>, \<open>clickSaveMemo_Done\<close>, \<open>clickDeleteMemo_Done\<close>,
    \<open>init_Done\<close>, ...), under the conditions the code needs.
  \<^item> \<open>Machine\<close>: the reachable states (\<open>reachable\<close>: \<open>init\<close>, then any enabled
    event), the invariant \<open>session_inv\<close> (valid index, list in step with the memos,
    storage equal to the memos, distinct well-formed ids, consistent buttons and fields),
    its preservation by every handler (\<open>handle_inv\<close>) and by rule induction in every
    reachable state (\<open>reachable_session_inv\<close>).
  \<^item> \<open>Runs\<close>: runs of events (\<open>run\<close>, folding \<open>handle\<close>, one handler to
    completion per event as spec section 5 says) and the deliverable ones
    (\<open>valid_run\<close>); the size accounting of a run (\<open>run_length\<close>).
  \<^item> \<open>Repository\<close>: the design of spec sections 4.2 and 4.3 as an abstract machine:
    repository operations \<open>repo_create\<close>, \<open>repo_findIndexById\<close>,
    \<open>repo_update\<close>, \<open>repo_delete\<close> (with the \<open>LastMemoError\<close>) and the
    selection/edit transitions \<open>astep\<close> on \<open>(selectedIndex, mode)\<close>. The page
    refines it through \<open>abs_session\<close> (memos, index, mode read off the save button) and
    \<open>abs_event\<close> (typing and downloading stutter): \<open>handle_refines\<close> for one
    step, \<open>run_refines\<close> for runs.
  \<^item> \<open>Presentation\<close>: spec section 4.4; in Viewing mode the preview was last asked to
    render the selected memo's body and a read-only field shows its title or body
    (\<open>reachable_preview_synced\<close>).
  \<^item> \<open>Json_Fuel\<close>: every parser call consumes input, and any fuel of at least
    \<open>2 l + 1\<close> on a text of length \<open>l\<close> gives the same result
    (\<open>parse_fuel\<close>, \<open>json_parse_fuel\<close>). These lemmas justify the model's fuel
    bound (a device of the model, not of the program) and are not claims about the code.
  \<^item> \<open>Tabs\<close>: two tabs of the origin, each with its own globals and page, over
    one shared local storage (\<open>browser\<close>); \<open>bstep\<close> runs a handler in one tab
    against the shared store, \<open>bopen\<close> loads the page in a tab. Every handler either
    leaves storage alone or overwrites it with its own list (\<open>handle_storage\<close>).
  \<^item> this theory: the properties of the program, stated over reachable states, single
    handlers or runs, each with a witness at a concrete state, and the findings. C1-C4 and
    C14-C15 are invariants of the reachable states; C5-C11 and C16 the behaviour of each
    handler, errors included; C12-C13 the storage round trip and its failure path; C17,
    C18, C28, C30 and C35 the findings; C19, C29 and C32 the ids; C20 the size accounting of
    runs; C21-C22 the refinement of the design's state machine; C23 liveness of editing;
    C24 the lookup against findIndexById; C25 the add/delete round trip; C26 well-formed
    memos; C27 and C31 the preview and the fields in Viewing mode; C33 reloading the page;
    C34 and C35 two tabs sharing storage (C35 a finding: lost updates); C36 liveness of
    deletion down to one memo; C37 the redundant second
    \<^verbatim>\<open>setActiveStyle\<close> call of \<^verbatim>\<open>clickSaveMemo\<close>, against a single-call reference.

  \<^bold>\<open>Environment assumptions.\<close> The clock: \<^verbatim>\<open>Date.now()\<close> has 13 digits
  (\<open>ts13\<close>, true from 2001 to 2286) and an event that reads it sees a value larger than
  the creation time of every memo present (\<open>clock_ok\<close>). A stored list read at start
  has distinct ids of the shape \<^verbatim>\<open>newMemo\<close> produces (\<open>stored_ok\<close>). The
  theorem \<open>same_millisecond_delete_removes_two\<close> shows what happens without the clock
  assumption. The JSON parser's fuel \<open>2 * length s + 2\<close> is more than any text needs: a
  value of a text of length \<open>l\<close> uses at most \<open>2 l + 1\<close> calls, because each
  call consumes at least one character before the next nested call (\<open>Json_Fuel\<close>).

  \<^bold>\<open>Not modelled.\<close> Every statement of \<^verbatim>\<open>src/src/index.ts\<close> except the three
  imports is translated. Left out, and why:
  \<^item> the markdown renderer \<^verbatim>\<open>marked\<close>: an external library; the page records which
    body it was asked to render (\<open>preview_src\<close>), not the HTML. Its call is
    asynchronous, but the continuation is a microtask that completes before the browser
    delivers the next user event, so no handler can interleave with it and the model
    renders at once;
  \<^item> CSS classes other than \<^verbatim>\<open>active\<close>, \<^verbatim>\<open>console.log\<close>, the blob URL of the
    download (the model keeps the file name and the content), and the HTML page itself,
    which is a parameter of \<open>init\<close>;
  \<^item> in the storage adapter, whose source is not in the repository: JSON numbers with
    fractions or exponents (JavaScript doubles; the program only writes integer
    timestamps), string code units above 255 (the model's characters are bytes), and
    fields of stored objects other than the five a memo has. The JSON component is
    therefore only partly modelled;
  \<^item> \<^verbatim>\<open>storage\<close> events between tabs: browsers send them, but the code registers no
    listener for them, so two tabs interact only through the shared store (theory
    \<open>Tabs\<close>);
  \<^item> a clock that goes backwards or repeats: the reachable states assume one that
    advances; C17 and C32 show what a repeated creation time does.
\<close>

definition example_page :: view where
  "example_page = \<lparr>list_items = [], title_value = [], body_value = [], title_disabled = True,
     body_disabled = True, body_hidden = True, preview_hidden = False, preview_src = None,
     save_hidden = False, edit_hidden = False, download = None, alerts = []\<rparr>"

text \<open>A browser with two tabs not yet loaded and an empty local storage.\<close>

definition example_browser :: browser where
  "example_browser = \<lparr>tabA = initial_session Map.empty example_page, tabB = initial_session Map.empty example_page,
     shared = Map.empty\<rparr>"

text \<open>
  \<^verbatim>\<open>clickSaveMemo\<close> as it would read with one call of
  \<^verbatim>\<open>setActiveStyle(memoIndex + 1, true)\<close> instead of the two of lines 233-236.
\<close>

definition clickSaveMemo_once :: "timestamp \<Rightarrow> session \<Rightarrow> session outcome" where
  "clickSaveMemo_once now s =
     (case js_get (memos s) (memoIndex s) of
        None \<Rightarrow> Thrown TypeError s
      | Some m \<Rightarrow>
          (let m' = m\<lparr>title := title_value (page s), body := body_value (page s), updateAt := now\<rparr>;
               s1 = s\<lparr>memos := (memos s)[nat (memoIndex s) := m']\<rparr>;
               s2 = save_memos s1;
               s3 = on_view (view_buttons \<circ> setEditMode False) s2;
               s4 = on_view (showMemoElements (memos s3)) s3
           in then_do (active_style (memoIndex s4 + 1) True s4) show_memo))"

abbreviation boot_example :: session where
  "boot_example \<equiv> final_state (init 1700000000000 1700000000001 Map.empty example_page)"

lemma reachable_boot_example: "reachable boot_example"
  by (rule reachable.boot) (simp_all add: readLacalStorage_def stored_ok_def ts13_def)

lemma boot_example_simps:
  "memos boot_example = [newMemo 1700000000000 [], newMemo 1700000000001 [newMemo 1700000000000 []]]"
  "memoIndex boot_example = 0"
  "length (list_items (page boot_example)) = 2"
  by (simp_all add: init_Done Let_def boot_memos_def readLacalStorage_def)

text \<open>
  C1. In every reachable state the memo list is non-empty and memoIndex is a valid position in it: deleting the last memo is refused and every handler leaves the index in range.
\<close>

theorem memo_list_never_empty:
  assumes "reachable s"
  shows "memos s \<noteq> [] \<and> 0 \<le> memoIndex s \<and> memoIndex s < int (length (memos s))"
  using reachable_session_inv [OF assms] by (auto simp: session_inv_def synced_def)

theorem memo_list_never_empty_witness:
  "reachable boot_example \<and> memos boot_example \<noteq> [] \<and> memoIndex boot_example < 2"
  using memo_list_never_empty [OF reachable_boot_example] reachable_boot_example
  by (simp add: boot_example_simps)

text \<open>
  C2. In every reachable state, reading local storage (readLacalStorage) gives exactly the in-memory memo list: every mutating handler persists before it returns.
\<close>

theorem storage_agrees_with_memos:
  assumes "reachable s"
  shows "readLacalStorage (storage s) STORAGE_KEY = memos s"
  using reachable_session_inv [OF assms] by (simp add: session_inv_def)

theorem storage_agrees_with_memos_witness:
  "reachable boot_example \<and> length (readLacalStorage (storage boot_example) STORAGE_KEY) = 2"
  using storage_agrees_with_memos [OF reachable_boot_example] reachable_boot_example
  by (simp add: boot_example_simps)

text \<open>
  C3. From a reachable state, every event the page can deliver (with a clock that advanced) is handled to completion without an exception, and leads to a reachable state.
\<close>

theorem handlers_never_throw:
  assumes "reachable s" and "enabled ev s" and "clock_ok ev s"
  shows "\<exists>s'. handle ev s = Done s' \<and> reachable s'"
proof -
  obtain s' where "handle ev s = Done s'"
    using handle_inv [OF reachable_session_inv [OF assms(1)] assms(2,3)] by blast
  moreover have "reachable (final_state (handle ev s))"
    using assms by (rule reachable.step)
  ultimately show ?thesis by simp
qed

theorem handlers_never_throw_witness:
  "\<exists>s'. handle DeleteClick boot_example = Done s' \<and> reachable s'"
  by (rule handlers_never_throw [OF reachable_boot_example]) simp_all

text \<open>
  C4. In every reachable state the memo ids are pairwise distinct, given a clock of 13-digit timestamps that advances between creations.
\<close>

theorem memo_ids_distinct:
  assumes "reachable s"
  shows "distinct (ids (memos s))"
  using reachable_session_inv [OF assms] by (simp add: session_inv_def stored_ok_def)

theorem memo_ids_distinct_witness:
  "reachable boot_example \<and> distinct (ids (memos boot_example))"
  using memo_ids_distinct [OF reachable_boot_example] reachable_boot_example by simp

text \<open>
  C5. clickAddMemo appends newMemo at the end (title new memo n+1, empty body), selects it, persists the list, and switches the page to edit mode; it never throws.
\<close>

theorem add_appends_new_memo:
  "\<exists>s'. clickAddMemo t s = Done s' \<and> memos s' = memos s @ [newMemo t (memos s)] \<and>
     title (last (memos s')) = ''new memo '' @ show_nat (length (memos s) + 1) \<and> body (last (memos s')) = [] \<and>
     memoIndex s' = int (length (memos s)) \<and> readLacalStorage (storage s') STORAGE_KEY = memos s' \<and>
     \<not> save_hidden (page s') \<and> edit_hidden (page s') \<and> \<not> title_disabled (page s') \<and> \<not> body_disabled (page s')"
  by (simp add: clickAddMemo_Done edit_buttons_def setHiddenButton_def setEditMode_def)

theorem add_appends_new_memo_witness:
  "\<exists>s'. clickAddMemo 1700000000002 boot_example = Done s' \<and> length (memos s') = 3"
  using add_appends_new_memo [of 1700000000002 boot_example] by (auto simp: boot_example_simps)

text \<open>
  C6. With at least two memos, clickDeleteMemo removes exactly the selected memo, keeps the order of the others, persists, moves the selection to the previous memo (or stays at 0) and switches to view mode.
\<close>

theorem delete_removes_selected:
  assumes "reachable s" and "2 \<le> length (memos s)" and "memoIndex s = int i"
  shows "\<exists>s'. clickDeleteMemo s = Done s' \<and> memos s' = take i (memos s) @ drop (Suc i) (memos s) \<and>
     length (memos s') = length (memos s) - 1 \<and> memoIndex s' = int (if 1 \<le> i then i - 1 else 0) \<and>
     readLacalStorage (storage s') STORAGE_KEY = memos s' \<and> save_hidden (page s')"
proof -
  have inv: "session_inv s" using assms(1) by (rule reachable_session_inv)
  then have "synced s" "distinct (ids (memos s))" "i < length (memos s)"
    using assms(3) by (auto simp: session_inv_def stored_ok_def synced_def)
  then show ?thesis
    using assms(2,3) clickDeleteMemo_Done [of s i]
    by (simp add: Let_def prev_index_def view_buttons_def setHiddenButton_def)
qed

theorem delete_removes_selected_witness:
  "reachable boot_example \<and> 2 \<le> length (memos boot_example) \<and> memoIndex boot_example = int 0 \<and>
   (\<exists>s'. clickDeleteMemo boot_example = Done s' \<and> length (memos s') = 1)"
  using delete_removes_selected [OF reachable_boot_example, of 0] reachable_boot_example
  by (auto simp: boot_example_simps)

text \<open>
  C7. With exactly one memo, clickDeleteMemo changes neither the memos, the index nor storage, and shows the cannot-delete alert.
\<close>

theorem delete_last_memo_refused:
  assumes "length (memos s) = 1"
  shows "\<exists>s'. clickDeleteMemo s = Done s' \<and> memos s' = memos s \<and> memoIndex s' = memoIndex s \<and>
     storage s' = storage s \<and> alerts (page s') = alerts (page s) @ [CannotDeleteLast]"
  using assms by (simp add: clickDeleteMemo_last notify_def)

theorem delete_last_memo_refused_witness:
  "length (memos (boot_example\<lparr>memos := [newMemo 1700000000000 []]\<rparr>)) = 1 \<and>
   (\<exists>s'. clickDeleteMemo (boot_example\<lparr>memos := [newMemo 1700000000000 []]\<rparr>) = Done s' \<and>
     alerts (page s') = alerts (page boot_example) @ [CannotDeleteLast])"
  using delete_last_memo_refused [of "boot_example\<lparr>memos := [newMemo 1700000000000 []]\<rparr>"] by auto

text \<open>
  C8. clickSaveMemo writes the field contents into the selected memo, stamps updateAt with the clock (later than createdAt), leaves every other memo unchanged, persists, and returns to view mode.
\<close>

theorem save_updates_selected_only:
  assumes "reachable s" and "memoIndex s = int i" and "clock_ok (SaveClick t) s"
  shows "\<exists>s'. clickSaveMemo t s = Done s' \<and> length (memos s') = length (memos s) \<and>
     title (memos s' ! i) = title_value (page s) \<and> body (memos s' ! i) = body_value (page s) \<and>
     updateAt (memos s' ! i) = t \<and> createdAt (memos s' ! i) < updateAt (memos s' ! i) \<and>
     (\<forall>j < length (memos s). j \<noteq> i \<longrightarrow> memos s' ! j = memos s ! j) \<and>
     readLacalStorage (storage s') STORAGE_KEY = memos s' \<and> save_hidden (page s')"
proof -
  have inv: "session_inv s" using assms(1) by (rule reachable_session_inv)
  then have sy: "synced s" and i: "i < length (memos s)"
    using assms(2) by (auto simp: session_inv_def synced_def)
  have "memos s ! i \<in> set (memos s)" using i by (rule nth_mem)
  with assms(3) have "createdAt (memos s ! i) < t" by (simp add: list_all_iff)
  with sy i show ?thesis
    by (simp add: clickSaveMemo_Done [OF sy assms(2)] Let_def view_buttons_def setHiddenButton_def)
qed

theorem save_updates_selected_only_witness:
  "reachable boot_example \<and> memoIndex boot_example = int 0 \<and> clock_ok (SaveClick 1700000000002) boot_example \<and>
   (\<exists>s'. clickSaveMemo 1700000000002 boot_example = Done s' \<and> updateAt (memos s' ! 0) = 1700000000002)"
proof -
  have c: "clock_ok (SaveClick 1700000000002) boot_example"
    by (simp add: boot_example_simps)
  show ?thesis
    using save_updates_selected_only [OF reachable_boot_example _ c, of 0] reachable_boot_example c
    by (auto simp: boot_example_simps)
qed

text \<open>
  C9. Clicking the k-th element of the list selects memo k, shows its title and body in the fields, switches to view mode, and changes neither the memos nor storage.
\<close>

theorem select_item_shows_memo:
  assumes "reachable s" and "k < length (list_items (page s))"
  shows "\<exists>s'. handle (SelectItem k) s = Done s' \<and> memoIndex s' = int k \<and> memos s' = memos s \<and>
     storage s' = storage s \<and> title_value (page s') = title (memos s ! k) \<and>
     body_value (page s') = body (memos s ! k) \<and> save_hidden (page s') \<and> title_disabled (page s')"
proof -
  have inv: "session_inv s" using assms(1) by (rule reachable_session_inv)
  then obtain i where i: "memoIndex s = int i" "i < length (memos s)"
      "list_items (page s) = items_of (memos s) i" "distinct (ids (memos s))"
    by (rule session_inv_index)
  from session_inv_item [OF inv assms(2)] have k: "k < length (memos s)"
      and "data_id (list_items (page s) ! k) = memo_id (memos s ! k)" by simp_all
  moreover have "synced s" using inv by (simp add: session_inv_def)
  ultimately show ?thesis
    using assms(2) i(4) k
    by (simp add: selectedMemo_Done view_buttons_def setHiddenButton_def setEditMode_def)
qed

theorem select_item_shows_memo_witness:
  "reachable boot_example \<and> 1 < length (list_items (page boot_example)) \<and>
   (\<exists>s'. handle (SelectItem 1) boot_example = Done s' \<and> memoIndex s' = 1)"
  using select_item_shows_memo [OF reachable_boot_example, of 1] reachable_boot_example
  by (auto simp: boot_example_simps)

text \<open>
  C10. With nothing usable in storage, init creates exactly two memos titled new memo 1 and new memo 2 with empty bodies, selects the first, persists them and shows the page in view mode.
\<close>

theorem init_bootstraps_two_memos:
  assumes "readLacalStorage st STORAGE_KEY = []"
  shows "\<exists>s. init t1 t2 st v = Done s \<and> map title (memos s) = [''new memo 1'', ''new memo 2''] \<and>
     map body (memos s) = [[], []] \<and> memoIndex s = 0 \<and> readLacalStorage (storage s) STORAGE_KEY = memos s \<and>
     save_hidden (page s) \<and> \<not> edit_hidden (page s)"
  using assms
  by (simp add: init_Done Let_def boot_memos_def view_buttons_def setHiddenButton_def show_nat.simps
      digit_char_def cong: if_weak_cong)

theorem init_bootstraps_two_memos_witness:
  "readLacalStorage Map.empty STORAGE_KEY = [] \<and>
   (\<exists>s. init 1700000000000 1700000000001 Map.empty example_page = Done s \<and> length (memos s) = 2)"
proof -
  have e: "readLacalStorage Map.empty STORAGE_KEY = []" by (simp add: readLacalStorage_def)
  have "length [''new memo 1'', ''new memo 2''] = 2" by simp
  then show ?thesis
    using init_bootstraps_two_memos [OF e, of 1700000000000 1700000000001 example_page] e
    by (metis length_map)
qed

text \<open>
  C11. With a non-empty stored list, init uses it as the memo list, selects the first memo, and writes nothing to storage.
\<close>

theorem init_loads_stored_memos:
  assumes "readLacalStorage st STORAGE_KEY \<noteq> []"
  shows "\<exists>s. init t1 t2 st v = Done s \<and> memos s = readLacalStorage st STORAGE_KEY \<and> storage s = st \<and>
     memoIndex s = 0"
  using assms by (simp add: init_Done Let_def boot_memos_def)

theorem init_loads_stored_memos_witness:
  "readLacalStorage (saveLocalStorage STORAGE_KEY [newMemo 1700000000000 []] Map.empty) STORAGE_KEY \<noteq> [] \<and>
   (\<exists>s. init 1700000000001 1700000000002 (saveLocalStorage STORAGE_KEY [newMemo 1700000000000 []] Map.empty)
          example_page = Done s \<and> memos s = [newMemo 1700000000000 []])"
  using init_loads_stored_memos [of "saveLocalStorage STORAGE_KEY [newMemo 1700000000000 []] Map.empty"
      1700000000001 1700000000002 example_page]
  by auto

text \<open>
  C12. The save statement of the handlers (saveLocalStorage(STORAGE_KEY, memos)) is read back exactly by
  readLacalStorage: the JSON print/parse round trip loses nothing, and other keys are unaffected.
\<close>

theorem save_statement_round_trip:
  "readLacalStorage (storage (save_memos s)) k = (if k = STORAGE_KEY then memos s else readLacalStorage (storage s) k)"
  by (simp add: read_save_other)

theorem save_statement_round_trip_witness:
  "readLacalStorage (storage (save_memos boot_example)) STORAGE_KEY = memos boot_example"
  using save_statement_round_trip [of boot_example STORAGE_KEY] by simp

text \<open>
  C13. When the stored value is absent or does not decode to an array of memo objects, loading degrades
  to no memos and init bootstraps the two default memos and persists them.
\<close>

theorem corrupt_storage_bootstraps:
  assumes "st STORAGE_KEY = None \<or> (\<exists>str. st STORAGE_KEY = Some str \<and>
             (\<forall>js. json_parse str = Some (JArr js) \<longrightarrow> those (map memo_of_json js) = None))"
  shows "\<exists>s. init t1 t2 st v = Done s \<and> memos s = [newMemo t1 [], newMemo t2 [newMemo t1 []]] \<and>
     readLacalStorage (storage s) STORAGE_KEY = memos s"
proof -
  have "readLacalStorage st STORAGE_KEY = []"
    using assms by (rule readLacalStorage_failure)
  then show ?thesis by (simp add: init_Done Let_def boot_memos_def)
qed

theorem corrupt_storage_bootstraps_witness:
  "(Map.empty :: local_storage) STORAGE_KEY = None \<and>
   (\<exists>s. init 1700000000000 1700000000001 Map.empty example_page = Done s \<and> length (memos s) = 2)"
  using corrupt_storage_bootstraps [of Map.empty 1700000000000 1700000000001 example_page] by auto

text \<open>
  C14. In every reachable state the list shows one element per memo with its title and id, and exactly the element at memoIndex is marked active.
\<close>

theorem list_view_marks_selected:
  assumes "reachable s"
  shows "map item_text (list_items (page s)) = map title (memos s) \<and>
     map data_id (list_items (page s)) = ids (memos s) \<and>
     (\<forall>j < length (memos s). active (list_items (page s) ! j) \<longleftrightarrow> int j = memoIndex s)"
proof -
  obtain i where i: "memoIndex s = int i" "i < length (memos s)"
      "list_items (page s) = items_of (memos s) i" "distinct (ids (memos s))"
    using reachable_session_inv [OF assms] by (rule session_inv_index)
  have "(map title (memos s))[i := title (memos s ! i)] = map title (memos s)"
    by (metis i(2) list_update_id nth_map)
  then have "map item_text (items_of (memos s) i) = map title (memos s)"
    by (simp add: items_of_def newMemoElement_def map_update comp_def)
  with i show ?thesis
    by (auto simp: items_of_ids items_of_active)
qed

theorem list_view_marks_selected_witness:
  "reachable boot_example \<and> active (list_items (page boot_example) ! 0)"
  using list_view_marks_selected [OF reachable_boot_example] reachable_boot_example
  by (simp add: boot_example_simps)

text \<open>
  C15. In every reachable state exactly one of the save and edit buttons is visible, and while save is visible the fields are writable and the preview is hidden.
\<close>

theorem edit_controls_consistent:
  assumes "reachable s"
  shows "(save_hidden (page s) \<longleftrightarrow> \<not> edit_hidden (page s)) \<and>
     (\<not> save_hidden (page s) \<longrightarrow> \<not> title_disabled (page s) \<and> \<not> body_disabled (page s) \<and>
        \<not> body_hidden (page s) \<and> preview_hidden (page s))"
  using reachable_session_inv [OF assms] by (simp add: session_inv_def mode_ok_def)

theorem edit_controls_consistent_witness:
  "reachable boot_example \<and> (save_hidden (page boot_example) \<longleftrightarrow> \<not> edit_hidden (page boot_example))"
  using edit_controls_consistent [OF reachable_boot_example] reachable_boot_example by simp

text \<open>
  C16. clickDownloadMemo names the file after the selected memo's title with .md and uses its body as content, without touching memos or storage.
\<close>

theorem download_exports_selected:
  assumes "reachable s" and "memoIndex s = int i"
  shows "\<exists>s'. clickDownloadMemo s = Done s' \<and>
     download (page s') = Some (title (memos s ! i) @ ''.md'', body (memos s ! i)) \<and>
     memos s' = memos s \<and> storage s' = storage s \<and> memoIndex s' = memoIndex s"
proof -
  have "synced s" using reachable_session_inv [OF assms(1)] by (simp add: session_inv_def)
  then show ?thesis by (simp add: clickDownloadMemo_Done [OF _ assms(2)])
qed

theorem download_exports_selected_witness:
  "reachable boot_example \<and> memoIndex boot_example = int 0 \<and>
   (\<exists>s'. clickDownloadMemo boot_example = Done s' \<and> download (page s') = Some (''new memo 1.md'', []))"
proof -
  have t: "title (newMemo 1700000000000 []) @ ''.md'' = ''new memo 1.md''"
    by (simp add: show_nat.simps digit_char_def cong: if_weak_cong)
  show ?thesis
    using download_exports_selected [OF reachable_boot_example, of 0] reachable_boot_example t
    by (auto simp: boot_example_simps)
qed

text \<open>
  C17. Finding: when the clock does not advance, newMemo can produce an id already present; one click on delete then removes both memos, empties the list, persists the empty list and throws.
\<close>

theorem same_millisecond_delete_removes_two:
  "\<exists>s1 s2 s3 s4.
     init 1700000000000 1700000000000 Map.empty example_page = Done s1 \<and>
     clickDeleteMemo s1 = Done s2 \<and> clickAddMemo 1700000000000 s2 = Done s3 \<and>
     length (memos s3) = 2 \<and> memo_id (memos s3 ! 0) = memo_id (memos s3 ! 1) \<and>
     clickDeleteMemo s3 = Thrown TypeError s4 \<and> memos s4 = [] \<and>
     readLacalStorage (storage s4) STORAGE_KEY = []"
proof -
  let ?T = "1700000000000 :: nat"
  let ?a = "newMemo ?T []"
  let ?b = "newMemo ?T [?a]"
  let ?c = "newMemo ?T [?b]"
  define s1 where "s1 = final_state (init ?T ?T Map.empty example_page)"
  have i1: "init ?T ?T Map.empty example_page = Done s1"
    by (simp add: s1_def init_Done)
  have m1: "memos s1 = [?a, ?b]" "memoIndex s1 = 0" "list_items (page s1) = items_of [?a, ?b] 0"
    by (simp_all add: s1_def init_Done Let_def boot_memos_def readLacalStorage_def)
  have sy1: "synced s1" using m1 by (simp add: synced_def)
  have d1: "distinct (ids (memos s1))" using m1 by (simp add: show_nat_inj)
  define s2 where "s2 = final_state (clickDeleteMemo s1)"
  have i2: "clickDeleteMemo s1 = Done s2" and m2: "memos s2 = [?b]" "memoIndex s2 = 0"
    using clickDeleteMemo_Done [OF sy1 _ d1, of 0] m1 by (simp_all add: s2_def Let_def prev_index_def)
  define s3 where "s3 = final_state (clickAddMemo ?T s2)"
  have i3: "clickAddMemo ?T s2 = Done s3" and m3: "memos s3 = [?b, ?c]" "memoIndex s3 = 1"
    using m2 by (simp_all add: s3_def clickAddMemo_Done)
  have same: "memo_id ?c = memo_id ?b" by simp
  define s4 where "s4 = (save_memos (s3\<lparr>memos := []\<rparr>))\<lparr>memoIndex := 0\<rparr>"
  have "clickDeleteMemo s3 = Thrown TypeError s4"
    using m3 same by (simp add: clickDeleteMemo_def Let_def s4_def show_memo_def setMemoElement_def js_get_def
        on_view_outcome_def)
  moreover have "memos s4 = []" "readLacalStorage (storage s4) STORAGE_KEY = []"
    by (simp_all add: s4_def)
  ultimately show ?thesis
    using i1 i2 i3 m3 same by auto
qed

text \<open>
  C18. Finding: selecting an id that is not in the list does not select -1 silently: the handler throws after setting memoIndex to -1, and save and download keep throwing afterwards.
\<close>

theorem select_unknown_id_crashes:
  assumes "reachable s" and "x \<notin> set (ids (memos s))"
  shows "\<exists>s'. selectedMemo x s = Thrown TypeError s' \<and> memoIndex s' = -1 \<and>
     clickSaveMemo t s' = Thrown TypeError s' \<and> clickDownloadMemo s' = Thrown TypeError s'"
proof -
  have "synced s" using reachable_session_inv [OF assms(1)] by (simp add: session_inv_def)
  then show ?thesis
    using assms(2) by (simp add: selectedMemo_unknown clickSaveMemo_def clickDownloadMemo_def)
qed

theorem select_unknown_id_crashes_witness:
  "reachable boot_example \<and> ''x'' \<notin> set (ids (memos boot_example)) \<and>
   (\<exists>s'. selectedMemo ''x'' boot_example = Thrown TypeError s' \<and> memoIndex s' = -1)"
proof -
  have n: "''x'' \<notin> set (ids (memos boot_example))"
    by (simp add: boot_example_simps show_nat.simps digit_char_def cong: if_weak_cong)
  show ?thesis
    using select_unknown_id_crashes [OF reachable_boot_example n, of 0] reachable_boot_example n by auto
qed

text \<open>
  C19. The id newMemo assigns determines the timestamp and the list length when timestamps have the same number of digits.
\<close>

theorem newMemo_id_determined:
  assumes "length (show_nat t) = length (show_nat t')"
  shows "memo_id (newMemo t ms) = memo_id (newMemo t' ms') \<longleftrightarrow> t = t' \<and> length ms = length ms'"
  using assms by (rule newMemo_id_inj)

theorem newMemo_id_determined_witness:
  "length (show_nat 1700000000000) = length (show_nat 1700000000001) \<and>
   (memo_id (newMemo 1700000000000 []) = memo_id (newMemo 1700000000001 [])) = False"
proof -
  have h: "length (show_nat 1700000000000) = length (show_nat 1700000000001)"
    by (simp add: show_nat.simps digit_char_def cong: if_weak_cong)
  show ?thesis using newMemo_id_determined [OF h, of "[]" "[]"] h by simp
qed

text \<open>
  C20. Over any run of events the page can deliver from a reachable state, the number of memos at the end equals the number at the start plus the add clicks minus the deletes that removed a memo, and it never drops below one.
\<close>

theorem run_size_accounting:
  assumes "reachable s" and "valid_run es s"
  shows "length (memos (run es s)) + deletes_done es s = length (memos s) + length (filter is_add es) \<and>
     1 \<le> length (memos (run es s))"
proof -
  have "session_inv (run es s)" using valid_run_reachable [OF assms] by (rule reachable_session_inv)
  then have "memos (run es s) \<noteq> []" by (auto simp: session_inv_def synced_def)
  with run_length [OF assms] show ?thesis by (simp add: Suc_le_eq)
qed

theorem run_size_accounting_witness:
  "reachable boot_example \<and> valid_run [AddClick 1700000000002, DeleteClick] boot_example \<and>
   length (memos (run [AddClick 1700000000002, DeleteClick] boot_example)) +
     deletes_done [AddClick 1700000000002, DeleteClick] boot_example = 3"
proof -
  have v: "valid_run [AddClick 1700000000002, DeleteClick] boot_example"
    by (simp add: boot_example_simps ts13_def)
  show ?thesis
    using run_size_accounting [OF reachable_boot_example v] reachable_boot_example v
    by (simp add: boot_example_simps)
qed

text \<open>
  C21. The page refines the selection/edit state machine of the design: init starts it with selectedIndex 0 in Viewing mode, and from a reachable state every event the page can deliver completes, and the memo list, the selected index and the mode afterwards are those the abstract transition of the event gives.
\<close>

theorem page_refines_state_machine:
  assumes "reachable s" and "enabled e s"
  shows "(\<exists>s'. handle e s = Done s' \<and> abs_session s' = astep (abs_event e s) (abs_session s)) \<and>
     selectedIndex (abs_session (final_state (init t1 t2 st v))) = 0 \<and>
     mode (abs_session (final_state (init t1 t2 st v))) = Viewing"
proof -
  have inv: "session_inv s" using assms(1) by (rule reachable_session_inv)
  with handle_refines [OF inv assms(2)] show ?thesis by (simp add: init_refines)
qed

theorem page_refines_state_machine_witness:
  "reachable boot_example \<and> enabled EditClick boot_example \<and>
   (\<exists>s'. handle EditClick boot_example = Done s' \<and> mode (abs_session s') = Editing)"
proof -
  have e: "enabled EditClick boot_example"
    by (simp add: init_Done Let_def view_buttons_def setHiddenButton_def)
  show ?thesis
    using page_refines_state_machine [OF reachable_boot_example e, of 0 0 Map.empty example_page]
      reachable_boot_example e by auto
qed

text \<open>
  C22. Every run of the page from a reachable state is, through the abstraction, a run of the abstract state machine: folding the abstract transitions of the events the clicks stand for gives the memo list, the index and the mode at the end.
\<close>

theorem runs_refine_state_machine:
  assumes "reachable s" and "valid_run es s"
  shows "abs_session (run es s) = fold astep (abs_trace es s) (abs_session s)"
  using assms by (rule run_refines)

theorem runs_refine_state_machine_witness:
  "reachable boot_example \<and> valid_run [AddClick 1700000000002, DeleteClick] boot_example \<and>
   rmemos (abs_session (run [AddClick 1700000000002, DeleteClick] boot_example)) =
   rmemos (fold astep (abs_trace [AddClick 1700000000002, DeleteClick] boot_example) (abs_session boot_example))"
proof -
  have v: "valid_run [AddClick 1700000000002, DeleteClick] boot_example"
    by (simp add: boot_example_simps ts13_def)
  show ?thesis
    using runs_refine_state_machine [OF reachable_boot_example v] reachable_boot_example v by simp
qed

text \<open>
  C23. From every reachable state, every memo can be opened for editing: clicking its element and then the edit button are events the page delivers, and they leave that memo selected, shown in the fields, with the save button visible and both fields writable.
\<close>

theorem any_memo_can_be_edited:
  assumes "reachable s" and "k < length (memos s)"
  shows "valid_run [SelectItem k, EditClick] s \<and> memoIndex (run [SelectItem k, EditClick] s) = int k \<and>
     memos (run [SelectItem k, EditClick] s) = memos s \<and>
     title_value (page (run [SelectItem k, EditClick] s)) = title (memos s ! k) \<and>
     body_value (page (run [SelectItem k, EditClick] s)) = body (memos s ! k) \<and>
     \<not> save_hidden (page (run [SelectItem k, EditClick] s)) \<and>
     \<not> title_disabled (page (run [SelectItem k, EditClick] s)) \<and>
     \<not> body_disabled (page (run [SelectItem k, EditClick] s))"
proof -
  have inv: "session_inv s" using assms(1) by (rule reachable_session_inv)
  then obtain i where i: "memoIndex s = int i" "i < length (memos s)"
      "list_items (page s) = items_of (memos s) i" "distinct (ids (memos s))"
    by (rule session_inv_index)
  have sy: "synced s" using inv by (simp add: session_inv_def)
  have k: "k < length (list_items (page s))" using assms(2) i(3) by simp
  with session_inv_item [OF inv k] have "data_id (list_items (page s) ! k) = memo_id (memos s ! k)" by simp
  with k sy i(4) assms(2) show ?thesis
    by (simp add: selectedMemo_Done clickEditMemo_def view_buttons_def edit_buttons_def
        setHiddenButton_def setEditMode_def)
qed

theorem any_memo_can_be_edited_witness:
  "reachable boot_example \<and> 1 < length (memos boot_example) \<and>
   valid_run [SelectItem 1, EditClick] boot_example \<and> memoIndex (run [SelectItem 1, EditClick] boot_example) = 1"
  using any_memo_can_be_edited [OF reachable_boot_example, of 1] reachable_boot_example
  by (simp add: boot_example_simps)

text \<open>
  C24. The lookup of selectedMemo is the design's findIndexById: when the clicked id is in the list at position k the handler completes with memoIndex k, and when findIndexById reports not found the handler sets memoIndex to -1 and throws.
\<close>

theorem selectedMemo_is_findIndexById:
  assumes "reachable s"
  shows "(case repo_findIndexById x (memos s) of
            Some k \<Rightarrow> \<exists>s'. selectedMemo x s = Done s' \<and> memoIndex s' = int k
          | None \<Rightarrow> \<exists>s'. selectedMemo x s = Thrown TypeError s' \<and> memoIndex s' = -1)"
proof -
  have inv: "session_inv s" using assms by (rule reachable_session_inv)
  then obtain i where i: "memoIndex s = int i" "i < length (memos s)"
      "list_items (page s) = items_of (memos s) i" "distinct (ids (memos s))"
    by (rule session_inv_index)
  have sy: "synced s" using inv by (simp add: session_inv_def)
  show ?thesis
  proof (cases "repo_findIndexById x (memos s)")
    case None
    then have "x \<notin> set (ids (memos s))" by (simp add: repo_findIndexById_None)
    with sy None show ?thesis by (simp add: selectedMemo_unknown)
  next
    case (Some k)
    then have k: "k < length (memos s)" and x: "memo_id (memos s ! k) = x"
      using repo_findIndexById_Some by blast+
    from selectedMemo_Done [OF sy i(4) k] x Some show ?thesis by simp
  qed
qed

theorem selectedMemo_is_findIndexById_witness:
  "reachable boot_example \<and>
   (\<exists>s'. selectedMemo (memo_id (memos boot_example ! 1)) boot_example = Done s' \<and> memoIndex s' = 1)"
proof -
  have f: "repo_findIndexById (memo_id (memos boot_example ! 1)) (memos boot_example) = Some 1"
    by (simp add: boot_example_simps show_nat.simps digit_char_def cong: if_weak_cong)
  show ?thesis
    using selectedMemo_is_findIndexById [OF reachable_boot_example, of "memo_id (memos boot_example ! 1)"]
      reachable_boot_example f by simp
qed

text \<open>
  C25. Adding a memo and deleting it straight away is a round trip: from a reachable state with an advancing clock, both clicks are delivered, the memo list and the stored list are those before the add, and the selection moves to the last memo.
\<close>

theorem add_then_delete_round_trip:
  assumes "reachable s" and "clock_ok (AddClick t) s"
  shows "valid_run [AddClick t, DeleteClick] s \<and> memos (run [AddClick t, DeleteClick] s) = memos s \<and>
     readLacalStorage (storage (run [AddClick t, DeleteClick] s)) STORAGE_KEY = memos s \<and>
     memoIndex (run [AddClick t, DeleteClick] s) = int (length (memos s)) - 1"
proof -
  have inv: "session_inv s" using assms(1) by (rule reachable_session_inv)
  define s1 where "s1 = final_state (clickAddMemo t s)"
  have inv1: "session_inv s1" unfolding s1_def using inv assms(2) by (rule add_inv)
  let ?n = "length (memos s)"
  have n: "1 \<le> ?n" using inv by (auto simp: session_inv_def synced_def)
  have m1: "memos s1 = memos s @ [newMemo t (memos s)]" "memoIndex s1 = int ?n"
    by (simp_all add: s1_def clickAddMemo_Done)
  have sy1: "synced s1" and d1: "distinct (ids (memos s1))"
    using inv1 by (simp_all add: session_inv_def stored_ok_def)
  have two: "2 \<le> length (memos s1)" using n m1(1) by simp
  have "take ?n (memos s1) @ drop (Suc ?n) (memos s1) = memos s" by (simp add: m1(1))
  then have "memos (final_state (clickDeleteMemo s1)) = memos s \<and>
      readLacalStorage (storage (final_state (clickDeleteMemo s1))) STORAGE_KEY = memos s \<and>
      memoIndex (final_state (clickDeleteMemo s1)) = int ?n - 1"
    using n by (simp add: clickDeleteMemo_Done [OF sy1 m1(2) d1 two] Let_def of_nat_diff)
  moreover have "valid_run [AddClick t, DeleteClick] s" using assms(2) by simp
  ultimately show ?thesis by (simp add: s1_def)
qed

theorem add_then_delete_round_trip_witness:
  "reachable boot_example \<and> clock_ok (AddClick 1700000000002) boot_example \<and>
   memos (run [AddClick 1700000000002, DeleteClick] boot_example) = memos boot_example"
proof -
  have c: "clock_ok (AddClick 1700000000002) boot_example" by (simp add: boot_example_simps ts13_def)
  show ?thesis using add_then_delete_round_trip [OF reachable_boot_example c] reachable_boot_example c by simp
qed

text \<open>
  C26. In every reachable state every memo is well formed: createdAt is a 13-digit millisecond timestamp, the id starts with its decimal digits, and updateAt is not earlier than createdAt.
\<close>

theorem memos_well_formed:
  assumes "reachable s"
  shows "\<forall>m \<in> set (memos s). 10 ^ 12 \<le> createdAt m \<and> createdAt m < 10 ^ 13 \<and>
     take 13 (memo_id m) = show_nat (createdAt m) \<and> createdAt m \<le> updateAt m"
  using reachable_session_inv [OF assms]
  by (auto simp: session_inv_def stored_ok_def list_all_iff memo_ok_def ts13_def)

theorem memos_well_formed_witness:
  "reachable boot_example \<and> createdAt (memos boot_example ! 0) \<le> updateAt (memos boot_example ! 0)"
  using memos_well_formed [OF reachable_boot_example] reachable_boot_example
  by (simp add: boot_example_simps)

text \<open>
  C27. Presentation sync: in every reachable state in Viewing mode the preview region was last asked to render the body of the selected memo.
\<close>

theorem preview_shows_selected_body:
  assumes "reachable s" and "save_hidden (page s)"
  shows "preview_src (page s) = Some (body (memos s ! nat (memoIndex s)))"
  using reachable_preview_synced [OF assms(1)] assms(2) by (simp add: preview_synced_def)

theorem preview_shows_selected_body_witness:
  "reachable boot_example \<and> save_hidden (page boot_example) \<and> preview_src (page boot_example) = Some []"
proof -
  have h: "save_hidden (page boot_example)" by (simp add: init_Done Let_def)
  show ?thesis
    using preview_shows_selected_body [OF reachable_boot_example h] reachable_boot_example h
    by (simp add: boot_example_simps)
qed

text \<open>
  C28. Finding: init does not call setEditMode, so the fields keep the state the HTML gives them. With writable fields in the HTML, the page starts in Viewing mode (save hidden, edit shown) while the title field still takes input, against the read-only fields the design requires in Viewing mode; typing there changes the field away from the selected memo's title.
\<close>

theorem init_leaves_fields_writable:
  "\<exists>s s'. init 1700000000000 1700000000001 Map.empty (example_page\<lparr>title_disabled := False\<rparr>) = Done s \<and>
     save_hidden (page s) \<and> \<not> edit_hidden (page s) \<and> enabled (TypeTitle ''x'') s \<and>
     handle (TypeTitle ''x'') s = Done s' \<and> save_hidden (page s') \<and>
     title_value (page s') \<noteq> title (memos s' ! nat (memoIndex s'))"
  by (simp add: init_Done Let_def boot_memos_def readLacalStorage_def view_buttons_def setHiddenButton_def
      example_page_def)

text \<open>
  C29. A new memo's id has 13 digits of timestamp followed by the decimal digits of the list length: with a 13-digit clock and a list of 10^k to 10^(k+1) - 1 memos (or none, for k = 0), the id has exactly 14 + k characters.
\<close>

theorem newMemo_id_length:
  assumes "ts13 t" and "10 ^ k \<le> max 1 (length ms)" and "max 1 (length ms) < 10 ^ Suc k"
  shows "length (memo_id (newMemo t ms)) = 14 + k"
proof (cases "ms = []")
  case True
  with assms(2) have "10 ^ k \<le> (1::nat)" by simp
  then have "k = 0" using one_less_power [of "10::nat" k] by (cases k) simp_all
  moreover have "show_nat 0 = ''0''" by (simp add: show_nat.simps digit_char_def cong: if_weak_cong)
  ultimately show ?thesis using True assms(1) by simp
next
  case False
  then have "max 1 (length ms) = length ms" by (simp add: Suc_le_eq)
  with assms(2,3) have "10 ^ k \<le> length ms" "length ms < 10 ^ Suc k" by simp_all
  then have "length (show_nat (length ms)) = Suc k" by (rule length_show_nat)
  with assms(1) show ?thesis by simp
qed

theorem newMemo_id_length_witness:
  "ts13 1700000000000 \<and> 10 ^ 1 \<le> max 1 (length (replicate 12 (newMemo 1700000000000 []))) \<and>
   max 1 (length (replicate 12 (newMemo 1700000000000 []))) < 10 ^ Suc 1 \<and>
   length (memo_id (newMemo 1700000000001 (replicate 12 (newMemo 1700000000000 [])))) = 15"
  using newMemo_id_length [of 1700000000001 1 "replicate 12 (newMemo 1700000000000 [])"]
  by (simp add: ts13_def)

text \<open>
  C30. Finding: after a selection of an unknown id has thrown with memoIndex -1, the page is stuck until a memo is added: every further selection throws at its first statement without changing anything, delete throws (with two or more memos), and an add click restores a well-formed state. (Save and download throw too, C18; edit and typing leave memoIndex at -1.)
\<close>

theorem unknown_select_blocks_until_add:
  assumes "reachable s" and "x \<notin> set (ids (memos s))" and "clock_ok (AddClick t) s"
  shows "\<exists>s'. selectedMemo x s = Thrown TypeError s' \<and> memos s' = memos s \<and>
     (\<forall>y. selectedMemo y s' = Thrown TypeError s') \<and>
     (2 \<le> length (memos s) \<longrightarrow> clickDeleteMemo s' = Thrown TypeError s') \<and>
     session_inv (final_state (clickAddMemo t s'))"
proof -
  have inv: "session_inv s" using assms(1) by (rule reachable_session_inv)
  then have sy: "synced s" and ok: "stored_ok (memos s)" by (simp_all add: session_inv_def)
  define s' where "s' = s\<lparr>memoIndex := -1, page := (page s)\<lparr>list_items := map newMemoElement (memos s)\<rparr>\<rparr>"
  have thrown: "selectedMemo x s = Thrown TypeError s'"
    unfolding s'_def using sy assms(2) by (rule selectedMemo_unknown)
  have "selectedMemo y s' = Thrown TypeError s'" for y
    by (simp add: s'_def selectedMemo_def active_style_def on_view_outcome_def setActiveStyle_def)
  moreover have "2 \<le> length (memos s) \<longrightarrow> clickDeleteMemo s' = Thrown TypeError s'"
    by (simp add: s'_def clickDeleteMemo_def)
  moreover have "session_inv (final_state (clickAddMemo t s'))"
    using ok assms(3) by (intro add_restores_inv) (simp_all add: s'_def)
  ultimately show ?thesis using thrown by (auto simp: s'_def)
qed

theorem unknown_select_blocks_until_add_witness:
  "reachable boot_example \<and> ''x'' \<notin> set (ids (memos boot_example)) \<and>
   clock_ok (AddClick 1700000000002) boot_example \<and>
   (\<exists>s'. selectedMemo ''x'' boot_example = Thrown TypeError s' \<and> selectedMemo (memo_id (memos boot_example ! 0)) s' = Thrown TypeError s')"
proof -
  have n: "''x'' \<notin> set (ids (memos boot_example))"
    by (simp add: boot_example_simps show_nat.simps digit_char_def cong: if_weak_cong)
  have c: "clock_ok (AddClick 1700000000002) boot_example" by (simp add: boot_example_simps ts13_def)
  show ?thesis
    using unknown_select_blocks_until_add [OF reachable_boot_example n c] reachable_boot_example n c by blast
qed

text \<open>
  C31. Presentation sync of the fields: in every reachable state in Viewing mode, a read-only title field shows the selected memo's title and a read-only body field its body.
\<close>

theorem viewing_fields_show_selected:
  assumes "reachable s" and "save_hidden (page s)"
  shows "(title_disabled (page s) \<longrightarrow> title_value (page s) = title (memos s ! nat (memoIndex s))) \<and>
     (body_disabled (page s) \<longrightarrow> body_value (page s) = body (memos s ! nat (memoIndex s)))"
  using reachable_preview_synced [OF assms(1)] assms(2) by (simp add: preview_synced_def)

theorem viewing_fields_show_selected_witness:
  "reachable boot_example \<and> save_hidden (page boot_example) \<and> title_disabled (page boot_example) \<and>
   title_value (page boot_example) = ''new memo 1''"
proof -
  have h: "save_hidden (page boot_example)" "title_disabled (page boot_example)"
    by (simp_all add: init_Done Let_def example_page_def view_buttons_def setHiddenButton_def)
  have t: "title (memos boot_example ! nat (memoIndex boot_example)) = ''new memo 1''"
    by (simp add: boot_example_simps show_nat.simps digit_char_def cong: if_weak_cong)
  show ?thesis
    using viewing_fields_show_selected [OF reachable_boot_example h(1)] reachable_boot_example h t by simp
qed

text \<open>
  C32. A new memo's id can coincide with the id of a memo present in a reachable state only if the clock returns that memo's creation time: with a 13-digit clock, a collision needs a memo created in the same millisecond. (C17 shows that such a collision does happen.)
\<close>

theorem id_collision_needs_same_millisecond:
  assumes "reachable s" and "ts13 t" and "memo_id (newMemo t (memos s)) \<in> set (ids (memos s))"
  shows "\<exists>m \<in> set (memos s). createdAt m = t"
proof -
  have ok: "list_all memo_ok (memos s)"
    using reachable_session_inv [OF assms(1)] by (simp add: session_inv_def stored_ok_def)
  from assms(3) obtain m where m: "m \<in> set (memos s)" "memo_id (newMemo t (memos s)) = memo_id m" by auto
  with ok have "memo_ok m" by (simp add: list_all_iff)
  with assms(2) m have "createdAt m = t" by (intro newMemo_same_id_stamp) simp_all
  with m show ?thesis by blast
qed

theorem id_collision_needs_same_millisecond_witness:
  "\<exists>s. reachable s \<and> ts13 1700000000001 \<and>
     memo_id (newMemo 1700000000001 (memos s)) \<in> set (ids (memos s)) \<and>
     (\<exists>m \<in> set (memos s). createdAt m = 1700000000001)"
proof -
  let ?a = "newMemo 1700000000000 []"
  let ?b = "newMemo 1700000000001 [?a]"
  have r: "reachable boot_example" by (rule reachable_boot_example)
  then have inv: "session_inv boot_example" by (rule reachable_session_inv)
  then have sy: "synced boot_example" and d: "distinct (ids (memos boot_example))"
    by (simp_all add: session_inv_def stored_ok_def)
  have i: "memoIndex boot_example = int 0" by (simp add: boot_example_simps)
  have two: "2 \<le> length (memos boot_example)" by (simp add: boot_example_simps)
  define s2 where "s2 = final_state (handle DeleteClick boot_example)"
  have r2: "reachable s2" unfolding s2_def by (rule reachable.step [OF r]) simp_all
  have m2: "memos s2 = [?b]"
    by (simp add: s2_def clickDeleteMemo_Done [OF sy i d two] Let_def boot_example_simps)
  have t: "ts13 1700000000001" by (simp add: ts13_def)
  have c: "memo_id (newMemo 1700000000001 (memos s2)) \<in> set (ids (memos s2))"
    by (simp add: m2)
  show ?thesis
    using id_collision_needs_same_millisecond [OF r2 t c] r2 t c by blast
qed

text \<open>
  C33. Reloading the page restores it: from every reachable state, running init on the current local storage gives back the same memo list, selects the first memo, writes nothing, and is again a reachable state.
\<close>

theorem reload_restores_memos:
  assumes "reachable s" and "ts13 t1" and "ts13 t2"
  shows "memos (final_state (init t1 t2 (storage s) v)) = memos s \<and>
     storage (final_state (init t1 t2 (storage s) v)) = storage s \<and>
     memoIndex (final_state (init t1 t2 (storage s) v)) = 0 \<and>
     reachable (final_state (init t1 t2 (storage s) v))"
proof -
  have inv: "session_inv s" using assms(1) by (rule reachable_session_inv)
  then have rd: "readLacalStorage (storage s) STORAGE_KEY = memos s" and ne: "memos s \<noteq> []"
    and ok: "stored_ok (memos s)" by (auto simp: session_inv_def synced_def)
  have "reachable (final_state (init t1 t2 (storage s) v))"
    using ok rd assms(2,3) by (intro reachable.boot) simp_all
  with rd ne show ?thesis by (simp add: init_Done Let_def boot_memos_def)
qed

theorem reload_restores_memos_witness:
  "reachable boot_example \<and> ts13 1700000000005 \<and> ts13 1700000000006 \<and>
   memos (final_state (init 1700000000005 1700000000006 (storage boot_example) example_page)) = memos boot_example"
proof -
  have t: "ts13 1700000000005" "ts13 1700000000006" by (simp_all add: ts13_def)
  show ?thesis using reload_restores_memos [OF reachable_boot_example t] reachable_boot_example t by simp
qed

text \<open>
  C34. With two tabs sharing local storage, a handler in one tab never merges: if it writes (add, save, or delete with two or more memos) the store afterwards holds exactly that tab's memo list, whatever the other tab had written before, and otherwise the store is untouched; the other tab's globals and page do not change.
\<close>

theorem tab_step_overwrites_store:
  assumes "synced (tab_state x b)" and "distinct (ids (memos (tab_state x b)))"
  shows "shared (bstep x e b) =
       (if writes e (tab_state x b) then saveLocalStorage STORAGE_KEY (memos (tab_state x (bstep x e b))) (shared b)
        else shared b) \<and>
     tab_session (other x) (bstep x e b) = tab_session (other x) b"
  using handle_storage [OF assms, of e] by (simp add: bstep_def)

theorem tab_step_overwrites_store_witness:
  "synced (tab_state TabA (bopen TabA 1700000000000 1700000000001 example_page example_browser)) \<and>
   distinct (ids (memos (tab_state TabA (bopen TabA 1700000000000 1700000000001 example_page example_browser)))) \<and>
   readLacalStorage (shared (bstep TabA (AddClick 1700000000002) (bopen TabA 1700000000000 1700000000001 example_page example_browser)))
     STORAGE_KEY = memos (tab_state TabA (bstep TabA (AddClick 1700000000002) (bopen TabA 1700000000000 1700000000001 example_page example_browser)))"
proof -
  have b: "tab_state TabA (bopen TabA 1700000000000 1700000000001 example_page example_browser) = boot_example"
    by (simp only: bopen_def tab_state_set_tab) (simp add: example_browser_def)
  have inv: "session_inv boot_example" by (rule reachable_session_inv [OF reachable_boot_example])
  then have sy: "synced boot_example" and d: "distinct (ids (memos boot_example))"
    by (simp_all add: session_inv_def stored_ok_def)
  show ?thesis
    using tab_step_overwrites_store [of TabA "bopen TabA 1700000000000 1700000000001 example_page example_browser"
        "AddClick 1700000000002"] b sy d
    by simp
qed

text \<open>
  C35. Finding: two tabs lose each other's updates. Tab A loads the two default memos, tab B loads the same list, A adds a third memo (and persists three), then B edits and saves its first memo: B writes its own two-memo list over the store. A still shows three memos, but the store, and any tab reloaded afterwards, has two: A's new memo is gone. Every step is an event its tab delivers, with an advancing clock.
\<close>

theorem two_tabs_lose_update:
  "let b2 = bopen TabB 1700000000002 1700000000003 example_page
              (bopen TabA 1700000000000 1700000000001 example_page example_browser);
       b3 = bstep TabA (AddClick 1700000000004) b2;
       b4 = bstep TabB EditClick b3;
       b5 = bstep TabB (SaveClick 1700000000005) b4
   in enabled (AddClick 1700000000004) (tab_state TabA b2) \<and> clock_ok (AddClick 1700000000004) (tab_state TabA b2) \<and>
      enabled EditClick (tab_state TabB b3) \<and>
      enabled (SaveClick 1700000000005) (tab_state TabB b4) \<and> clock_ok (SaveClick 1700000000005) (tab_state TabB b4) \<and>
      readLacalStorage (shared b3) STORAGE_KEY = memos (tabA b3) \<and> length (memos (tabA b5)) = 3 \<and>
      readLacalStorage (shared b5) STORAGE_KEY = memos (tabB b5) \<and> length (memos (tabB b5)) = 2 \<and>
      memo_id (last (memos (tabA b5))) \<notin> set (ids (readLacalStorage (shared b5) STORAGE_KEY)) \<and>
      length (memos (final_state (init 1700000000006 1700000000007 (shared b5) example_page))) = 2"
proof -
  let ?a = "newMemo 1700000000000 []"
  let ?b = "newMemo 1700000000001 [?a]"
  let ?c = "newMemo 1700000000004 [?a, ?b]"
  define b1 where "b1 = bopen TabA 1700000000000 1700000000001 example_page example_browser"
  define b2 where "b2 = bopen TabB 1700000000002 1700000000003 example_page b1"
  define b3 where "b3 = bstep TabA (AddClick 1700000000004) b2"
  define b4 where "b4 = bstep TabB EditClick b3"
  define b5 where "b5 = bstep TabB (SaveClick 1700000000005) b4"
  let ?s1 = boot_example
  have inv: "session_inv ?s1" by (rule reachable_session_inv [OF reachable_boot_example])
  then have rd1: "readLacalStorage (storage ?s1) STORAGE_KEY = [?a, ?b]"
    by (simp add: session_inv_def boot_example_simps)
  have ms1: "memos ?s1 = [?a, ?b]" "memoIndex ?s1 = 0" by (simp_all add: boot_example_simps)
  have A1: "tabA b1 = ?s1" "shared b1 = storage ?s1"
    by (simp_all add: b1_def bopen_def example_browser_def)
  define sB where "sB = final_state (init 1700000000002 1700000000003 (storage ?s1) example_page)"
  have sB: "memos sB = [?a, ?b]" "memoIndex sB = 0" "storage sB = storage ?s1" "synced sB"
    using rd1 by (simp_all add: sB_def init_Done Let_def boot_memos_def synced_def)
  have sBe: "\<not> edit_hidden (page sB)"
    by (simp add: sB_def init_Done Let_def view_buttons_def setHiddenButton_def)
  have A2: "tabA b2 = ?s1" "tabB b2 = sB" "shared b2 = storage ?s1"
    using A1 sB(3) by (simp_all add: b2_def bopen_def sB_def)
  have tA2: "tab_state TabA b2 = ?s1" using A2 by (simp add: tab_state_def)
  define s3 where "s3 = final_state (clickAddMemo 1700000000004 ?s1)"
  have s3: "memos s3 = [?a, ?b, ?c]" "storage s3 = saveLocalStorage STORAGE_KEY [?a, ?b, ?c] (storage ?s1)"
    by (simp_all add: s3_def clickAddMemo_Done ms1)
  have A3: "tabA b3 = s3" "tabB b3 = sB" "shared b3 = storage s3"
    using tA2 A2 by (simp_all add: b3_def bstep_def s3_def)
  define s4 where "s4 = clickEditMemo (sB\<lparr>storage := storage s3\<rparr>)"
  have A4: "tabA b4 = s3" "tabB b4 = s4" "shared b4 = storage s3"
    using A3 by (simp_all add: b4_def bstep_def s4_def tab_state_def clickEditMemo_def)
  have tB4: "tab_state TabB b4 = s4" using A4 by (simp add: tab_state_def s4_def clickEditMemo_def)
  have sy4: "synced s4" "memoIndex s4 = int 0" "memos s4 = [?a, ?b]"
    using sB by (simp_all add: s4_def clickEditMemo_def synced_def edit_buttons_def setHiddenButton_def setEditMode_def)
  have save4: "\<not> save_hidden (page s4)"
    by (simp add: s4_def clickEditMemo_def edit_buttons_def setHiddenButton_def)
  have st4: "storage s4 = storage s3" by (simp add: s4_def clickEditMemo_def)
  define a' where "a' = ?a\<lparr>title := title_value (page s4), body := body_value (page s4), updateAt := 1700000000005\<rparr>"
  define s5 where "s5 = final_state (clickSaveMemo 1700000000005 s4)"
  have s5: "memos s5 = [a', ?b]" "storage s5 = saveLocalStorage STORAGE_KEY [a', ?b] (storage s3)"
    using sy4 st4 by (simp_all add: s5_def clickSaveMemo_Done [OF sy4(1,2)] Let_def a'_def)
  have A5: "tabA b5 = s3" "tabB b5 = s5" "shared b5 = storage s5"
    using A4 tB4 by (simp_all add: b5_def bstep_def s5_def)
  have ida': "memo_id a' = memo_id ?a" by (simp add: a'_def)
  have fresh: "memo_id ?c \<noteq> memo_id ?a" "memo_id ?c \<noteq> memo_id ?b"
    by (simp_all add: show_nat.simps digit_char_def cong: if_weak_cong)
  have reopen: "memos (final_state (init 1700000000006 1700000000007 (shared b5) example_page)) = [a', ?b]"
    using A5 s5 by (simp add: init_Done Let_def boot_memos_def)
  have c1: "clock_ok (AddClick 1700000000004) (tab_state TabA b2)" using tA2 ms1 by (simp add: ts13_def)
  have c2: "enabled EditClick (tab_state TabB b3)" using A3 sBe by (simp add: tab_state_def)
  have c3: "enabled (SaveClick 1700000000005) (tab_state TabB b4)" "clock_ok (SaveClick 1700000000005) (tab_state TabB b4)"
    using tB4 save4 sy4(3) by simp_all
  have c4: "readLacalStorage (shared b3) STORAGE_KEY = memos (tabA b3)" "length (memos (tabA b5)) = 3"
    using A3 A5 s3 by simp_all
  have c5: "readLacalStorage (shared b5) STORAGE_KEY = memos (tabB b5)" "length (memos (tabB b5)) = 2"
    using A5 s5 by simp_all
  have c6: "memo_id (last (memos (tabA b5))) \<notin> set (ids (readLacalStorage (shared b5) STORAGE_KEY))"
    using A5 s3 s5 ida' fresh by simp
  have c7: "length (memos (final_state (init 1700000000006 1700000000007 (shared b5) example_page))) = 2"
    using reopen by simp
  show ?thesis
    unfolding Let_def b1_def [symmetric] b2_def [symmetric] b3_def [symmetric] b4_def [symmetric] b5_def [symmetric]
    using c1 c2 c3 c4 c5 c6 c7 by simp
qed

text \<open>
  C36. From every reachable state the user can delete down to a single memo: clicking delete once less often than there are memos is a run the page delivers, and it ends with exactly one memo (a further delete is refused, C7).
\<close>

theorem deletes_reach_single_memo:
  assumes "reachable s"
  shows "valid_run (replicate (length (memos s) - 1) DeleteClick) s \<and>
     length (memos (run (replicate (length (memos s) - 1) DeleteClick) s)) = 1"
proof -
  have "reachable s \<Longrightarrow> length (memos s) = Suc n \<Longrightarrow>
      valid_run (replicate n DeleteClick) s \<and> length (memos (run (replicate n DeleteClick) s)) = 1" for n s
  proof (induction n arbitrary: s)
    case 0
    then show ?case by simp
  next
    case (Suc n)
    let ?s' = "final_state (handle DeleteClick s)"
    have r': "reachable ?s'" using Suc.prems(1) by (rule reachable.step) simp_all
    have "length (memos ?s') + 1 = length (memos s)"
      using handle_length [OF reachable_session_inv [OF Suc.prems(1)], of DeleteClick] Suc.prems(2)
      by (simp add: removes_def)
    with Suc.prems(2) have "length (memos ?s') = Suc n" by simp
    with Suc.IH [OF r'] show ?case by simp
  qed
  moreover have "memos s \<noteq> []"
    using reachable_session_inv [OF assms] by (auto simp: session_inv_def synced_def)
  ultimately show ?thesis using assms by (cases "length (memos s)") simp_all
qed

theorem deletes_reach_single_memo_witness:
  "reachable boot_example \<and> valid_run [DeleteClick] boot_example \<and>
   length (memos (run [DeleteClick] boot_example)) = 1"
  using deletes_reach_single_memo [OF reachable_boot_example] reachable_boot_example
  by (simp add: boot_example_simps)

text \<open>
  C37. The second call setActiveStyle(memoIndex + 1, true) in clickSaveMemo (lines 233-236) is redundant: in every state, including those where the handler throws, clickSaveMemo has exactly the outcome of the same handler with a single call.
\<close>

theorem save_second_highlight_redundant:
  "clickSaveMemo now s = clickSaveMemo_once now s"
  by (simp add: clickSaveMemo_def clickSaveMemo_once_def Let_def active_style_twice split: option.split)

end
